theory Spec2Isabelle
  imports Main "HOL-Library.Sublist"
begin

section \<open>Python values used by \<^verbatim>\<open>docs/generate_md.py\<close>\<close>

text \<open>
  The script is a Python module without functions: it binds \<^verbatim>\<open>BQ\<close>, builds the dict
  \<^verbatim>\<open>files_content\<close> from five formatted string literals, and writes every item of the
  dict into a zip file, printing as it goes.

  A Python \<^verbatim>\<open>str\<close> is represented by its UTF-8 encoding, a \<^typ>\<open>string\<close> of bytes:
  these are the bytes the source file holds between the quotes, and the bytes
  \<^verbatim>\<open>ZipFile.writestr\<close> stores for a \<^verbatim>\<open>str\<close> argument. Bytes outside printable ASCII
  are written \<open>CHR 0xNN\<close>. No operation of the script counts characters or indexes into
  a string, and the only characters the f-string syntax inspects are the ASCII braces,
  which never occur inside a multi-byte UTF-8 sequence.
\<close>

datatype py_error =
    SyntaxError
  | NameError string
  | OSError string

subsection \<open>Formatted string literals\<close>

text \<open>
  The body of an f-string is scanned from left to right. A doubled brace stands for one
  brace, a single opening brace starts a replacement field that runs to the next closing
  brace, and a single closing brace outside a field is an error. The fields of the script
  hold a bare variable name and nothing else (no conversion, no format specification,
  no nested expression), so a field is looked up in the variables in scope; a name that
  is not bound raises \<^verbatim>\<open>NameError\<close>. The source contains no backslash, so escape
  sequences are not modelled.
\<close>

datatype fmode = Literal | Opening | InField string | Closing

fun fstring_scan :: "(string \<rightharpoonup> string) \<Rightarrow> fmode \<Rightarrow> string \<Rightarrow> py_error + string" where
  "fstring_scan env Literal [] = Inr []"
| "fstring_scan env Literal (c # cs) =
     (if c = CHR ''{'' then fstring_scan env Opening cs
      else if c = CHR ''}'' then fstring_scan env Closing cs
      else map_sum id ((#) c) (fstring_scan env Literal cs))"
| "fstring_scan env Opening [] = Inl SyntaxError"
| "fstring_scan env Opening (c # cs) =
     (if c = CHR ''{'' then map_sum id ((#) c) (fstring_scan env Literal cs)
      else if c = CHR ''}'' then Inl SyntaxError
      else fstring_scan env (InField [c]) cs)"
| "fstring_scan env (InField nm) [] = Inl SyntaxError"
| "fstring_scan env (InField nm) (c # cs) =
     (if c = CHR ''}'' then
        (case env nm of
           None \<Rightarrow> Inl (NameError nm)
         | Some v \<Rightarrow> map_sum id ((@) v) (fstring_scan env Literal cs))
      else fstring_scan env (InField (nm @ [c])) cs)"
| "fstring_scan env Closing [] = Inl SyntaxError"
| "fstring_scan env Closing (c # cs) =
     (if c = CHR ''}'' then map_sum id ((#) c) (fstring_scan env Literal cs)
      else Inl SyntaxError)"

definition fstring :: "(string \<rightharpoonup> string) \<Rightarrow> string \<Rightarrow> py_error + string" where
  "fstring env body = fstring_scan env Literal body"

subsection \<open>Dictionaries\<close>

text \<open>
  A \<^verbatim>\<open>dict\<close> keeps its items in insertion order, so it is an association list.
  Storing under a key that is present replaces the value where the key stands; storing
  under a new key appends. A dict display \<^verbatim>\<open>{k1: v1, k2: v2, ...}\<close> evaluates its items
  from left to right and stores each one in turn; an item whose value raises ends the
  display with that exception. Nothing in a display looks for a repeated key.
\<close>

primrec dict_setitem :: "('k \<times> 'v) list \<Rightarrow> 'k \<Rightarrow> 'v \<Rightarrow> ('k \<times> 'v) list" where
  "dict_setitem [] k v = [(k, v)]"
| "dict_setitem (p # ps) k v =
     (if fst p = k then (fst p, v) # ps else p # dict_setitem ps k v)"

fun dict_display :: "('k \<times> (py_error + 'v)) list \<Rightarrow> ('k \<times> 'v) list \<Rightarrow> py_error + ('k \<times> 'v) list" where
  "dict_display [] d = Inr d"
| "dict_display ((k, Inl e) # rest) d = Inl e"
| "dict_display ((k, Inr v) # rest) d = dict_display rest (dict_setitem d k v)"

definition dict_items :: "('k \<times> 'v) list \<Rightarrow> ('k \<times> 'v) list" where
  "dict_items d = d"

section \<open>The document table\<close>

text \<open>Line 5: \<^verbatim>\<open>BQ\<close> is three backticks. It is the only variable the documents refer to.\<close>

definition BQ :: string where
  "BQ = ''```''"

definition module_globals :: "string \<rightharpoonup> string" where
  "module_globals = [''BQ'' \<mapsto> BQ]"

text \<open>The f-string of \<^verbatim>\<open>README.md\<close>: source lines 8 to 25, one list element per line.\<close>

definition README_lines :: "string list" where
  \<open>README_lines = [
    ''# Local Sync Board (Cloud Edition)\<newline>'',
    ''\<newline>'',
    ''## '' @ [CHR 0xF0, CHR 0x9F, CHR 0x8E, CHR 0xAF] @ '' '' @
      [CHR 0xE3, CHR 0x83, CHR 0x97, CHR 0xE3, CHR 0x83, CHR 0xAD, CHR 0xE3, CHR 0x82, CHR 0xB8,
       CHR 0xE3, CHR 0x82, CHR 0xA7, CHR 0xE3, CHR 0x82, CHR 0xAF, CHR 0xE3, CHR 0x83, CHR 0x88,
       CHR 0xE6, CHR 0xA6, CHR 0x82, CHR 0xE8, CHR 0xA6, CHR 0x81] @
      ''\<newline>'',
    [CHR 0xE3, CHR 0x82, CHR 0xA2, CHR 0xE3, CHR 0x83, CHR 0x8A, CHR 0xE3, CHR 0x83, CHR 0xAD,
       CHR 0xE3, CHR 0x82, CHR 0xB0, CHR 0xE3, CHR 0x82, CHR 0xB2, CHR 0xE3, CHR 0x83, CHR 0xBC,
       CHR 0xE3, CHR 0x83, CHR 0xA0, CHR 0xEF, CHR 0xBC, CHR 0x88, CHR 0xE9, CHR 0xBA, CHR 0xBB,
       CHR 0xE9, CHR 0x9B, CHR 0x80, CHR 0xE3, CHR 0x80, CHR 0x81, CHR 0xE3, CHR 0x83, CHR 0x9C,
       CHR 0xE3, CHR 0x83, CHR 0xBC, CHR 0xE3, CHR 0x83, CHR 0x89, CHR 0xE3, CHR 0x82, CHR 0xB2,
       CHR 0xE3, CHR 0x83, CHR 0xBC, CHR 0xE3, CHR 0x83, CHR 0xA0, CHR 0xE7, CHR 0xAD, CHR 0x89,
       CHR 0xEF, CHR 0xBC, CHR 0x89, CHR 0xE3, CHR 0x81, CHR 0xAE, CHR 0xE3, CHR 0x80, CHR 0x8C,
       CHR 0xE7, CHR 0x82, CHR 0xB9, CHR 0xE6, CHR 0x95, CHR 0xB0, CHR 0xE3, CHR 0x83, CHR 0xBB,
       CHR 0xE5, CHR 0xA4, CHR 0x89, CHR 0xE6, CHR 0x95, CHR 0xB0, CHR 0xE7, CHR 0xAE, CHR 0xA1,
       CHR 0xE7, CHR 0x90, CHR 0x86, CHR 0xE3, CHR 0x80, CHR 0x8D, CHR 0xE3, CHR 0x82, CHR 0x92,
       CHR 0xE3, CHR 0x80, CHR 0x81, CHR 0xE3, CHR 0x82, CHR 0xB9, CHR 0xE3, CHR 0x83, CHR 0x9E,
       CHR 0xE3, CHR 0x83, CHR 0xBC, CHR 0xE3, CHR 0x83, CHR 0x88, CHR 0xE3, CHR 0x83, CHR 0x95,
       CHR 0xE3, CHR 0x82, CHR 0xA9, CHR 0xE3, CHR 0x83, CHR 0xB3, CHR 0xE5, CHR 0x90, CHR 0x8C,
       CHR 0xE5, CHR 0xA3, CHR 0xAB, CHR 0xE3, CHR 0x81, CHR 0xA7, CHR 0xE3, CHR 0x83, CHR 0xAA,
       CHR 0xE3, CHR 0x82, CHR 0xA2, CHR 0xE3, CHR 0x83, CHR 0xAB, CHR 0xE3, CHR 0x82, CHR 0xBF,
       CHR 0xE3, CHR 0x82, CHR 0xA4, CHR 0xE3, CHR 0x83, CHR 0xA0, CHR 0xE3, CHR 0x81, CHR 0xAB,
       CHR 0xE5, CHR 0x90, CHR 0x8C, CHR 0xE6, CHR 0x9C, CHR 0x9F, CHR 0xE3, CHR 0x81, CHR 0x99,
       CHR 0xE3, CHR 0x82, CHR 0x8B, CHR 0xE3, CHR 0x82, CHR 0xB5, CHR 0xE3, CHR 0x83, CHR 0x9D,
       CHR 0xE3, CHR 0x83, CHR 0xBC, CHR 0xE3, CHR 0x83, CHR 0x88, CHR 0xE3, CHR 0x82, CHR 0xA2,
       CHR 0xE3, CHR 0x83, CHR 0x97, CHR 0xE3, CHR 0x83, CHR 0xAA, CHR 0xE3, CHR 0x81, CHR 0xA7,
       CHR 0xE3, CHR 0x81, CHR 0x99, CHR 0xE3, CHR 0x80, CHR 0x82] @
      ''\<newline>'',
    ''Supabase (BaaS) '' @
      [CHR 0xE3, CHR 0x82, CHR 0x92, CHR 0xE3, CHR 0x83, CHR 0x90, CHR 0xE3, CHR 0x83, CHR 0x83,
       CHR 0xE3, CHR 0x82, CHR 0xAF, CHR 0xE3, CHR 0x82, CHR 0xA8, CHR 0xE3, CHR 0x83, CHR 0xB3,
       CHR 0xE3, CHR 0x83, CHR 0x89, CHR 0xE3, CHR 0x81, CHR 0xAB, CHR 0xE6, CHR 0x8E, CHR 0xA1,
       CHR 0xE7, CHR 0x94, CHR 0xA8, CHR 0xE3, CHR 0x81, CHR 0x97, CHR 0xE3, CHR 0x80, CHR 0x81] @
      ''QR'' @
      [CHR 0xE3, CHR 0x82, CHR 0xB3, CHR 0xE3, CHR 0x83, CHR 0xBC, CHR 0xE3, CHR 0x83, CHR 0x89,
       CHR 0xE3, CHR 0x82, CHR 0x84, CHR 0xE3, CHR 0x83, CHR 0xAB, CHR 0xE3, CHR 0x83, CHR 0xBC,
       CHR 0xE3, CHR 0x83, CHR 0xA0] @
      ''ID'' @
      [CHR 0xE3, CHR 0x81, CHR 0xAB, CHR 0xE3, CHR 0x82, CHR 0x88, CHR 0xE3, CHR 0x82, CHR 0x8B,
       CHR 0xE6, CHR 0x89, CHR 0x8B, CHR 0xE8, CHR 0xBB, CHR 0xBD, CHR 0xE3, CHR 0x81, CHR 0xAA,
       CHR 0xE3, CHR 0x83, CHR 0x9E, CHR 0xE3, CHR 0x83, CHR 0xAB, CHR 0xE3, CHR 0x83, CHR 0x81,
       CHR 0xE3, CHR 0x83, CHR 0x97, CHR 0xE3, CHR 0x83, CHR 0xAC, CHR 0xE3, CHR 0x82, CHR 0xA4,
       CHR 0xE7, CHR 0x92, CHR 0xB0, CHR 0xE5, CHR 0xA2, CHR 0x83, CHR 0xE3, CHR 0x82, CHR 0x92,
       CHR 0xE6, CHR 0x8F, CHR 0x90, CHR 0xE4, CHR 0xBE, CHR 0x9B, CHR 0xE3, CHR 0x81, CHR 0x97,
       CHR 0xE3, CHR 0x81, CHR 0xBE, CHR 0xE3, CHR 0x81, CHR 0x99, CHR 0xE3, CHR 0x80, CHR 0x82] @
      ''\<newline>'',
    ''\<newline>'',
    ''## '' @ [CHR 0xE2, CHR 0x9C, CHR 0xA8] @ '' '' @
      [CHR 0xE7, CHR 0x89, CHR 0xB9, CHR 0xE5, CHR 0xBE, CHR 0xB4] @ ''\<newline>'',
    ''1. **'' @
      [CHR 0xE3, CHR 0x82, CHR 0xAF, CHR 0xE3, CHR 0x83, CHR 0xA9, CHR 0xE3, CHR 0x82, CHR 0xA6,
       CHR 0xE3, CHR 0x83, CHR 0x89, CHR 0xE3, CHR 0x83, CHR 0xAA, CHR 0xE3, CHR 0x82, CHR 0xA2,
       CHR 0xE3, CHR 0x83, CHR 0xAB, CHR 0xE3, CHR 0x82, CHR 0xBF, CHR 0xE3, CHR 0x82, CHR 0xA4,
       CHR 0xE3, CHR 0x83, CHR 0xA0, CHR 0xE5, CHR 0x90, CHR 0x8C, CHR 0xE6, CHR 0x9C, CHR 0x9F] @
      '':** '' @
      [CHR 0xE3, CHR 0x82, CHR 0xA4, CHR 0xE3, CHR 0x83, CHR 0xB3, CHR 0xE3, CHR 0x82, CHR 0xBF,
       CHR 0xE3, CHR 0x83, CHR 0xBC, CHR 0xE3, CHR 0x83, CHR 0x8D, CHR 0xE3, CHR 0x83, CHR 0x83,
       CHR 0xE3, CHR 0x83, CHR 0x88, CHR 0xE7, CHR 0xB5, CHR 0x8C, CHR 0xE7, CHR 0x94, CHR 0xB1,
       CHR 0xE3, CHR 0x81, CHR 0xA7, CHR 0xE3, CHR 0x80, CHR 0x81, CHR 0xE9, CHR 0x81, CHR 0x85,
       CHR 0xE5, CHR 0xBB, CHR 0xB6, CHR 0xE3, CHR 0x81, CHR 0xAA, CHR 0xE3, CHR 0x81, CHR 0x8F,
       CHR 0xE5, CHR 0x85, CHR 0xA8, CHR 0xE5, CHR 0x93, CHR 0xA1, CHR 0xE3, CHR 0x81, CHR 0xAE,
       CHR 0xE3, CHR 0x82, CHR 0xB9, CHR 0xE3, CHR 0x82, CHR 0xB3, CHR 0xE3, CHR 0x82, CHR 0xA2,
       CHR 0xE3, CHR 0x81, CHR 0x8C, CHR 0xE5, CHR 0x90, CHR 0x8C, CHR 0xE6, CHR 0x9C, CHR 0x9F,
       CHR 0xE3, CHR 0x81, CHR 0x95, CHR 0xE3, CHR 0x82, CHR 0x8C, CHR 0xE3, CHR 0x81, CHR 0xBE,
       CHR 0xE3, CHR 0x81, CHR 0x99, CHR 0xE3, CHR 0x80, CHR 0x82] @
      ''\<newline>'',
    ''2. **Master-Client'' @
      [CHR 0xE3, CHR 0x83, CHR 0xA2, CHR 0xE3, CHR 0x83, CHR 0x87, CHR 0xE3, CHR 0x83, CHR 0xAB] @
      '':**\<newline>'',
    ''    * **'' @ [CHR 0xE8, CHR 0xA6, CHR 0xAA, CHR 0xE6, CHR 0xA9, CHR 0x9F] @ '':** '' @
      [CHR 0xE3, CHR 0x83, CHR 0xAB, CHR 0xE3, CHR 0x83, CHR 0xBC, CHR 0xE3, CHR 0x83, CHR 0xA0,
       CHR 0xE4, CHR 0xBD, CHR 0x9C, CHR 0xE6, CHR 0x88, CHR 0x90, CHR 0xE3, CHR 0x80, CHR 0x81,
       CHR 0xE3, CHR 0x82, CHR 0xB2, CHR 0xE3, CHR 0x83, CHR 0xBC, CHR 0xE3, CHR 0x83, CHR 0xA0,
       CHR 0xE3, CHR 0x81, CHR 0xAE, CHR 0xE3, CHR 0x83, CHR 0xAB, CHR 0xE3, CHR 0x83, CHR 0xBC,
       CHR 0xE3, CHR 0x83, CHR 0xAB, CHR 0xEF, CHR 0xBC, CHR 0x88, CHR 0xE8, CHR 0xA8, CHR 0x88,
       CHR 0xE7, CHR 0xAE, CHR 0x97, CHR 0xE5, CHR 0xBC, CHR 0x8F, CHR 0xE3, CHR 0x83, CHR 0xBB] @
      ''UI'' @
      [CHR 0xEF, CHR 0xBC, CHR 0x89, CHR 0xE5, CHR 0xAE, CHR 0x9A, CHR 0xE7, CHR 0xBE, CHR 0xA9,
       CHR 0xE3, CHR 0x80, CHR 0x82] @
      ''\<newline>'',
    ''    * **'' @ [CHR 0xE5, CHR 0xAD, CHR 0x90, CHR 0xE6, CHR 0xA9, CHR 0x9F] @ '':** '' @
      [CHR 0xE3, CHR 0x83, CHR 0xAB, CHR 0xE3, CHR 0x83, CHR 0xBC, CHR 0xE3, CHR 0x83, CHR 0xA0,
       CHR 0xE3, CHR 0x81, CHR 0xAB, CHR 0xE5, CHR 0x8F, CHR 0x82, CHR 0xE5, CHR 0x8A, CHR 0xA0,
       CHR 0xE3, CHR 0x81, CHR 0x97, CHR 0xE3, CHR 0x80, CHR 0x81, CHR 0xE8, CHR 0x87, CHR 0xAA,
       CHR 0xE5, CHR 0x88, CHR 0x86, CHR 0xE3, CHR 0x81, CHR 0xAE, CHR 0xE3, CHR 0x82, CHR 0xB9,
       CHR 0xE3, CHR 0x82, CHR 0xB3, CHR 0xE3, CHR 0x82, CHR 0xA2, CHR 0xE3, CHR 0x82, CHR 0x92,
       CHR 0xE6, CHR 0x93, CHR 0x8D, CHR 0xE4, CHR 0xBD, CHR 0x9C, CHR 0xE3, CHR 0x80, CHR 0x82] @
      ''\<newline>'',
    ''3. **'' @
      [CHR 0xE6, CHR 0x9F, CHR 0x94, CHR 0xE8, CHR 0xBB, CHR 0x9F, CHR 0xE3, CHR 0x81, CHR 0xAA,
       CHR 0xE3, CHR 0x83, CHR 0x86, CHR 0xE3, CHR 0x83, CHR 0xB3, CHR 0xE3, CHR 0x83, CHR 0x97,
       CHR 0xE3, CHR 0x83, CHR 0xAC, CHR 0xE3, CHR 0x83, CHR 0xBC, CHR 0xE3, CHR 0x83, CHR 0x88] @
      '':** '' @
      [CHR 0xE9, CHR 0xBA, CHR 0xBB, CHR 0xE9, CHR 0x9B, CHR 0x80, CHR 0xE3, CHR 0x80, CHR 0x81,
       CHR 0xE4, CHR 0xBA, CHR 0xBA, CHR 0xE7, CHR 0x94, CHR 0x9F, CHR 0xE3, CHR 0x82, CHR 0xB2,
       CHR 0xE3, CHR 0x83, CHR 0xBC, CHR 0xE3, CHR 0x83, CHR 0xA0, CHR 0xE3, CHR 0x81, CHR 0xAA,
       CHR 0xE3, CHR 0x81, CHR 0xA9, CHR 0xE3, CHR 0x80, CHR 0x81, CHR 0xE3, CHR 0x82, CHR 0xB2,
       CHR 0xE3, CHR 0x83, CHR 0xBC, CHR 0xE3, CHR 0x83, CHR 0xA0, CHR 0xE3, CHR 0x81, CHR 0xAB,
       CHR 0xE5, CHR 0x90, CHR 0x88, CHR 0xE3, CHR 0x82, CHR 0x8F, CHR 0xE3, CHR 0x81, CHR 0x9B,
       CHR 0xE3, CHR 0x81, CHR 0x9F, CHR 0xE3, CHR 0x80, CHR 0x8C, CHR 0xE3, CHR 0x83, CHR 0x9C,
       CHR 0xE3, CHR 0x83, CHR 0xBC, CHR 0xE3, CHR 0x83, CHR 0x89, CHR 0xE3, CHR 0x80, CHR 0x8D,
       CHR 0xE3, CHR 0x82, CHR 0x92, CHR 0xE8, CHR 0x87, CHR 0xAA, CHR 0xE7, CHR 0x94, CHR 0xB1,
       CHR 0xE3, CHR 0x81, CHR 0xAB, CHR 0xE4, CHR 0xBD, CHR 0x9C, CHR 0xE6, CHR 0x88, CHR 0x90,
       CHR 0xE3, CHR 0x83, CHR 0xBB, CHR 0xE4, CHR 0xBF, CHR 0x9D, CHR 0xE5, CHR 0xAD, CHR 0x98,
       CHR 0xE5, CHR 0x8F, CHR 0xAF, CHR 0xE8, CHR 0x83, CHR 0xBD, CHR 0xE3, CHR 0x80, CHR 0x82] @
      ''\<newline>'',
    ''\<newline>'',
    ''## '' @ [CHR 0xF0, CHR 0x9F, CHR 0x9B, CHR 0xA0] @ '' '' @
      [CHR 0xE6, CHR 0x8A, CHR 0x80, CHR 0xE8, CHR 0xA1, CHR 0x93, CHR 0xE3, CHR 0x82, CHR 0xB9,
       CHR 0xE3, CHR 0x82, CHR 0xBF, CHR 0xE3, CHR 0x83, CHR 0x83, CHR 0xE3, CHR 0x82, CHR 0xAF] @
      ''\<newline>'',
    ''* **Frontend:** React Native (Expo) / TypeScript\<newline>'',
    ''* **Backend:** Supabase (PostgreSQL / Realtime)\<newline>'',
    ''* **Auth:** Supabase Auth (Anonymous Login / '' @
      [CHR 0xE5, CHR 0x8C, CHR 0xBF, CHR 0xE5, CHR 0x90, CHR 0x8D, CHR 0xE8, CHR 0xAA, CHR 0x8D,
       CHR 0xE8, CHR 0xA8, CHR 0xBC] @
      '')\<newline>'',
    ''* **State Management:** React Query or Context API\<newline>'']\<close>

text \<open>The f-string of \<^verbatim>\<open>01_Requirements.md\<close>: source lines 28 to 59, one list element per line.\<close>

definition Requirements_lines :: "string list" where
  \<open>Requirements_lines = [
    ''# '' @
      [CHR 0xE8, CHR 0xA6, CHR 0x81, CHR 0xE4, CHR 0xBB, CHR 0xB6, CHR 0xE5, CHR 0xAE, CHR 0x9A,
       CHR 0xE7, CHR 0xBE, CHR 0xA9, CHR 0xE6, CHR 0x9B, CHR 0xB8] @
      '' (System Requirements Specification)\<newline>'',
    ''\<newline>'',
    ''## 1. '' @
      [CHR 0xE3, CHR 0x82, CHR 0xB7, CHR 0xE3, CHR 0x82, CHR 0xB9, CHR 0xE3, CHR 0x83, CHR 0x86,
       CHR 0xE3, CHR 0x83, CHR 0xA0, CHR 0xE3, CHR 0x81, CHR 0xAE, CHR 0xE7, CHR 0x9B, CHR 0xAE,
       CHR 0xE7, CHR 0x9A, CHR 0x84] @
      ''\<newline>'',
    [CHR 0xE8, CHR 0xA4, CHR 0x87, CHR 0xE6, CHR 0x95, CHR 0xB0, CHR 0xE3, CHR 0x81, CHR 0xAE,
       CHR 0xE3, CHR 0x82, CHR 0xB9, CHR 0xE3, CHR 0x83, CHR 0x9E, CHR 0xE3, CHR 0x83, CHR 0xBC,
       CHR 0xE3, CHR 0x83, CHR 0x88, CHR 0xE3, CHR 0x83, CHR 0x95, CHR 0xE3, CHR 0x82, CHR 0xA9,
       CHR 0xE3, CHR 0x83, CHR 0xB3, CHR 0xE9, CHR 0x96, CHR 0x93, CHR 0xE3, CHR 0x81, CHR 0xA7,
       CHR 0xE3, CHR 0x80, CHR 0x81, CHR 0xE3, CHR 0x82, CHR 0xB2, CHR 0xE3, CHR 0x83, CHR 0xBC,
       CHR 0xE3, CHR 0x83, CHR 0xA0, CHR 0xE3, CHR 0x81, CHR 0xAE, CHR 0xE9, CHR 0x80, CHR 0xB2,
       CHR 0xE8, CHR 0xA1, CHR 0x8C, CHR 0xE7, CHR 0x8A, CHR 0xB6, CHR 0xE6, CHR 0xB3, CHR 0x81,
       CHR 0xEF, CHR 0xBC, CHR 0x88, CHR 0xE3, CHR 0x82, CHR 0xB9, CHR 0xE3, CHR 0x82, CHR 0xB3,
       CHR 0xE3, CHR 0x82, CHR 0xA2, CHR 0xE3, CHR 0x80, CHR 0x81, CHR 0xE3, CHR 0x82, CHR 0xB9,
       CHR 0xE3, CHR 0x83, CHR 0x86, CHR 0xE3, CHR 0x83, CHR 0xBC, CHR 0xE3, CHR 0x82, CHR 0xBF,
       CHR 0xE3, CHR 0x82, CHR 0xB9, CHR 0xEF, CHR 0xBC, CHR 0x89, CHR 0xE3, CHR 0x82, CHR 0x92,
       CHR 0xE3, CHR 0x82, CHR 0xA4, CHR 0xE3, CHR 0x83, CHR 0xB3, CHR 0xE3, CHR 0x82, CHR 0xBF,
       CHR 0xE3, CHR 0x83, CHR 0xBC, CHR 0xE3, CHR 0x83, CHR 0x8D, CHR 0xE3, CHR 0x83, CHR 0x83,
       CHR 0xE3, CHR 0x83, CHR 0x88, CHR 0xE7, CHR 0xB5, CHR 0x8C, CHR 0xE7, CHR 0x94, CHR 0xB1,
       CHR 0xE3, CHR 0x81, CHR 0xA7, CHR 0xE3, CHR 0x83, CHR 0xAA, CHR 0xE3, CHR 0x82, CHR 0xA2,
       CHR 0xE3, CHR 0x83, CHR 0xAB, CHR 0xE3, CHR 0x82, CHR 0xBF, CHR 0xE3, CHR 0x82, CHR 0xA4,
       CHR 0xE3, CHR 0x83, CHR 0xA0, CHR 0xE5, CHR 0x85, CHR 0xB1, CHR 0xE6, CHR 0x9C, CHR 0x89,
       CHR 0xE3, CHR 0x81, CHR 0x99, CHR 0xE3, CHR 0x82, CHR 0x8B, CHR 0xE3, CHR 0x80, CHR 0x82] @
      ''\<newline>'',
    ''\<newline>'',
    ''## 2. '' @
      [CHR 0xE3, CHR 0x82, CHR 0xB9, CHR 0xE3, CHR 0x82, CHR 0xB3, CHR 0xE3, CHR 0x83, CHR 0xBC,
       CHR 0xE3, CHR 0x83, CHR 0x97, CHR 0xE5, CHR 0xAE, CHR 0x9A, CHR 0xE7, CHR 0xBE, CHR 0xA9] @
      ''\<newline>'',
    ''\<newline>'',
    ''### 2.1 In Scope ('' @
      [CHR 0xE5, CHR 0xAF, CHR 0xBE, CHR 0xE8, CHR 0xB1, CHR 0xA1, CHR 0xE7, CHR 0xAF, CHR 0x84,
       CHR 0xE5, CHR 0x9B, CHR 0xB2] @
      '')\<newline>'',
    ''* **'' @
      [CHR 0xE3, CHR 0x82, CHR 0xA4, CHR 0xE3, CHR 0x83, CHR 0xB3, CHR 0xE3, CHR 0x82, CHR 0xBF,
       CHR 0xE3, CHR 0x83, CHR 0xBC, CHR 0xE3, CHR 0x83, CHR 0x8D, CHR 0xE3, CHR 0x83, CHR 0x83,
       CHR 0xE3, CHR 0x83, CHR 0x88, CHR 0xE9, CHR 0x80, CHR 0x9A, CHR 0xE4, CHR 0xBF, CHR 0xA1] @
      '':** Wi-Fi '' @
      [CHR 0xE3, CHR 0x81, CHR 0xBE, CHR 0xE3, CHR 0x81, CHR 0x9F, CHR 0xE3, CHR 0x81, CHR 0xAF] @
      '' '' @
      [CHR 0xE3, CHR 0x83, CHR 0xA2, CHR 0xE3, CHR 0x83, CHR 0x90, CHR 0xE3, CHR 0x82, CHR 0xA4,
       CHR 0xE3, CHR 0x83, CHR 0xAB, CHR 0xE3, CHR 0x83, CHR 0x87, CHR 0xE3, CHR 0x83, CHR 0xBC,
       CHR 0xE3, CHR 0x82, CHR 0xBF, CHR 0xE9, CHR 0x80, CHR 0x9A, CHR 0xE4, CHR 0xBF, CHR 0xA1,
       CHR 0xE3, CHR 0x82, CHR 0x92, CHR 0xE5, CHR 0x88, CHR 0xA9, CHR 0xE7, CHR 0x94, CHR 0xA8,
       CHR 0xE3, CHR 0x80, CHR 0x82] @
      ''\<newline>'',
    ''* **'' @
      [CHR 0xE3, CHR 0x83, CHR 0xAB, CHR 0xE3, CHR 0x83, CHR 0xBC, CHR 0xE3, CHR 0x83, CHR 0xA0,
       CHR 0xE7, CHR 0xAE, CHR 0xA1, CHR 0xE7, CHR 0x90, CHR 0x86] @
      '':**\<newline>'',
    ''    * '' @
      [CHR 0xE8, CHR 0xA6, CHR 0xAA, CHR 0xE6, CHR 0xA9, CHR 0x9F, CHR 0xE3, CHR 0x81, CHR 0xAB,
       CHR 0xE3, CHR 0x82, CHR 0x88, CHR 0xE3, CHR 0x82, CHR 0x8B, CHR 0xE3, CHR 0x83, CHR 0xAB,
       CHR 0xE3, CHR 0x83, CHR 0xBC, CHR 0xE3, CHR 0x83, CHR 0xA0, CHR 0xE4, CHR 0xBD, CHR 0x9C,
       CHR 0xE6, CHR 0x88, CHR 0x90, CHR 0xEF, CHR 0xBC, CHR 0x88] @
      ''Room ID'' @
      [CHR 0xE7, CHR 0x94, CHR 0x9F, CHR 0xE6, CHR 0x88, CHR 0x90, CHR 0xEF, CHR 0xBC, CHR 0x89,
       CHR 0xE3, CHR 0x80, CHR 0x82] @
      ''\<newline>'',
    ''    * '' @
      [CHR 0xE5, CHR 0xAD, CHR 0x90, CHR 0xE6, CHR 0xA9, CHR 0x9F, CHR 0xE3, CHR 0x81, CHR 0xAB,
       CHR 0xE3, CHR 0x82, CHR 0x88, CHR 0xE3, CHR 0x82, CHR 0x8B] @
      ''Room ID'' @
      [CHR 0xE5, CHR 0x85, CHR 0xA5, CHR 0xE5, CHR 0x8A, CHR 0x9B, CHR 0xEF, CHR 0xBC, CHR 0x88,
       CHR 0xE3, CHR 0x81, CHR 0xBE, CHR 0xE3, CHR 0x81, CHR 0x9F, CHR 0xE3, CHR 0x81, CHR 0xAF] @
      ''QR'' @
      [CHR 0xE8, CHR 0xAA, CHR 0xAD, CHR 0xE3, CHR 0x81, CHR 0xBF, CHR 0xE5, CHR 0x8F, CHR 0x96,
       CHR 0xE3, CHR 0x82, CHR 0x8A, CHR 0xEF, CHR 0xBC, CHR 0x89, CHR 0xE3, CHR 0x81, CHR 0xA7,
       CHR 0xE3, CHR 0x81, CHR 0xAE, CHR 0xE5, CHR 0x8F, CHR 0x82, CHR 0xE5, CHR 0x8A, CHR 0xA0,
       CHR 0xE3, CHR 0x80, CHR 0x82] @
      ''\<newline>'',
    ''* **'' @
      [CHR 0xE3, CHR 0x83, CHR 0x9C, CHR 0xE3, CHR 0x83, CHR 0xBC, CHR 0xE3, CHR 0x83, CHR 0x89,
       CHR 0xE4, CHR 0xBD, CHR 0x9C, CHR 0xE6, CHR 0x88, CHR 0x90] @
      '' (Builder):** '' @
      [CHR 0xE8, CHR 0xA6, CHR 0xAA, CHR 0xE6, CHR 0xA9, CHR 0x9F, CHR 0xE3, CHR 0x81, CHR 0xAB,
       CHR 0xE3, CHR 0x82, CHR 0x88, CHR 0xE3, CHR 0x82, CHR 0x8B] @
      ''UI'' @
      [CHR 0xE9, CHR 0x85, CHR 0x8D, CHR 0xE7, CHR 0xBD, CHR 0xAE, CHR 0xE3, CHR 0x80, CHR 0x81,
       CHR 0xE5, CHR 0xA4, CHR 0x89, CHR 0xE6, CHR 0x95, CHR 0xB0, CHR 0xE5, CHR 0xAE, CHR 0x9A,
       CHR 0xE7, CHR 0xBE, CHR 0xA9, CHR 0xE3, CHR 0x80, CHR 0x81, CHR 0xE8, CHR 0xA8, CHR 0x88,
       CHR 0xE7, CHR 0xAE, CHR 0x97, CHR 0xE3, CHR 0x83, CHR 0xAD, CHR 0xE3, CHR 0x82, CHR 0xB8,
       CHR 0xE3, CHR 0x83, CHR 0x83, CHR 0xE3, CHR 0x82, CHR 0xAF, CHR 0xE3, CHR 0x81, CHR 0xAE,
       CHR 0xE5, CHR 0xAE, CHR 0x9A, CHR 0xE7, CHR 0xBE, CHR 0xA9, CHR 0xE3, CHR 0x80, CHR 0x82] @
      ''\<newline>'',
    ''* **'' @
      [CHR 0xE3, CHR 0x83, CHR 0xAA, CHR 0xE3, CHR 0x82, CHR 0xA2, CHR 0xE3, CHR 0x83, CHR 0xAB,
       CHR 0xE3, CHR 0x82, CHR 0xBF, CHR 0xE3, CHR 0x82, CHR 0xA4, CHR 0xE3, CHR 0x83, CHR 0xA0,
       CHR 0xE5, CHR 0x90, CHR 0x8C, CHR 0xE6, CHR 0x9C, CHR 0x9F] @
      '':** Supabase Realtime'' @
      [CHR 0xE3, CHR 0x82, CHR 0x92, CHR 0xE5, CHR 0x88, CHR 0xA9, CHR 0xE7, CHR 0x94, CHR 0xA8,
       CHR 0xE3, CHR 0x81, CHR 0x97, CHR 0xE3, CHR 0x81, CHR 0x9F, CHR 0xE3, CHR 0x83, CHR 0x9F,
       CHR 0xE3, CHR 0x83, CHR 0xAA, CHR 0xE7, CHR 0xA7, CHR 0x92, CHR 0xE5, CHR 0x8D, CHR 0x98,
       CHR 0xE4, CHR 0xBD, CHR 0x8D, CHR 0xE3, CHR 0x81, CHR 0xAE, CHR 0xE7, CHR 0x8A, CHR 0xB6,
       CHR 0xE6, CHR 0x85, CHR 0x8B, CHR 0xE5, CHR 0x8F, CHR 0x8D, CHR 0xE6, CHR 0x98, CHR 0xA0,
       CHR 0xE3, CHR 0x80, CHR 0x82] @
      ''\<newline>'',
    ''* **'' @
      [CHR 0xE5, CHR 0x8C, CHR 0xBF, CHR 0xE5, CHR 0x90, CHR 0x8D, CHR 0xE5, CHR 0x88, CHR 0xA9,
       CHR 0xE7, CHR 0x94, CHR 0xA8] @
      '':** '' @
      [CHR 0xE3, CHR 0x82, CHR 0xA2, CHR 0xE3, CHR 0x82, CHR 0xAB, CHR 0xE3, CHR 0x82, CHR 0xA6,
       CHR 0xE3, CHR 0x83, CHR 0xB3, CHR 0xE3, CHR 0x83, CHR 0x88, CHR 0xE7, CHR 0x99, CHR 0xBB,
       CHR 0xE9, CHR 0x8C, CHR 0xB2, CHR 0xE4, CHR 0xB8, CHR 0x8D, CHR 0xE8, CHR 0xA6, CHR 0x81,
       CHR 0xE3, CHR 0x81, CHR 0xA7, CHR 0xE3, CHR 0x80, CHR 0x81, CHR 0xE3, CHR 0x82, CHR 0xA2,
       CHR 0xE3, CHR 0x83, CHR 0x97, CHR 0xE3, CHR 0x83, CHR 0xAA, CHR 0xE3, CHR 0x82, CHR 0x92,
       CHR 0xE9, CHR 0x96, CHR 0x8B, CHR 0xE3, CHR 0x81, CHR 0x91, CHR 0xE3, CHR 0x81, CHR 0xB0,
       CHR 0xE3, CHR 0x81, CHR 0x99, CHR 0xE3, CHR 0x81, CHR 0x90, CHR 0xE4, CHR 0xBD, CHR 0xBF,
       CHR 0xE3, CHR 0x81, CHR 0x88, CHR 0xE3, CHR 0x82, CHR 0x8B, CHR 0xEF, CHR 0xBC, CHR 0x88,
       CHR 0xE5, CHR 0x8C, CHR 0xBF, CHR 0xE5, CHR 0x90, CHR 0x8D, CHR 0xE8, CHR 0xAA, CHR 0x8D,
       CHR 0xE8, CHR 0xA8, CHR 0xBC, CHR 0xEF, CHR 0xBC, CHR 0x89, CHR 0xE3, CHR 0x80, CHR 0x82] @
      ''\<newline>'',
    ''\<newline>'',
    ''### 2.2 Out of Scope ('' @
      [CHR 0xE5, CHR 0xAF, CHR 0xBE, CHR 0xE8, CHR 0xB1, CHR 0xA1, CHR 0xE5, CHR 0xA4, CHR 0x96] @
      '')\<newline>'',
    ''* **'' @
      [CHR 0xE5, CHR 0xAE, CHR 0x8C, CHR 0xE5, CHR 0x85, CHR 0xA8, CHR 0xE3, CHR 0x82, CHR 0xAA,
       CHR 0xE3, CHR 0x83, CHR 0x95, CHR 0xE3, CHR 0x83, CHR 0xA9, CHR 0xE3, CHR 0x82, CHR 0xA4,
       CHR 0xE3, CHR 0x83, CHR 0xB3, CHR 0xE5, CHR 0x8B, CHR 0x95, CHR 0xE4, CHR 0xBD, CHR 0x9C] @
      '':** '' @
      [CHR 0xE5, CHR 0x9C, CHR 0x8F, CHR 0xE5, CHR 0xA4, CHR 0x96, CHR 0xE3, CHR 0x81, CHR 0xA7,
       CHR 0xE3, CHR 0x81, CHR 0xAF, CHR 0xE5, CHR 0x8B, CHR 0x95, CHR 0xE4, CHR 0xBD, CHR 0x9C,
       CHR 0xE3, CHR 0x81, CHR 0x97, CHR 0xE3, CHR 0x81, CHR 0xAA, CHR 0xE3, CHR 0x81, CHR 0x84,
       CHR 0xEF, CHR 0xBC, CHR 0x88, CHR 0xE3, CHR 0x82, CHR 0xA8, CHR 0xE3, CHR 0x83, CHR 0xA9,
       CHR 0xE3, CHR 0x83, CHR 0xBC, CHR 0xE8, CHR 0xA1, CHR 0xA8, CHR 0xE7, CHR 0xA4, CHR 0xBA,
       CHR 0xE3, CHR 0x82, CHR 0x92, CHR 0xE8, CHR 0xA1, CHR 0x8C, CHR 0xE3, CHR 0x81, CHR 0x86,
       CHR 0xEF, CHR 0xBC, CHR 0x89, CHR 0xE3, CHR 0x80, CHR 0x82] @
      ''\<newline>'',
    ''* **'' @
      [CHR 0xE8, CHR 0xA4, CHR 0x87, CHR 0xE9, CHR 0x9B, CHR 0x91, CHR 0xE3, CHR 0x81, CHR 0xAA,
       CHR 0xE6, CHR 0xA8, CHR 0xA9, CHR 0xE9, CHR 0x99, CHR 0x90, CHR 0xE7, CHR 0xAE, CHR 0xA1,
       CHR 0xE7, CHR 0x90, CHR 0x86] @
      '':** '' @
      [CHR 0xE3, CHR 0x83, CHR 0xAB, CHR 0xE3, CHR 0x83, CHR 0xBC, CHR 0xE3, CHR 0x83, CHR 0xA0,
       CHR 0xE5, CHR 0x86, CHR 0x85, CHR 0xE3, CHR 0x81, CHR 0xAE, CHR 0xE3, CHR 0x83, CHR 0xA6,
       CHR 0xE3, CHR 0x83, CHR 0xBC, CHR 0xE3, CHR 0x82, CHR 0xB6, CHR 0xE3, CHR 0x83, CHR 0xBC,
       CHR 0xE3, CHR 0x81, CHR 0xAF, CHR 0xE5, CHR 0x96, CHR 0x84, CHR 0xE6, CHR 0x84, CHR 0x8F,
       CHR 0xE3, CHR 0x81, CHR 0xAE, CHR 0xE3, CHR 0x83, CHR 0x97, CHR 0xE3, CHR 0x83, CHR 0xAC,
       CHR 0xE3, CHR 0x82, CHR 0xA4, CHR 0xE3, CHR 0x83, CHR 0xA4, CHR 0xE3, CHR 0x83, CHR 0xBC,
       CHR 0xE3, CHR 0x81, CHR 0xA7, CHR 0xE3, CHR 0x81, CHR 0x82, CHR 0xE3, CHR 0x82, CHR 0x8B,
       CHR 0xE3, CHR 0x81, CHR 0xA8, CHR 0xE4, CHR 0xBB, CHR 0xAE, CHR 0xE5, CHR 0xAE, CHR 0x9A,
       CHR 0xE3, CHR 0x81, CHR 0x97, CHR 0xE3, CHR 0x80, CHR 0x81, CHR 0xE5, CHR 0x8E, CHR 0xB3,
       CHR 0xE5, CHR 0xAF, CHR 0x86, CHR 0xE3, CHR 0x81, CHR 0xAA, CHR 0xE3, CHR 0x83, CHR 0x81,
       CHR 0xE3, CHR 0x83, CHR 0xBC, CHR 0xE3, CHR 0x83, CHR 0x88, CHR 0xE5, CHR 0xAF, CHR 0xBE,
       CHR 0xE7, CHR 0xAD, CHR 0x96, CHR 0xE3, CHR 0x81, CHR 0xAF, CHR 0xE8, CHR 0xA1, CHR 0x8C,
       CHR 0xE3, CHR 0x82, CHR 0x8F, CHR 0xE3, CHR 0x81, CHR 0xAA, CHR 0xE3, CHR 0x81, CHR 0x84,
       CHR 0xE3, CHR 0x80, CHR 0x82] @
      ''\<newline>'',
    ''* **'' @
      [CHR 0xE9, CHR 0x81, CHR 0x8E, CHR 0xE5, CHR 0x8E, CHR 0xBB, CHR 0xE3, CHR 0x83, CHR 0xAD,
       CHR 0xE3, CHR 0x82, CHR 0xB0, CHR 0xE3, CHR 0x81, CHR 0xAE, CHR 0xE6, CHR 0xB0, CHR 0xB8,
       CHR 0xE7, CHR 0xB6, CHR 0x9A, CHR 0xE4, CHR 0xBF, CHR 0x9D, CHR 0xE5, CHR 0xAD, CHR 0x98] @
      '':** '' @
      [CHR 0xE3, CHR 0x82, CHR 0xB2, CHR 0xE3, CHR 0x83, CHR 0xBC, CHR 0xE3, CHR 0x83, CHR 0xA0,
       CHR 0xE7, CHR 0xB5, CHR 0x82, CHR 0xE4, CHR 0xBA, CHR 0x86, CHR 0xE5, CHR 0xBE, CHR 0x8C,
       CHR 0xE3, CHR 0x80, CHR 0x81, CHR 0xE4, CHR 0xB8, CHR 0x80, CHR 0xE5, CHR 0xAE, CHR 0x9A,
       CHR 0xE6, CHR 0x9C, CHR 0x9F, CHR 0xE9, CHR 0x96, CHR 0x93, CHR 0xE3, CHR 0x81, CHR 0xA7,
       CHR 0xE3, CHR 0x83, CHR 0xAB, CHR 0xE3, CHR 0x83, CHR 0xBC, CHR 0xE3, CHR 0x83, CHR 0xA0,
       CHR 0xE3, CHR 0x83, CHR 0x87, CHR 0xE3, CHR 0x83, CHR 0xBC, CHR 0xE3, CHR 0x82, CHR 0xBF,
       CHR 0xE3, CHR 0x81, CHR 0xAF, CHR 0xE5, CHR 0x89, CHR 0x8A, CHR 0xE9, CHR 0x99, CHR 0xA4,
       CHR 0xE3, CHR 0x81, CHR 0x95, CHR 0xE3, CHR 0x82, CHR 0x8C, CHR 0xE3, CHR 0x82, CHR 0x8B,
       CHR 0xEF, CHR 0xBC, CHR 0x88, CHR 0xE3, CHR 0x82, CHR 0xA8, CHR 0xE3, CHR 0x83, CHR 0x95,
       CHR 0xE3, CHR 0x82, CHR 0xA7, CHR 0xE3, CHR 0x83, CHR 0xA1, CHR 0xE3, CHR 0x83, CHR 0xA9,
       CHR 0xE3, CHR 0x83, CHR 0xAB, CHR 0xE3, CHR 0x81, CHR 0xAA, CHR 0xE5, CHR 0x88, CHR 0xA9,
       CHR 0xE7, CHR 0x94, CHR 0xA8, CHR 0xEF, CHR 0xBC, CHR 0x89, CHR 0xE3, CHR 0x80, CHR 0x82] @
      ''\<newline>'',
    ''\<newline>'',
    ''## 3. '' @
      [CHR 0xE6, CHR 0xA9, CHR 0x9F, CHR 0xE8, CHR 0x83, CHR 0xBD, CHR 0xE8, CHR 0xA6, CHR 0x81,
       CHR 0xE4, CHR 0xBB, CHR 0xB6] @
      '' (Functional Requirements)\<newline>'',
    ''\<newline>'',
    ''* **[FR-01] '' @
      [CHR 0xE3, CHR 0x83, CHR 0xAB, CHR 0xE3, CHR 0x83, CHR 0xBC, CHR 0xE3, CHR 0x83, CHR 0xA0,
       CHR 0xE4, CHR 0xBD, CHR 0x9C, CHR 0xE6, CHR 0x88, CHR 0x90, CHR 0xE3, CHR 0x81, CHR 0xA8,
       CHR 0xE6, CHR 0x8E, CHR 0xA5, CHR 0xE7, CHR 0xB6, CHR 0x9A] @
      '':**\<newline>'',
    ''    * '' @
      [CHR 0xE8, CHR 0xA6, CHR 0xAA, CHR 0xE6, CHR 0xA9, CHR 0x9F, CHR 0xE3, CHR 0x81, CHR 0xAF,
       CHR 0xE3, CHR 0x83, CHR 0xA6, CHR 0xE3, CHR 0x83, CHR 0x8B, CHR 0xE3, CHR 0x83, CHR 0xBC,
       CHR 0xE3, CHR 0x82, CHR 0xAF, CHR 0xE3, CHR 0x81, CHR 0xAA, CHR 0xE3, CHR 0x80, CHR 0x8C] @
      ''Room ID'' @
      [CHR 0xE3, CHR 0x80, CHR 0x8D, CHR 0xE3, CHR 0x82, CHR 0x92, CHR 0xE7, CHR 0x99, CHR 0xBA,
       CHR 0xE8, CHR 0xA1, CHR 0x8C, CHR 0xE3, CHR 0x81, CHR 0x99, CHR 0xE3, CHR 0x82, CHR 0x8B,
       CHR 0xE3, CHR 0x80, CHR 0x82] @
      ''\<newline>'',
    ''    * '' @
      [CHR 0xE5, CHR 0xAD, CHR 0x90, CHR 0xE6, CHR 0xA9, CHR 0x9F, CHR 0xE3, CHR 0x81, CHR 0xAF,
       CHR 0xE3, CHR 0x81, CHR 0x9D, CHR 0xE3, CHR 0x81, CHR 0xAE] @
      ''ID'' @
      [CHR 0xE3, CHR 0x82, CHR 0x92, CHR 0xE5, CHR 0x85, CHR 0xA5, CHR 0xE5, CHR 0x8A, CHR 0x9B,
       CHR 0xE3, CHR 0x81, CHR 0x99, CHR 0xE3, CHR 0x82, CHR 0x8B, CHR 0xE3, CHR 0x81, CHR 0x93,
       CHR 0xE3, CHR 0x81, CHR 0xA8, CHR 0xE3, CHR 0x81, CHR 0xA7, CHR 0xE3, CHR 0x80, CHR 0x81,
       CHR 0xE7, CHR 0x89, CHR 0xB9, CHR 0xE5, CHR 0xAE, CHR 0x9A, CHR 0xE3, CHR 0x81, CHR 0xAE,
       CHR 0xE3, CHR 0x82, CHR 0xBB, CHR 0xE3, CHR 0x83, CHR 0x83, CHR 0xE3, CHR 0x82, CHR 0xB7,
       CHR 0xE3, CHR 0x83, CHR 0xA7, CHR 0xE3, CHR 0x83, CHR 0xB3, CHR 0xEF, CHR 0xBC, CHR 0x88] @
      ''DB'' @
      [CHR 0xE3, CHR 0x81, CHR 0xAE, CHR 0xE8, CHR 0xA1, CHR 0x8C, CHR 0xEF, CHR 0xBC, CHR 0x89,
       CHR 0xE3, CHR 0x82, CHR 0x92, CHR 0xE8, CHR 0xB3, CHR 0xBC, CHR 0xE8, CHR 0xAA, CHR 0xAD] @
      ''(Subscribe)'' @
      [CHR 0xE3, CHR 0x81, CHR 0x99, CHR 0xE3, CHR 0x82, CHR 0x8B, CHR 0xE3, CHR 0x80, CHR 0x82] @
      ''\<newline>'',
    ''* **[FR-02] '' @
      [CHR 0xE3, CHR 0x83, CHR 0x9C, CHR 0xE3, CHR 0x83, CHR 0xBC, CHR 0xE3, CHR 0x83, CHR 0x89,
       CHR 0xE3, CHR 0x83, CHR 0x86, CHR 0xE3, CHR 0x83, CHR 0xB3, CHR 0xE3, CHR 0x83, CHR 0x97,
       CHR 0xE3, CHR 0x83, CHR 0xAC, CHR 0xE3, CHR 0x83, CHR 0xBC, CHR 0xE3, CHR 0x83, CHR 0x88] @
      '':**\<newline>'',
    ''    * '' @
      [CHR 0xE8, CHR 0xA6, CHR 0xAA, CHR 0xE6, CHR 0xA9, CHR 0x9F, CHR 0xE3, CHR 0x81, CHR 0xAF,
       CHR 0xE3, CHR 0x80, CHR 0x8C, CHR 0xE9, CHR 0xBA, CHR 0xBB, CHR 0xE9, CHR 0x9B, CHR 0x80,
       CHR 0xE7, CHR 0x94, CHR 0xA8, CHR 0xE3, CHR 0x80, CHR 0x8D, CHR 0xE3, CHR 0x80, CHR 0x8C,
       CHR 0xE3, CHR 0x83, CHR 0x9C, CHR 0xE3, CHR 0x83, CHR 0xBC, CHR 0xE3, CHR 0x83, CHR 0x89,
       CHR 0xE3, CHR 0x82, CHR 0xB2, CHR 0xE3, CHR 0x83, CHR 0xBC, CHR 0xE3, CHR 0x83, CHR 0xA0,
       CHR 0xE7, CHR 0x94, CHR 0xA8, CHR 0xE3, CHR 0x80, CHR 0x8D, CHR 0xE3, CHR 0x81, CHR 0xAA,
       CHR 0xE3, CHR 0x81, CHR 0xA9, CHR 0xE3, CHR 0x81, CHR 0xAE, CHR 0xE8, CHR 0xA8, CHR 0xAD,
       CHR 0xE5, CHR 0xAE, CHR 0x9A, CHR 0xE3, CHR 0x82, CHR 0x92] @
      ''JSON'' @
      [CHR 0xE5, CHR 0xBD, CHR 0xA2, CHR 0xE5, CHR 0xBC, CHR 0x8F, CHR 0xE3, CHR 0x81, CHR 0xA7] @
      ''DB'' @
      [CHR 0xE3, CHR 0x81, CHR 0xAB, CHR 0xE4, CHR 0xBF, CHR 0x9D, CHR 0xE5, CHR 0xAD, CHR 0x98,
       CHR 0xE3, CHR 0x81, CHR 0x97, CHR 0xE3, CHR 0x80, CHR 0x81, CHR 0xE5, CHR 0x91, CHR 0xBC,
       CHR 0xE3, CHR 0x81, CHR 0xB3, CHR 0xE5, CHR 0x87, CHR 0xBA, CHR 0xE3, CHR 0x81, CHR 0x9B,
       CHR 0xE3, CHR 0x82, CHR 0x8B, CHR 0xE3, CHR 0x81, CHR 0x93, CHR 0xE3, CHR 0x81, CHR 0xA8,
       CHR 0xE3, CHR 0x80, CHR 0x82] @
      ''\<newline>'',
    ''* **[FR-03] '' @
      [CHR 0xE7, CHR 0x8A, CHR 0xB6, CHR 0xE6, CHR 0x85, CHR 0x8B, CHR 0xE5, CHR 0x90, CHR 0x8C,
       CHR 0xE6, CHR 0x9C, CHR 0x9F] @
      '':**\<newline>'',
    ''    * '' @
      [CHR 0xE8, CHR 0xAA, CHR 0xB0, CHR 0xE3, CHR 0x81, CHR 0x8B, CHR 0xE3, CHR 0x81, CHR 0x8C,
       CHR 0xE6, CHR 0x95, CHR 0xB0, CHR 0xE5, CHR 0x80, CHR 0xA4, CHR 0xE3, CHR 0x82, CHR 0x92,
       CHR 0xE6, CHR 0x9B, CHR 0xB4, CHR 0xE6, CHR 0x96, CHR 0xB0, CHR 0xE3, CHR 0x81, CHR 0x97,
       CHR 0xE3, CHR 0x81, CHR 0x9F, CHR 0xE3, CHR 0x82, CHR 0x89, CHR 0xE3, CHR 0x80, CHR 0x81,
       CHR 0xE5, CHR 0x8D, CHR 0xB3, CHR 0xE5, CHR 0xBA, CHR 0xA7, CHR 0xE3, CHR 0x81, CHR 0xAB,
       CHR 0xE5, CHR 0x85, CHR 0xA8, CHR 0xE5, CHR 0x93, CHR 0xA1, CHR 0xE3, CHR 0x81, CHR 0xAE,
       CHR 0xE7, CHR 0x94, CHR 0xBB, CHR 0xE9, CHR 0x9D, CHR 0xA2, CHR 0xE3, CHR 0x81, CHR 0xAB,
       CHR 0xE5, CHR 0x8F, CHR 0x8D, CHR 0xE6, CHR 0x98, CHR 0xA0, CHR 0xE3, CHR 0x81, CHR 0x95,
       CHR 0xE3, CHR 0x82, CHR 0x8C, CHR 0xE3, CHR 0x82, CHR 0x8B, CHR 0xE3, CHR 0x81, CHR 0x93,
       CHR 0xE3, CHR 0x81, CHR 0xA8, CHR 0xEF, CHR 0xBC, CHR 0x88] @
      ''Supabase Realtime'' @ [CHR 0xEF, CHR 0xBC, CHR 0x89, CHR 0xE3, CHR 0x80, CHR 0x82] @
      ''\<newline>'',
    ''* **[FR-04] '' @
      [CHR 0xE3, CHR 0x83, CHR 0x87, CHR 0xE3, CHR 0x83, CHR 0xBC, CHR 0xE3, CHR 0x82, CHR 0xBF,
       CHR 0xE6, CHR 0xB0, CHR 0xB8, CHR 0xE7, CHR 0xB6, CHR 0x9A, CHR 0xE5, CHR 0x8C, CHR 0x96] @
      '':**\<newline>'',
    ''    * '' @
      [CHR 0xE3, CHR 0x82, CHR 0xA2, CHR 0xE3, CHR 0x83, CHR 0x97, CHR 0xE3, CHR 0x83, CHR 0xAA,
       CHR 0xE3, CHR 0x82, CHR 0x92, CHR 0xE3, CHR 0x82, CHR 0xBF, CHR 0xE3, CHR 0x82, CHR 0xB9,
       CHR 0xE3, CHR 0x82, CHR 0xAF, CHR 0xE3, CHR 0x82, CHR 0xAD, CHR 0xE3, CHR 0x83, CHR 0xAB,
       CHR 0xE3, CHR 0x81, CHR 0x97, CHR 0xE3, CHR 0x81, CHR 0xA6, CHR 0xE3, CHR 0x82, CHR 0x82,
       CHR 0xE3, CHR 0x80, CHR 0x81, CHR 0xE3, CHR 0x82, CHR 0xB5, CHR 0xE3, CHR 0x83, CHR 0xBC,
       CHR 0xE3, CHR 0x83, CHR 0x90, CHR 0xE3, CHR 0x83, CHR 0xBC, CHR 0xE4, CHR 0xB8, CHR 0x8A,
       CHR 0xE3, CHR 0x81, CHR 0xAB, CHR 0xE3, CHR 0x83, CHR 0x87, CHR 0xE3, CHR 0x83, CHR 0xBC,
       CHR 0xE3, CHR 0x82, CHR 0xBF, CHR 0xE3, CHR 0x81, CHR 0x8C, CHR 0xE3, CHR 0x81, CHR 0x82,
       CHR 0xE3, CHR 0x82, CHR 0x8B, CHR 0xE9, CHR 0x99, CHR 0x90, CHR 0xE3, CHR 0x82, CHR 0x8A,
       CHR 0xE5, CHR 0xBE, CHR 0xA9, CHR 0xE5, CHR 0xB8, CHR 0xB0, CHR 0xE3, CHR 0x81, CHR 0xA7,
       CHR 0xE3, CHR 0x81, CHR 0x8D, CHR 0xE3, CHR 0x82, CHR 0x8B, CHR 0xE3, CHR 0x81, CHR 0x93,
       CHR 0xE3, CHR 0x81, CHR 0xA8, CHR 0xE3, CHR 0x80, CHR 0x82] @
      ''\<newline>'']\<close>

text \<open>The f-string of \<^verbatim>\<open>02_Basic_Design.md\<close>: source lines 62 to 86, one list element per line.\<close>

definition Basic_Design_lines :: "string list" where
  \<open>Basic_Design_lines = [
    ''# '' @
      [CHR 0xE5, CHR 0x9F, CHR 0xBA, CHR 0xE6, CHR 0x9C, CHR 0xAC, CHR 0xE8, CHR 0xA8, CHR 0xAD,
       CHR 0xE8, CHR 0xA8, CHR 0x88, CHR 0xE6, CHR 0x9B, CHR 0xB8] @
      '' (Basic Design - UI/UX)\<newline>'',
    ''\<newline>'',
    ''## 1. '' @
      [CHR 0xE7, CHR 0x94, CHR 0xBB, CHR 0xE9, CHR 0x9D, CHR 0xA2, CHR 0xE3, CHR 0x83, CHR 0x95,
       CHR 0xE3, CHR 0x83, CHR 0xAD, CHR 0xE3, CHR 0x83, CHR 0xBC] @
      ''\<newline>'',
    ''\<newline>'',
    ''| ID | '' @
      [CHR 0xE7, CHR 0x94, CHR 0xBB, CHR 0xE9, CHR 0x9D, CHR 0xA2, CHR 0xE5, CHR 0x90, CHR 0x8D] @
      '' | '' @ [CHR 0xE5, CHR 0xBD, CHR 0xB9, CHR 0xE5, CHR 0x89, CHR 0xB2] @ '' | '' @
      [CHR 0xE5, CHR 0x82, CHR 0x99, CHR 0xE8, CHR 0x80, CHR 0x83] @ '' |\<newline>'',
    ''|:---|:---|:---|:---|\<newline>'',
    ''| **S-01** | **Home / Lobby** | '' @
      [CHR 0xE3, CHR 0x82, CHR 0xB9, CHR 0xE3, CHR 0x82, CHR 0xBF, CHR 0xE3, CHR 0x83, CHR 0xBC,
       CHR 0xE3, CHR 0x83, CHR 0x88, CHR 0xE7, CHR 0x94, CHR 0xBB, CHR 0xE9, CHR 0x9D, CHR 0xA2] @
      '' | '' @
      [CHR 0xE8, CHR 0xA6, CHR 0xAA, CHR 0xE6, CHR 0xA9, CHR 0x9F, CHR 0xEF, CHR 0xBC, CHR 0x9A,
       CHR 0xE3, CHR 0x80, CHR 0x8C, CHR 0xE9, CHR 0x83, CHR 0xA8, CHR 0xE5, CHR 0xB1, CHR 0x8B,
       CHR 0xE3, CHR 0x82, CHR 0x92, CHR 0xE4, CHR 0xBD, CHR 0x9C, CHR 0xE3, CHR 0x82, CHR 0x8B,
       CHR 0xE3, CHR 0x80, CHR 0x8D] @
      '' / '' @
      [CHR 0xE5, CHR 0xAD, CHR 0x90, CHR 0xE6, CHR 0xA9, CHR 0x9F, CHR 0xEF, CHR 0xBC, CHR 0x9A,
       CHR 0xE3, CHR 0x80, CHR 0x8C, CHR 0xE9, CHR 0x83, CHR 0xA8, CHR 0xE5, CHR 0xB1, CHR 0x8B,
       CHR 0xE3, CHR 0x81, CHR 0xAB, CHR 0xE5, CHR 0x85, CHR 0xA5, CHR 0xE3, CHR 0x82, CHR 0x8B,
       CHR 0xE3, CHR 0x80, CHR 0x8D] @
      '' |\<newline>'',
    ''| **S-02** | **Game Board** | '' @
      [CHR 0xE3, CHR 0x83, CHR 0xA1, CHR 0xE3, CHR 0x82, CHR 0xA4, CHR 0xE3, CHR 0x83, CHR 0xB3,
       CHR 0xE7, CHR 0x94, CHR 0xBB, CHR 0xE9, CHR 0x9D, CHR 0xA2] @
      '' | '' @
      [CHR 0xE5, CHR 0x85, CHR 0xA8, CHR 0xE5, CHR 0x93, CHR 0xA1, CHR 0xE3, CHR 0x81, CHR 0xAE,
       CHR 0xE3, CHR 0x82, CHR 0xB9, CHR 0xE3, CHR 0x82, CHR 0xB3, CHR 0xE3, CHR 0x82, CHR 0xA2,
       CHR 0xE8, CHR 0xA1, CHR 0xA8, CHR 0xE7, CHR 0xA4, CHR 0xBA, CHR 0xE3, CHR 0x80, CHR 0x82,
       CHR 0xE3, CHR 0x81, CHR 0x93, CHR 0xE3, CHR 0x81, CHR 0x93, CHR 0xE3, CHR 0x81, CHR 0x8B,
       CHR 0xE3, CHR 0x82, CHR 0x89, CHR 0xE3, CHR 0x82, CHR 0xA2, CHR 0xE3, CHR 0x82, CHR 0xAF,
       CHR 0xE3, CHR 0x82, CHR 0xB7, CHR 0xE3, CHR 0x83, CHR 0xA7, CHR 0xE3, CHR 0x83, CHR 0xB3] @
      ''(S-03)'' @ [CHR 0xE3, CHR 0x81, CHR 0xB8, CHR 0xE3, CHR 0x80, CHR 0x82] @ '' |\<newline>'',
    ''| **S-03** | **Action Modal** | '' @
      [CHR 0xE5, CHR 0x85, CHR 0xA5, CHR 0xE5, CHR 0x8A, CHR 0x9B, CHR 0xE3, CHR 0x83, CHR 0x91,
       CHR 0xE3, CHR 0x83, CHR 0x8D, CHR 0xE3, CHR 0x83, CHR 0xAB] @
      '' | '' @
      [CHR 0xE6, CHR 0x95, CHR 0xB0, CHR 0xE5, CHR 0x80, CHR 0xA4, CHR 0xE5, CHR 0x85, CHR 0xA5,
       CHR 0xE5, CHR 0x8A, CHR 0x9B, CHR 0xE3, CHR 0x80, CHR 0x81, CHR 0xE3, CHR 0x82, CHR 0xA2,
       CHR 0xE3, CHR 0x82, CHR 0xAF, CHR 0xE3, CHR 0x82, CHR 0xB7, CHR 0xE3, CHR 0x83, CHR 0xA7,
       CHR 0xE3, CHR 0x83, CHR 0xB3, CHR 0xE5, CHR 0xAE, CHR 0x9F, CHR 0xE8, CHR 0xA1, CHR 0x8C,
       CHR 0xEF, CHR 0xBC, CHR 0x88, CHR 0xE3, CHR 0x83, CHR 0xA2, CHR 0xE3, CHR 0x83, CHR 0xBC,
       CHR 0xE3, CHR 0x83, CHR 0x80, CHR 0xE3, CHR 0x83, CHR 0xAB, CHR 0xE8, CHR 0xA1, CHR 0xA8,
       CHR 0xE7, CHR 0xA4, CHR 0xBA, CHR 0xEF, CHR 0xBC, CHR 0x89, CHR 0xE3, CHR 0x80, CHR 0x82] @
      '' |\<newline>'',
    ''| **S-04** | **Builder / Settings** | '' @
      [CHR 0xE8, CHR 0xA8, CHR 0xAD, CHR 0xE5, CHR 0xAE, CHR 0x9A, CHR 0xE7, CHR 0x94, CHR 0xBB,
       CHR 0xE9, CHR 0x9D, CHR 0xA2] @
      '' | '' @
      [CHR 0xE8, CHR 0xA6, CHR 0xAA, CHR 0xE6, CHR 0xA9, CHR 0x9F, CHR 0xE5, CHR 0xB0, CHR 0x82,
       CHR 0xE7, CHR 0x94, CHR 0xA8, CHR 0xE3, CHR 0x80, CHR 0x82, CHR 0xE3, CHR 0x83, CHR 0xAC,
       CHR 0xE3, CHR 0x82, CHR 0xA4, CHR 0xE3, CHR 0x82, CHR 0xA2, CHR 0xE3, CHR 0x82, CHR 0xA6,
       CHR 0xE3, CHR 0x83, CHR 0x88, CHR 0xE7, CHR 0xB7, CHR 0xA8, CHR 0xE9, CHR 0x9B, CHR 0x86,
       CHR 0xE3, CHR 0x80, CHR 0x81, CHR 0xE3, CHR 0x83, CHR 0xAA, CHR 0xE3, CHR 0x82, CHR 0xBB,
       CHR 0xE3, CHR 0x83, CHR 0x83, CHR 0xE3, CHR 0x83, CHR 0x88, CHR 0xE6, CHR 0x93, CHR 0x8D,
       CHR 0xE4, CHR 0xBD, CHR 0x9C, CHR 0xE3, CHR 0x80, CHR 0x82] @
      '' |\<newline>'',
    ''\<newline>'',
    ''## 2. '' @ [CHR 0xE8, CHR 0xA9, CHR 0xB3, CHR 0xE7, CHR 0xB4, CHR 0xB0] @ ''UX\<newline>'',
    ''\<newline>'',
    ''### S-01: Home / Lobby\<newline>'',
    ''* '' @
      [CHR 0xE3, CHR 0x82, CHR 0xB7, CHR 0xE3, CHR 0x83, CHR 0xB3, CHR 0xE3, CHR 0x83, CHR 0x97,
       CHR 0xE3, CHR 0x83, CHR 0xAB, CHR 0xE3, CHR 0x81, CHR 0xAA] @
      ''2'' @
      [CHR 0xE6, CHR 0x8A, CHR 0x9E, CHR 0xE3, CHR 0x83, CHR 0x9C, CHR 0xE3, CHR 0x82, CHR 0xBF,
       CHR 0xE3, CHR 0x83, CHR 0xB3, CHR 0xE3, CHR 0x82, CHR 0x92, CHR 0xE8, CHR 0xA1, CHR 0xA8,
       CHR 0xE7, CHR 0xA4, CHR 0xBA, CHR 0xE3, CHR 0x80, CHR 0x82] @
      ''\<newline>'',
    ''* **Join ('' @ [CHR 0xE5, CHR 0xAD, CHR 0x90, CHR 0xE6, CHR 0xA9, CHR 0x9F] @ ''):** 4'' @
      [CHR 0xE6, CHR 0xA1, CHR 0x81, CHR 0xE3, CHR 0x80, CHR 0x9C] @ ''6'' @
      [CHR 0xE6, CHR 0xA1, CHR 0x81, CHR 0xE3, CHR 0x81, CHR 0xAE, CHR 0xE3, CHR 0x83, CHR 0xAB,
       CHR 0xE3, CHR 0x83, CHR 0xBC, CHR 0xE3, CHR 0x83, CHR 0xA0] @
      ''ID'' @
      [CHR 0xE5, CHR 0x85, CHR 0xA5, CHR 0xE5, CHR 0x8A, CHR 0x9B, CHR 0xE3, CHR 0x83, CHR 0x95,
       CHR 0xE3, CHR 0x82, CHR 0xA9, CHR 0xE3, CHR 0x83, CHR 0xBC, CHR 0xE3, CHR 0x83, CHR 0xA0,
       CHR 0xE3, CHR 0x80, CHR 0x81, CHR 0xE3, CHR 0x81, CHR 0xBE, CHR 0xE3, CHR 0x81, CHR 0x9F,
       CHR 0xE3, CHR 0x81, CHR 0xAF, CHR 0xE3, CHR 0x82, CHR 0xAB, CHR 0xE3, CHR 0x83, CHR 0xA1,
       CHR 0xE3, CHR 0x83, CHR 0xA9, CHR 0xE8, CHR 0xB5, CHR 0xB7, CHR 0xE5, CHR 0x8B, CHR 0x95,
       CHR 0xE3, CHR 0x83, CHR 0x9C, CHR 0xE3, CHR 0x82, CHR 0xBF, CHR 0xE3, CHR 0x83, CHR 0xB3,
       CHR 0xEF, CHR 0xBC, CHR 0x88] @
      ''QR'' @
      [CHR 0xE7, CHR 0x94, CHR 0xA8, CHR 0xEF, CHR 0xBC, CHR 0x89, CHR 0xE3, CHR 0x80, CHR 0x82] @
      ''\<newline>'',
    ''* **Create ('' @ [CHR 0xE8, CHR 0xA6, CHR 0xAA, CHR 0xE6, CHR 0xA9, CHR 0x9F] @ ''):** '' @
      [CHR 0xE6, CHR 0x96, CHR 0xB0, CHR 0xE8, CHR 0xA6, CHR 0x8F, CHR 0xE4, CHR 0xBD, CHR 0x9C,
       CHR 0xE6, CHR 0x88, CHR 0x90, CHR 0xE3, CHR 0x83, CHR 0x9C, CHR 0xE3, CHR 0x82, CHR 0xBF,
       CHR 0xE3, CHR 0x83, CHR 0xB3, CHR 0xE3, CHR 0x80, CHR 0x82, CHR 0xE6, CHR 0x8A, CHR 0xBC,
       CHR 0xE4, CHR 0xB8, CHR 0x8B, CHR 0xE6, CHR 0x99, CHR 0x82, CHR 0xE3, CHR 0x81, CHR 0xAB] @
      ''Supabase'' @
      [CHR 0xE3, CHR 0x81, CHR 0xAB, CHR 0xE3, CHR 0x83, CHR 0xAC, CHR 0xE3, CHR 0x82, CHR 0xB3,
       CHR 0xE3, CHR 0x83, CHR 0xBC, CHR 0xE3, CHR 0x83, CHR 0x89, CHR 0xE3, CHR 0x82, CHR 0x92,
       CHR 0xE4, CHR 0xBD, CHR 0x9C, CHR 0xE6, CHR 0x88, CHR 0x90, CHR 0xE3, CHR 0x81, CHR 0x97,
       CHR 0xE3, CHR 0x80, CHR 0x81] @
      ''S-02'' @
      [CHR 0xE3, CHR 0x81, CHR 0xB8, CHR 0xE9, CHR 0x81, CHR 0xB7, CHR 0xE7, CHR 0xA7, CHR 0xBB,
       CHR 0xE3, CHR 0x80, CHR 0x82] @
      ''\<newline>'',
    ''\<newline>'',
    ''### S-02: Game Board\<newline>'',
    ''* Supabase'' @
      [CHR 0xE3, CHR 0x81, CHR 0x8B, CHR 0xE3, CHR 0x82, CHR 0x89, CHR 0xE3, CHR 0x81, CHR 0xAE,
       CHR 0xE5, CHR 0xA4, CHR 0x89, CHR 0xE6, CHR 0x9B, CHR 0xB4, CHR 0xE9, CHR 0x80, CHR 0x9A,
       CHR 0xE7, CHR 0x9F, CHR 0xA5, CHR 0xE3, CHR 0x82, CHR 0x92, CHR 0xE5, CHR 0x8F, CHR 0x97,
       CHR 0xE3, CHR 0x81, CHR 0x91, CHR 0xE5, CHR 0x8F, CHR 0x96, CHR 0xE3, CHR 0x82, CHR 0x8A,
       CHR 0xE3, CHR 0x80, CHR 0x81, CHR 0xE8, CHR 0x87, CHR 0xAA, CHR 0xE5, CHR 0x8B, CHR 0x95,
       CHR 0xE3, CHR 0x81, CHR 0xA7, CHR 0xE5, CHR 0x86, CHR 0x8D, CHR 0xE6, CHR 0x8F, CHR 0x8F,
       CHR 0xE7, CHR 0x94, CHR 0xBB, CHR 0xE3, CHR 0x81, CHR 0x95, CHR 0xE3, CHR 0x82, CHR 0x8C,
       CHR 0xE3, CHR 0x82, CHR 0x8B, CHR 0xE3, CHR 0x80, CHR 0x82] @
      ''\<newline>'',
    ''* '' @
      [CHR 0xE3, CHR 0x83, CHR 0x98, CHR 0xE3, CHR 0x83, CHR 0x83, CHR 0xE3, CHR 0x83, CHR 0x80,
       CHR 0xE3, CHR 0x83, CHR 0xBC, CHR 0xE3, CHR 0x81, CHR 0xAB, CHR 0xE3, CHR 0x80, CHR 0x8C] @
      ''Room ID'' @
      [CHR 0xE3, CHR 0x80, CHR 0x8D, CHR 0xE3, CHR 0x82, CHR 0x92, CHR 0xE8, CHR 0xA1, CHR 0xA8,
       CHR 0xE7, CHR 0xA4, CHR 0xBA, CHR 0xE3, CHR 0x81, CHR 0x97, CHR 0xE3, CHR 0x80, CHR 0x81,
       CHR 0xE3, CHR 0x82, CHR 0xBF, CHR 0xE3, CHR 0x83, CHR 0x83, CHR 0xE3, CHR 0x83, CHR 0x97,
       CHR 0xE3, CHR 0x81, CHR 0xA7, CHR 0xE3, CHR 0x82, CHR 0xB3, CHR 0xE3, CHR 0x83, CHR 0x94,
       CHR 0xE3, CHR 0x83, CHR 0xBC] @
      ''/QR'' @
      [CHR 0xE8, CHR 0xA1, CHR 0xA8, CHR 0xE7, CHR 0xA4, CHR 0xBA, CHR 0xE5, CHR 0x8F, CHR 0xAF,
       CHR 0xE8, CHR 0x83, CHR 0xBD, CHR 0xE3, CHR 0x81, CHR 0xAB, CHR 0xE3, CHR 0x81, CHR 0x99,
       CHR 0xE3, CHR 0x82, CHR 0x8B, CHR 0xE3, CHR 0x80, CHR 0x82] @
      ''\<newline>'',
    ''\<newline>'',
    ''### S-04: Builder ('' @
      [CHR 0xE8, CHR 0xA6, CHR 0xAA, CHR 0xE6, CHR 0xA9, CHR 0x9F, CHR 0xE3, CHR 0x81, CHR 0xAE,
       CHR 0xE3, CHR 0x81, CHR 0xBF] @
      '')\<newline>'',
    ''* '' @
      [CHR 0xE3, CHR 0x83, CHR 0x97, CHR 0xE3, CHR 0x83, CHR 0xAA, CHR 0xE3, CHR 0x82, CHR 0xBB,
       CHR 0xE3, CHR 0x83, CHR 0x83, CHR 0xE3, CHR 0x83, CHR 0x88, CHR 0xEF, CHR 0xBC, CHR 0x88,
       CHR 0xE9, CHR 0xBA, CHR 0xBB, CHR 0xE9, CHR 0x9B, CHR 0x80, CHR 0xE3, CHR 0x81, CHR 0xAA,
       CHR 0xE3, CHR 0x81, CHR 0xA9, CHR 0xEF, CHR 0xBC, CHR 0x89, CHR 0xE3, CHR 0x81, CHR 0xAE,
       CHR 0xE9, CHR 0x81, CHR 0xB8, CHR 0xE6, CHR 0x8A, CHR 0x9E, CHR 0xE3, CHR 0x83, CHR 0xAA,
       CHR 0xE3, CHR 0x82, CHR 0xB9, CHR 0xE3, CHR 0x83, CHR 0x88, CHR 0xE3, CHR 0x80, CHR 0x82] @
      ''\<newline>'',
    ''* '' @
      [CHR 0xE3, CHR 0x80, CHR 0x8C, CHR 0xE5, CHR 0xA4, CHR 0x89, CHR 0xE6, CHR 0x95, CHR 0xB0,
       CHR 0xE3, CHR 0x81, CHR 0xAE, CHR 0xE8, CHR 0xBF, CHR 0xBD, CHR 0xE5, CHR 0x8A, CHR 0xA0,
       CHR 0xE3, CHR 0x80, CHR 0x8D, CHR 0xE3, CHR 0x80, CHR 0x8C, CHR 0xE3, CHR 0x83, CHR 0x9C,
       CHR 0xE3, CHR 0x82, CHR 0xBF, CHR 0xE3, CHR 0x83, CHR 0xB3, CHR 0xE3, CHR 0x81, CHR 0xAE,
       CHR 0xE8, CHR 0xBF, CHR 0xBD, CHR 0xE5, CHR 0x8A, CHR 0xA0, CHR 0xE3, CHR 0x80, CHR 0x8D,
       CHR 0xE3, CHR 0x82, CHR 0x92, CHR 0xE8, CHR 0xA1, CHR 0x8C, CHR 0xE3, CHR 0x81, CHR 0x84,
       CHR 0xE3, CHR 0x80, CHR 0x81] @
      ''DB'' @ [CHR 0xE3, CHR 0x81, CHR 0xAE] @ '' `template` '' @
      [CHR 0xE3, CHR 0x82, CHR 0xAB, CHR 0xE3, CHR 0x83, CHR 0xA9, CHR 0xE3, CHR 0x83, CHR 0xA0,
       CHR 0xE3, CHR 0x82, CHR 0x92, CHR 0xE6, CHR 0x9B, CHR 0xB4, CHR 0xE6, CHR 0x96, CHR 0xB0,
       CHR 0xE3, CHR 0x81, CHR 0x99, CHR 0xE3, CHR 0x82, CHR 0x8B, CHR 0xE3, CHR 0x80, CHR 0x82] @
      ''\<newline>'']\<close>

text \<open>The f-string of \<^verbatim>\<open>03_Data_Model.md\<close>: source lines 89 to 152, one list element per line.\<close>

definition Data_Model_lines :: "string list" where
  \<open>Data_Model_lines = [
    ''# '' @
      [CHR 0xE3, CHR 0x83, CHR 0x87, CHR 0xE3, CHR 0x83, CHR 0xBC, CHR 0xE3, CHR 0x82, CHR 0xBF,
       CHR 0xE3, CHR 0x83, CHR 0xA2, CHR 0xE3, CHR 0x83, CHR 0x87, CHR 0xE3, CHR 0x83, CHR 0xAB,
       CHR 0xE8, CHR 0xA8, CHR 0xAD, CHR 0xE8, CHR 0xA8, CHR 0x88, CHR 0xE6, CHR 0x9B, CHR 0xB8] @
      '' (Supabase Schema)\<newline>'',
    ''\<newline>'',
    ''## 1. '' @
      [CHR 0xE3, CHR 0x83, CHR 0x86, CHR 0xE3, CHR 0x83, CHR 0xBC, CHR 0xE3, CHR 0x83, CHR 0x96,
       CHR 0xE3, CHR 0x83, CHR 0xAB, CHR 0xE6, CHR 0xA7, CHR 0x8B, CHR 0xE6, CHR 0x88, CHR 0x90] @
      ''\<newline>'',
    ''PostgreSQL'' @
      [CHR 0xE3, CHR 0x81, CHR 0xAE, CHR 0xE3, CHR 0x83, CHR 0x86, CHR 0xE3, CHR 0x83, CHR 0xBC,
       CHR 0xE3, CHR 0x83, CHR 0x96, CHR 0xE3, CHR 0x83, CHR 0xAB, CHR 0xE3, CHR 0x81, CHR 0xA8,
       CHR 0xE3, CHR 0x81, CHR 0x97, CHR 0xE3, CHR 0x81, CHR 0xA6, CHR 0xE4, CHR 0xBB, CHR 0xA5,
       CHR 0xE4, CHR 0xB8, CHR 0x8B, CHR 0xE3, CHR 0x82, CHR 0x92, CHR 0xE4, CHR 0xBD, CHR 0x9C,
       CHR 0xE6, CHR 0x88, CHR 0x90, CHR 0xE3, CHR 0x81, CHR 0x99, CHR 0xE3, CHR 0x82, CHR 0x8B,
       CHR 0xE3, CHR 0x80, CHR 0x82] @
      ''\<newline>'',
    ''\<newline>'',
    ''### 1.1 rooms ('' @
      [CHR 0xE3, CHR 0x82, CHR 0xB2, CHR 0xE3, CHR 0x83, CHR 0xBC, CHR 0xE3, CHR 0x83, CHR 0xA0,
       CHR 0xE3, CHR 0x82, CHR 0xBB, CHR 0xE3, CHR 0x83, CHR 0x83, CHR 0xE3, CHR 0x82, CHR 0xB7,
       CHR 0xE3, CHR 0x83, CHR 0xA7, CHR 0xE3, CHR 0x83, CHR 0xB3] @
      '')\<newline>'',
    ''1'' @
      [CHR 0xE3, CHR 0x81, CHR 0xA4, CHR 0xE3, CHR 0x81, CHR 0xAE, CHR 0xE3, CHR 0x82, CHR 0xB2,
       CHR 0xE3, CHR 0x83, CHR 0xBC, CHR 0xE3, CHR 0x83, CHR 0xA0, CHR 0xE3, CHR 0x83, CHR 0x97,
       CHR 0xE3, CHR 0x83, CHR 0xAC, CHR 0xE3, CHR 0x82, CHR 0xA4, CHR 0xE3, CHR 0x81, CHR 0xAE,
       CHR 0xE5, CHR 0x8D, CHR 0x98, CHR 0xE4, CHR 0xBD, CHR 0x8D, CHR 0xE3, CHR 0x80, CHR 0x82] @
      ''\<newline>'',
    ''\<newline>'',
    ''| Column | Type | Note |\<newline>'',
    ''|:---|:---|:---|\<newline>'',
    ''| `id` | uuid | Primary Key |\<newline>'',
    ''| `room_code` | text | '' @
      [CHR 0xE5, CHR 0x8F, CHR 0x82, CHR 0xE5, CHR 0x8A, CHR 0xA0, CHR 0xE7, CHR 0x94, CHR 0xA8,
       CHR 0xE3, CHR 0x82, CHR 0xB7, CHR 0xE3, CHR 0x83, CHR 0xA7, CHR 0xE3, CHR 0x83, CHR 0xBC,
       CHR 0xE3, CHR 0x83, CHR 0x88, CHR 0xE3, CHR 0x82, CHR 0xB3, CHR 0xE3, CHR 0x83, CHR 0xBC,
       CHR 0xE3, CHR 0x83, CHR 0x89] @
      '' (e.g. "1234") |\<newline>'',
    ''| `host_user_id` | uuid | '' @
      [CHR 0xE8, CHR 0xA6, CHR 0xAA, CHR 0xE6, CHR 0xA9, CHR 0x9F, CHR 0xE3, CHR 0x81, CHR 0xAE] @
      ''User ID (Supabase Auth) |\<newline>'',
    ''| `status` | text | "waiting", "playing", "finished" |\<newline>'',
    ''| `template` | jsonb | '' @
      [CHR 0xE3, CHR 0x83, CHR 0x9C, CHR 0xE3, CHR 0x83, CHR 0xBC, CHR 0xE3, CHR 0x83, CHR 0x89,
       CHR 0xE5, CHR 0xAE, CHR 0x9A, CHR 0xE7, CHR 0xBE, CHR 0xA9, CHR 0xEF, CHR 0xBC, CHR 0x88,
       CHR 0xE3, CHR 0x83, CHR 0xAC, CHR 0xE3, CHR 0x82, CHR 0xA4, CHR 0xE3, CHR 0x82, CHR 0xA2,
       CHR 0xE3, CHR 0x82, CHR 0xA6, CHR 0xE3, CHR 0x83, CHR 0x88, CHR 0xE3, CHR 0x80, CHR 0x81,
       CHR 0xE8, CHR 0xA8, CHR 0x88, CHR 0xE7, CHR 0xAE, CHR 0x97, CHR 0xE3, CHR 0x83, CHR 0xAD,
       CHR 0xE3, CHR 0x82, CHR 0xB8, CHR 0xE3, CHR 0x83, CHR 0x83, CHR 0xE3, CHR 0x82, CHR 0xAF,
       CHR 0xEF, CHR 0xBC, CHR 0x89] @
      '' |\<newline>'',
    ''| `current_state` | jsonb | '' @
      [CHR 0xE5, CHR 0x85, CHR 0xA8, CHR 0xE3, CHR 0x83, CHR 0x97, CHR 0xE3, CHR 0x83, CHR 0xAC,
       CHR 0xE3, CHR 0x82, CHR 0xA4, CHR 0xE3, CHR 0x83, CHR 0xA4, CHR 0xE3, CHR 0x83, CHR 0xBC,
       CHR 0xE3, CHR 0x81, CHR 0xAE, CHR 0xE7, CHR 0x8F, CHR 0xBE, CHR 0xE5, CHR 0x9C, CHR 0xA8,
       CHR 0xE3, CHR 0x82, CHR 0xB9, CHR 0xE3, CHR 0x82, CHR 0xB3, CHR 0xE3, CHR 0x82, CHR 0xA2] @
      '' |\<newline>'',
    ''| `created_at` | timestamp | |\<newline>'',
    ''\<newline>'',
    ''### 1.2 profiles ('' @
      [CHR 0xE3, CHR 0x83, CHR 0xA6, CHR 0xE3, CHR 0x83, CHR 0xBC, CHR 0xE3, CHR 0x82, CHR 0xB6,
       CHR 0xE3, CHR 0x83, CHR 0xBC] @
      ''/'' @
      [CHR 0xE7, CHR 0xAB, CHR 0xAF, CHR 0xE6, CHR 0x9C, CHR 0xAB, CHR 0xE6, CHR 0x83, CHR 0x85,
       CHR 0xE5, CHR 0xA0, CHR 0xB1] @
      '')\<newline>'',
    [CHR 0xE5, CHR 0x8C, CHR 0xBF, CHR 0xE5, CHR 0x90, CHR 0x8D, CHR 0xE8, CHR 0xAA, CHR 0x8D,
       CHR 0xE8, CHR 0xA8, CHR 0xBC, CHR 0xE3, CHR 0x81, CHR 0xA7, CHR 0xE7, CHR 0x94, CHR 0x9F,
       CHR 0xE6, CHR 0x88, CHR 0x90, CHR 0xE3, CHR 0x81, CHR 0x95, CHR 0xE3, CHR 0x82, CHR 0x8C,
       CHR 0xE3, CHR 0x81, CHR 0x9F, CHR 0xE3, CHR 0x83, CHR 0xA6, CHR 0xE3, CHR 0x83, CHR 0xBC,
       CHR 0xE3, CHR 0x82, CHR 0xB6, CHR 0xE3, CHR 0x83, CHR 0xBC, CHR 0xE6, CHR 0x83, CHR 0x85,
       CHR 0xE5, CHR 0xA0, CHR 0xB1, CHR 0xE3, CHR 0x80, CHR 0x82] @
      ''\<newline>'',
    ''\<newline>'',
    ''| Column | Type | Note |\<newline>'',
    ''|:---|:---|:---|\<newline>'',
    ''| `id` | uuid | Supabase Auth ID (PK) |\<newline>'',
    ''| `display_name` | text | '' @
      [CHR 0xE3, CHR 0x83, CHR 0x8B, CHR 0xE3, CHR 0x83, CHR 0x83, CHR 0xE3, CHR 0x82, CHR 0xAF,
       CHR 0xE3, CHR 0x83, CHR 0x8D, CHR 0xE3, CHR 0x83, CHR 0xBC, CHR 0xE3, CHR 0x83, CHR 0xA0] @
      '' |\<newline>'',
    ''| `current_room_id` | uuid | '' @
      [CHR 0xE5, CHR 0x8F, CHR 0x82, CHR 0xE5, CHR 0x8A, CHR 0xA0, CHR 0xE4, CHR 0xB8, CHR 0xAD,
       CHR 0xE3, CHR 0x81, CHR 0xAE, CHR 0xE3, CHR 0x83, CHR 0xAB, CHR 0xE3, CHR 0x83, CHR 0xBC,
       CHR 0xE3, CHR 0x83, CHR 0xA0] @
      '' (FK: rooms.id) |\<newline>'',
    ''\<newline>'',
    ''## 2. JSON'' @ [CHR 0xE6, CHR 0xA7, CHR 0x8B, CHR 0xE9, CHR 0x80, CHR 0xA0] @ '' (jsonb'' @
      [CHR 0xE3, CHR 0x82, CHR 0xAB, CHR 0xE3, CHR 0x83, CHR 0xA9, CHR 0xE3, CHR 0x83, CHR 0xA0,
       CHR 0xE3, CHR 0x81, CHR 0xAE, CHR 0xE4, CHR 0xB8, CHR 0xAD, CHR 0xE8, CHR 0xBA, CHR 0xAB] @
      '')\<newline>'',
    ''\<newline>'',
    ''### template ('' @ [CHR 0xE5, CHR 0xAE, CHR 0x9A, CHR 0xE7, CHR 0xBE, CHR 0xA9] @
      '')\<newline>'',
    [CHR 0xE8, CHR 0xA6, CHR 0xAA, CHR 0xE6, CHR 0xA9, CHR 0x9F, CHR 0xE3, CHR 0x81, CHR 0x8C,
       CHR 0xE8, CHR 0xA8, CHR 0xAD, CHR 0xE5, CHR 0xAE, CHR 0x9A, CHR 0xE3, CHR 0x81, CHR 0x99,
       CHR 0xE3, CHR 0x82, CHR 0x8B, CHR 0xE3, CHR 0x80, CHR 0x8C, CHR 0xE3, CHR 0x82, CHR 0xB2,
       CHR 0xE3, CHR 0x83, CHR 0xBC, CHR 0xE3, CHR 0x83, CHR 0xA0, CHR 0xE3, CHR 0x81, CHR 0xAE,
       CHR 0xE3, CHR 0x83, CHR 0xAB, CHR 0xE3, CHR 0x83, CHR 0xBC, CHR 0xE3, CHR 0x83, CHR 0xAB,
       CHR 0xE3, CHR 0x80, CHR 0x8D, CHR 0xE3, CHR 0x80, CHR 0x82] @
      ''\<newline>'',
    ''{BQ}json\<newline>'',
    ''{{\<newline>'',
    ''  "variables": [\<newline>'',
    ''    {{ "key": "score", "label": "'' @
      [CHR 0xE7, CHR 0x82, CHR 0xB9, CHR 0xE6, CHR 0x95, CHR 0xB0] @
      ''", "initial": 25000 }},\<newline>'',
    ''    {{ "key": "coins", "label": "'' @
      [CHR 0xE3, CHR 0x82, CHR 0xB3, CHR 0xE3, CHR 0x82, CHR 0xA4, CHR 0xE3, CHR 0x83, CHR 0xB3] @
      ''", "initial": 0 }}\<newline>'',
    ''  ],\<newline>'',
    ''  "actions": [\<newline>'',
    ''    {{ "label": "'' @
      [CHR 0xE3, CHR 0x83, CHR 0xAA, CHR 0xE3, CHR 0x83, CHR 0xBC, CHR 0xE3, CHR 0x83, CHR 0x81] @
      ''", "calc": "score - 1000" }}\<newline>'',
    ''  ]\<newline>'',
    ''}}\<newline>'',
    ''{BQ}\<newline>'',
    ''\<newline>'',
    ''### current_state ('' @ [CHR 0xE5, CHR 0x80, CHR 0xA4] @ '')\<newline>'',
    [CHR 0xE5, CHR 0x85, CHR 0xA8, CHR 0xE3, CHR 0x83, CHR 0x97, CHR 0xE3, CHR 0x83, CHR 0xAC,
       CHR 0xE3, CHR 0x82, CHR 0xA4, CHR 0xE3, CHR 0x83, CHR 0xA4, CHR 0xE3, CHR 0x83, CHR 0xBC,
       CHR 0xE3, CHR 0x81, CHR 0xAE, CHR 0xE7, CHR 0x8F, CHR 0xBE, CHR 0xE5, CHR 0x9C, CHR 0xA8,
       CHR 0xE3, CHR 0x81, CHR 0xAE, CHR 0xE5, CHR 0x80, CHR 0xA4, CHR 0xE3, CHR 0x80, CHR 0x82] @
      ''`template` '' @ [CHR 0xE3, CHR 0x81, CHR 0xAE] @ '' `variables` '' @
      [CHR 0xE3, CHR 0x81, CHR 0xA7, CHR 0xE5, CHR 0xAE, CHR 0x9A, CHR 0xE7, CHR 0xBE, CHR 0xA9,
       CHR 0xE3, CHR 0x81, CHR 0x95, CHR 0xE3, CHR 0x82, CHR 0x8C, CHR 0xE3, CHR 0x81, CHR 0x9F,
       CHR 0xE3, CHR 0x82, CHR 0xAD, CHR 0xE3, CHR 0x83, CHR 0xBC, CHR 0xE3, CHR 0x82, CHR 0x92,
       CHR 0xE6, CHR 0x8C, CHR 0x81, CHR 0xE3, CHR 0x81, CHR 0xA4, CHR 0xE3, CHR 0x80, CHR 0x82] @
      ''\<newline>'',
    ''{BQ}json\<newline>'',
    ''{{\<newline>'',
    ''  "user_uuid_A": {{\<newline>'',
    ''    "score": 24000,\<newline>'',
    ''    "coins": 0,\<newline>'',
    ''    "_status": "ready" \<newline>'',
    ''  }},\<newline>'',
    ''  "user_uuid_B": {{\<newline>'',
    ''    "score": 25000,\<newline>'',
    ''    "coins": 0,\<newline>'',
    ''    "_status": "thinking"\<newline>'',
    ''  }}\<newline>'',
    ''}}\<newline>'',
    ''{BQ}\<newline>'',
    [CHR 0xE2, CHR 0x80, CHR 0xBB] @ '' `_` ('' @
      [CHR 0xE3, CHR 0x82, CHR 0xA2, CHR 0xE3, CHR 0x83, CHR 0xB3, CHR 0xE3, CHR 0x83, CHR 0x80,
       CHR 0xE3, CHR 0x83, CHR 0xBC, CHR 0xE3, CHR 0x82, CHR 0xB9, CHR 0xE3, CHR 0x82, CHR 0xB3,
       CHR 0xE3, CHR 0x82, CHR 0xA2] @
      '') '' @
      [CHR 0xE5, CHR 0xA7, CHR 0x8B, CHR 0xE3, CHR 0x81, CHR 0xBE, CHR 0xE3, CHR 0x82, CHR 0x8A,
       CHR 0xE3, CHR 0x81, CHR 0xAE, CHR 0xE3, CHR 0x82, CHR 0xAD, CHR 0xE3, CHR 0x83, CHR 0xBC,
       CHR 0xE3, CHR 0x81, CHR 0xAF, CHR 0xE3, CHR 0x80, CHR 0x81, CHR 0xE3, CHR 0x83, CHR 0x86,
       CHR 0xE3, CHR 0x83, CHR 0xB3, CHR 0xE3, CHR 0x83, CHR 0x97, CHR 0xE3, CHR 0x83, CHR 0xAC,
       CHR 0xE3, CHR 0x83, CHR 0xBC, CHR 0xE3, CHR 0x83, CHR 0x88, CHR 0xE3, CHR 0x81, CHR 0xAB,
       CHR 0xE4, CHR 0xBE, CHR 0x9D, CHR 0xE5, CHR 0xAD, CHR 0x98, CHR 0xE3, CHR 0x81, CHR 0x97,
       CHR 0xE3, CHR 0x81, CHR 0xAA, CHR 0xE3, CHR 0x81, CHR 0x84, CHR 0xE3, CHR 0x82, CHR 0xB7,
       CHR 0xE3, CHR 0x82, CHR 0xB9, CHR 0xE3, CHR 0x83, CHR 0x86, CHR 0xE3, CHR 0x83, CHR 0xA0,
       CHR 0xE7, CHR 0x94, CHR 0xA8, CHR 0xE3, CHR 0x82, CHR 0xB9, CHR 0xE3, CHR 0x83, CHR 0x86,
       CHR 0xE3, CHR 0x83, CHR 0xBC, CHR 0xE3, CHR 0x82, CHR 0xBF, CHR 0xE3, CHR 0x82, CHR 0xB9,
       CHR 0xE3, CHR 0x81, CHR 0xA8, CHR 0xE3, CHR 0x81, CHR 0x99, CHR 0xE3, CHR 0x82, CHR 0x8B,
       CHR 0xE3, CHR 0x80, CHR 0x82] @
      ''\<newline>'',
    ''\<newline>'',
    ''## 3. '' @
      [CHR 0xE3, CHR 0x82, CHR 0xBB, CHR 0xE3, CHR 0x82, CHR 0xAD, CHR 0xE3, CHR 0x83, CHR 0xA5,
       CHR 0xE3, CHR 0x83, CHR 0xAA, CHR 0xE3, CHR 0x83, CHR 0x86, CHR 0xE3, CHR 0x82, CHR 0xA3,
       CHR 0xE3, CHR 0x83, CHR 0x9D, CHR 0xE3, CHR 0x83, CHR 0xAA, CHR 0xE3, CHR 0x82, CHR 0xB7,
       CHR 0xE3, CHR 0x83, CHR 0xBC] @
      '' (RLS)\<newline>'',
    ''* **rooms:** `room_code` '' @
      [CHR 0xE3, CHR 0x82, CHR 0x92, CHR 0xE7, CHR 0x9F, CHR 0xA5, CHR 0xE3, CHR 0x81, CHR 0xA3,
       CHR 0xE3, CHR 0x81, CHR 0xA6, CHR 0xE3, CHR 0x81, CHR 0x84, CHR 0xE3, CHR 0x82, CHR 0x8B,
       CHR 0xE3, CHR 0x83, CHR 0xA6, CHR 0xE3, CHR 0x83, CHR 0xBC, CHR 0xE3, CHR 0x82, CHR 0xB6,
       CHR 0xE3, CHR 0x83, CHR 0xBC, CHR 0xE3, CHR 0x81, CHR 0xAF] @
      '' `SELECT` ('' @ [CHR 0xE5, CHR 0x8F, CHR 0x82, CHR 0xE7, CHR 0x85, CHR 0xA7] @ '') '' @
      [CHR 0xE5, CHR 0x8F, CHR 0xAF, CHR 0xE8, CHR 0x83, CHR 0xBD, CHR 0xE3, CHR 0x80, CHR 0x82] @
      ''\<newline>'',
    ''* **update:** '' @
      [CHR 0xE5, CHR 0x8F, CHR 0x82, CHR 0xE5, CHR 0x8A, CHR 0xA0, CHR 0xE8, CHR 0x80, CHR 0x85,
       CHR 0xE3, CHR 0x81, CHR 0xAF] @
      '' `current_state` '' @
      [CHR 0xE3, CHR 0x82, CHR 0xAB, CHR 0xE3, CHR 0x83, CHR 0xA9, CHR 0xE3, CHR 0x83, CHR 0xA0,
       CHR 0xE3, CHR 0x82, CHR 0x92] @
      '' `UPDATE` '' @
      [CHR 0xE5, CHR 0x8F, CHR 0xAF, CHR 0xE8, CHR 0x83, CHR 0xBD, CHR 0xEF, CHR 0xBC, CHR 0x88,
       CHR 0xE3, CHR 0x81, CHR 0xBE, CHR 0xE3, CHR 0x81, CHR 0x9F, CHR 0xE3, CHR 0x81, CHR 0xAF] @
      ''Postgres Function'' @
      [CHR 0xE7, CHR 0xB5, CHR 0x8C, CHR 0xE7, CHR 0x94, CHR 0xB1, CHR 0xE3, CHR 0x81, CHR 0xA7,
       CHR 0xE6, CHR 0x9B, CHR 0xB4, CHR 0xE6, CHR 0x96, CHR 0xB0, CHR 0xEF, CHR 0xBC, CHR 0x89,
       CHR 0xE3, CHR 0x80, CHR 0x82] @
      ''\<newline>'']\<close>

text \<open>The f-string of \<^verbatim>\<open>04_Tech_Architecture.md\<close>: source lines 155 to 174, one list element per line.\<close>

definition Tech_Architecture_lines :: "string list" where
  \<open>Tech_Architecture_lines = [
    ''# '' @
      [CHR 0xE6, CHR 0x8A, CHR 0x80, CHR 0xE8, CHR 0xA1, CHR 0x93, CHR 0xE6, CHR 0xA7, CHR 0x8B,
       CHR 0xE6, CHR 0x88, CHR 0x90, CHR 0xE6, CHR 0x9B, CHR 0xB8] @
      '' (Technical Architecture)\<newline>'',
    ''\<newline>'',
    ''## 1. '' @
      [CHR 0xE6, CHR 0x8A, CHR 0x80, CHR 0xE8, CHR 0xA1, CHR 0x93, CHR 0xE9, CHR 0x81, CHR 0xB8,
       CHR 0xE5, CHR 0xAE, CHR 0x9A, CHR 0xE7, CHR 0x90, CHR 0x86, CHR 0xE7, CHR 0x94, CHR 0xB1] @
      ''\<newline>'',
    ''* **Platform:** React Native (Expo)\<newline>'',
    ''    * iOS/Android'' @
      [CHR 0xE4, CHR 0xB8, CHR 0xA1, CHR 0xE5, CHR 0xAF, CHR 0xBE, CHR 0xE5, CHR 0xBF, CHR 0x9C,
       CHR 0xE3, CHR 0x80, CHR 0x81, CHR 0xE9, CHR 0x96, CHR 0x8B, CHR 0xE7, CHR 0x99, CHR 0xBA,
       CHR 0xE9, CHR 0x80, CHR 0x9F, CHR 0xE5, CHR 0xBA, CHR 0xA6, CHR 0xE3, CHR 0x81, CHR 0x8C,
       CHR 0xE9, CHR 0x80, CHR 0x9F, CHR 0xE3, CHR 0x81, CHR 0x84, CHR 0xE3, CHR 0x80, CHR 0x82] @
      ''\<newline>'',
    ''* **Backend:** Supabase\<newline>'',
    ''    * **Database:** PostgreSQL ('' @
      [CHR 0xE5, CHR 0xA0, CHR 0x85, CHR 0xE7, CHR 0x89, CHR 0xA2, CHR 0xE3, CHR 0x81, CHR 0xAA,
       CHR 0xE3, CHR 0x83, CHR 0x87, CHR 0xE3, CHR 0x83, CHR 0xBC, CHR 0xE3, CHR 0x82, CHR 0xBF,
       CHR 0xE7, CHR 0xAE, CHR 0xA1, CHR 0xE7, CHR 0x90, CHR 0x86] @
      '')'' @ [CHR 0xE3, CHR 0x80, CHR 0x82] @ ''\<newline>'',
    ''    * **Realtime:** DB'' @
      [CHR 0xE3, CHR 0x81, CHR 0xAE, CHR 0xE5, CHR 0xA4, CHR 0x89, CHR 0xE6, CHR 0x9B, CHR 0xB4,
       CHR 0xE3, CHR 0x82, CHR 0x92] @
      ''WebSocket'' @
      [CHR 0xE3, CHR 0x81, CHR 0xA7, CHR 0xE5, CHR 0x8D, CHR 0xB3, CHR 0xE5, CHR 0xBA, CHR 0xA7,
       CHR 0xE3, CHR 0x81, CHR 0xAB, CHR 0xE3, CHR 0x82, CHR 0xAF, CHR 0xE3, CHR 0x83, CHR 0xA9,
       CHR 0xE3, CHR 0x82, CHR 0xA4, CHR 0xE3, CHR 0x82, CHR 0xA2, CHR 0xE3, CHR 0x83, CHR 0xB3,
       CHR 0xE3, CHR 0x83, CHR 0x88, CHR 0xE3, CHR 0x81, CHR 0xB8] @
      ''Push'' @
      [CHR 0xE3, CHR 0x81, CHR 0x99, CHR 0xE3, CHR 0x82, CHR 0x8B, CHR 0xE6, CHR 0xA9, CHR 0x9F,
       CHR 0xE8, CHR 0x83, CHR 0xBD, CHR 0xE3, CHR 0x81, CHR 0x8C, CHR 0xE6, CHR 0xA8, CHR 0x99,
       CHR 0xE6, CHR 0xBA, CHR 0x96, CHR 0xE8, CHR 0xA3, CHR 0x85, CHR 0xE5, CHR 0x82, CHR 0x99,
       CHR 0xE3, CHR 0x81, CHR 0x95, CHR 0xE3, CHR 0x82, CHR 0x8C, CHR 0xE3, CHR 0x81, CHR 0xA6,
       CHR 0xE3, CHR 0x81, CHR 0x8A, CHR 0xE3, CHR 0x82, CHR 0x8A, CHR 0xE3, CHR 0x80, CHR 0x81,
       CHR 0xE8, CHR 0x87, CHR 0xAA, CHR 0xE5, CHR 0x89, CHR 0x8D, CHR 0xE3, CHR 0x81, CHR 0xA7,
       CHR 0xE3, CHR 0x81, CHR 0xAE] @
      ''Socket'' @
      [CHR 0xE5, CHR 0xAE, CHR 0x9F, CHR 0xE8, CHR 0xA3, CHR 0x85, CHR 0xE3, CHR 0x81, CHR 0x8C,
       CHR 0xE4, CHR 0xB8, CHR 0x8D, CHR 0xE8, CHR 0xA6, CHR 0x81, CHR 0xE3, CHR 0x80, CHR 0x82] @
      ''\<newline>'',
    ''    * **Auth:** '' @
      [CHR 0xE5, CHR 0x8C, CHR 0xBF, CHR 0xE5, CHR 0x90, CHR 0x8D, CHR 0xE8, CHR 0xAA, CHR 0x8D,
       CHR 0xE8, CHR 0xA8, CHR 0xBC] @
      '' (Anonymous Login) '' @
      [CHR 0xE3, CHR 0x81, CHR 0x8C, CHR 0xE6, CHR 0xA8, CHR 0x99, CHR 0xE6, CHR 0xBA, CHR 0x96,
       CHR 0xE3, CHR 0x81, CHR 0xA7, CHR 0xE4, CHR 0xBD, CHR 0xBF, CHR 0xE3, CHR 0x81, CHR 0x88,
       CHR 0xE3, CHR 0x80, CHR 0x81, CHR 0xE9, CHR 0x9D, CHR 0xA2, CHR 0xE5, CHR 0x80, CHR 0x92,
       CHR 0xE3, CHR 0x81, CHR 0xAA, CHR 0xE7, CHR 0x99, CHR 0xBB, CHR 0xE9, CHR 0x8C, CHR 0xB2,
       CHR 0xE3, CHR 0x83, CHR 0x95, CHR 0xE3, CHR 0x82, CHR 0xA9, CHR 0xE3, CHR 0x83, CHR 0xBC,
       CHR 0xE3, CHR 0x83, CHR 0xA0, CHR 0xE3, CHR 0x82, CHR 0x92, CHR 0xE4, CHR 0xBD, CHR 0x9C,
       CHR 0xE3, CHR 0x82, CHR 0x89, CHR 0xE3, CHR 0x81, CHR 0xAA, CHR 0xE3, CHR 0x81, CHR 0x8F,
       CHR 0xE3, CHR 0x81, CHR 0xA6, CHR 0xE8, CHR 0x89, CHR 0xAF, CHR 0xE3, CHR 0x81, CHR 0x84,
       CHR 0xE3, CHR 0x80, CHR 0x82] @
      ''\<newline>'',
    ''\<newline>'',
    ''## 2. '' @
      [CHR 0xE5, CHR 0x90, CHR 0x8C, CHR 0xE6, CHR 0x9C, CHR 0x9F, CHR 0xE3, CHR 0x83, CHR 0x95,
       CHR 0xE3, CHR 0x83, CHR 0xAD, CHR 0xE3, CHR 0x83, CHR 0xBC] @
      '' (Sync Strategy)\<newline>'',
    ''\<newline>'',
    ''1. **Change:** '' @
      [CHR 0xE3, CHR 0x83, CHR 0xA6, CHR 0xE3, CHR 0x83, CHR 0xBC, CHR 0xE3, CHR 0x82, CHR 0xB6,
       CHR 0xE3, CHR 0x83, CHR 0xBC, CHR 0xE3, CHR 0x81, CHR 0x8C, CHR 0xE3, CHR 0x83, CHR 0x9C,
       CHR 0xE3, CHR 0x82, CHR 0xBF, CHR 0xE3, CHR 0x83, CHR 0xB3, CHR 0xE3, CHR 0x82, CHR 0x92,
       CHR 0xE6, CHR 0x8A, CHR 0xBC, CHR 0xE3, CHR 0x81, CHR 0x99, CHR 0xE3, CHR 0x80, CHR 0x82] @
      ''\<newline>'',
    ''2. **Update:** '' @
      [CHR 0xE3, CHR 0x82, CHR 0xAF, CHR 0xE3, CHR 0x83, CHR 0xA9, CHR 0xE3, CHR 0x82, CHR 0xA4,
       CHR 0xE3, CHR 0x82, CHR 0xA2, CHR 0xE3, CHR 0x83, CHR 0xB3, CHR 0xE3, CHR 0x83, CHR 0x88,
       CHR 0xE3, CHR 0x81, CHR 0x8C] @
      '' Supabase JS SDK '' @
      [CHR 0xE3, CHR 0x82, CHR 0x92, CHR 0xE4, CHR 0xBD, CHR 0xBF, CHR 0xE3, CHR 0x81, CHR 0x84,
       CHR 0xE3, CHR 0x80, CHR 0x81] @
      ''`rooms` '' @
      [CHR 0xE3, CHR 0x83, CHR 0x86, CHR 0xE3, CHR 0x83, CHR 0xBC, CHR 0xE3, CHR 0x83, CHR 0x96,
       CHR 0xE3, CHR 0x83, CHR 0xAB, CHR 0xE3, CHR 0x81, CHR 0xAE] @
      '' `current_state` '' @
      [CHR 0xE3, CHR 0x82, CHR 0x92, CHR 0xE6, CHR 0x9B, CHR 0xB4, CHR 0xE6, CHR 0x96, CHR 0xB0,
       CHR 0xE3, CHR 0x81, CHR 0x99, CHR 0xE3, CHR 0x82, CHR 0x8B, CHR 0xE3, CHR 0x80, CHR 0x82] @
      ''\<newline>'',
    ''3. **Broadcast:** Supabase '' @
      [CHR 0xE3, CHR 0x81, CHR 0x8C, CHR 0xE5, CHR 0xA4, CHR 0x89, CHR 0xE6, CHR 0x9B, CHR 0xB4,
       CHR 0xE3, CHR 0x82, CHR 0x92, CHR 0xE6, CHR 0xA4, CHR 0x9C, CHR 0xE7, CHR 0x9F, CHR 0xA5,
       CHR 0xE3, CHR 0x81, CHR 0x97, CHR 0xE3, CHR 0x80, CHR 0x81, CHR 0xE5, CHR 0x90, CHR 0x8C,
       CHR 0xE3, CHR 0x81, CHR 0x98, CHR 0xE3, CHR 0x83, CHR 0xAB, CHR 0xE3, CHR 0x83, CHR 0xBC,
       CHR 0xE3, CHR 0x83, CHR 0xA0, CHR 0xE3, CHR 0x82, CHR 0x92, CHR 0xE8, CHR 0xB3, CHR 0xBC,
       CHR 0xE8, CHR 0xAA, CHR 0xAD, CHR 0xE3, CHR 0x81, CHR 0x97, CHR 0xE3, CHR 0x81, CHR 0xA6,
       CHR 0xE3, CHR 0x81, CHR 0x84, CHR 0xE3, CHR 0x82, CHR 0x8B, CHR 0xE5, CHR 0x85, CHR 0xA8,
       CHR 0xE7, CHR 0xAB, CHR 0xAF, CHR 0xE6, CHR 0x9C, CHR 0xAB, CHR 0xE3, CHR 0x81, CHR 0xB8,
       CHR 0xE3, CHR 0x83, CHR 0x91, CHR 0xE3, CHR 0x83, CHR 0x83, CHR 0xE3, CHR 0x83, CHR 0x81,
       CHR 0xE3, CHR 0x82, CHR 0x92, CHR 0xE9, CHR 0x85, CHR 0x8D, CHR 0xE4, CHR 0xBF, CHR 0xA1,
       CHR 0xE3, CHR 0x80, CHR 0x82] @
      ''\<newline>'',
    ''4. **Reflect:** '' @
      [CHR 0xE5, CHR 0x90, CHR 0x84, CHR 0xE7, CHR 0xAB, CHR 0xAF, CHR 0xE6, CHR 0x9C, CHR 0xAB,
       CHR 0xE3, CHR 0x81, CHR 0xAE, CHR 0xE7, CHR 0x94, CHR 0xBB, CHR 0xE9, CHR 0x9D, CHR 0xA2,
       CHR 0xE3, CHR 0x81, CHR 0x8C, CHR 0xE8, CHR 0x87, CHR 0xAA, CHR 0xE5, CHR 0x8B, CHR 0x95,
       CHR 0xE6, CHR 0x9B, CHR 0xB4, CHR 0xE6, CHR 0x96, CHR 0xB0, CHR 0xE3, CHR 0x81, CHR 0x95,
       CHR 0xE3, CHR 0x82, CHR 0x8C, CHR 0xE3, CHR 0x82, CHR 0x8B, CHR 0xE3, CHR 0x80, CHR 0x82] @
      ''\<newline>'',
    ''\<newline>'',
    ''## 3. '' @
      [CHR 0xE3, CHR 0x82, CHR 0xAA, CHR 0xE3, CHR 0x83, CHR 0x95, CHR 0xE3, CHR 0x83, CHR 0xA9,
       CHR 0xE3, CHR 0x82, CHR 0xA4, CHR 0xE3, CHR 0x83, CHR 0xB3] @
      ''/'' @
      [CHR 0xE3, CHR 0x82, CHR 0xA8, CHR 0xE3, CHR 0x83, CHR 0xA9, CHR 0xE3, CHR 0x83, CHR 0xBC,
       CHR 0xE3, CHR 0x83, CHR 0x8F, CHR 0xE3, CHR 0x83, CHR 0xB3, CHR 0xE3, CHR 0x83, CHR 0x89,
       CHR 0xE3, CHR 0x83, CHR 0xAA, CHR 0xE3, CHR 0x83, CHR 0xB3, CHR 0xE3, CHR 0x82, CHR 0xB0] @
      ''\<newline>'',
    ''* '' @
      [CHR 0xE9, CHR 0x80, CHR 0x9A, CHR 0xE4, CHR 0xBF, CHR 0xA1, CHR 0xE5, CHR 0x88, CHR 0x87,
       CHR 0xE6, CHR 0x96, CHR 0xAD, CHR 0xE6, CHR 0x99, CHR 0x82, CHR 0xE3, CHR 0x81, CHR 0xAF,
       CHR 0xE3, CHR 0x80, CHR 0x81, CHR 0xE7, CHR 0x94, CHR 0xBB, CHR 0xE9, CHR 0x9D, CHR 0xA2,
       CHR 0xE3, CHR 0x81, CHR 0xAB, CHR 0xE3, CHR 0x80, CHR 0x8C, CHR 0xE6, CHR 0x8E, CHR 0xA5,
       CHR 0xE7, CHR 0xB6, CHR 0x9A, CHR 0xE4, CHR 0xB8, CHR 0xAD] @
      ''...'' @
      [CHR 0xE3, CHR 0x80, CHR 0x8D, CHR 0xE3, CHR 0x81, CHR 0xAE, CHR 0xE3, CHR 0x83, CHR 0x88,
       CHR 0xE3, CHR 0x83, CHR 0xBC, CHR 0xE3, CHR 0x82, CHR 0xB9, CHR 0xE3, CHR 0x83, CHR 0x88,
       CHR 0xE3, CHR 0x82, CHR 0x92, CHR 0xE8, CHR 0xA1, CHR 0xA8, CHR 0xE7, CHR 0xA4, CHR 0xBA,
       CHR 0xE3, CHR 0x81, CHR 0x97, CHR 0xE3, CHR 0x80, CHR 0x81, CHR 0xE6, CHR 0x93, CHR 0x8D,
       CHR 0xE4, CHR 0xBD, CHR 0x9C, CHR 0xE3, CHR 0x82, CHR 0x92, CHR 0xE3, CHR 0x83, CHR 0x96,
       CHR 0xE3, CHR 0x83, CHR 0xAD, CHR 0xE3, CHR 0x83, CHR 0x83, CHR 0xE3, CHR 0x82, CHR 0xAF,
       CHR 0xE3, CHR 0x81, CHR 0x99, CHR 0xE3, CHR 0x82, CHR 0x8B, CHR 0xEF, CHR 0xBC, CHR 0x88,
       CHR 0xE4, CHR 0xB8, CHR 0x8D, CHR 0xE6, CHR 0x95, CHR 0xB4, CHR 0xE5, CHR 0x90, CHR 0x88,
       CHR 0xE9, CHR 0x98, CHR 0xB2, CHR 0xE6, CHR 0xAD, CHR 0xA2, CHR 0xEF, CHR 0xBC, CHR 0x89,
       CHR 0xE3, CHR 0x80, CHR 0x82] @
      ''\<newline>'',
    ''* '' @
      [CHR 0xE5, CHR 0x86, CHR 0x8D, CHR 0xE6, CHR 0x8E, CHR 0xA5, CHR 0xE7, CHR 0xB6, CHR 0x9A,
       CHR 0xE6, CHR 0x99, CHR 0x82, CHR 0xE3, CHR 0x81, CHR 0xAB, CHR 0xE6, CHR 0x9C, CHR 0x80,
       CHR 0xE6, CHR 0x96, CHR 0xB0, CHR 0xE3, CHR 0x81, CHR 0xAE] @
      '' `current_state` '' @
      [CHR 0xE3, CHR 0x82, CHR 0x92, CHR 0xE3, CHR 0x83, CHR 0x95, CHR 0xE3, CHR 0x82, CHR 0xA7,
       CHR 0xE3, CHR 0x83, CHR 0x83, CHR 0xE3, CHR 0x83, CHR 0x81, CHR 0xE3, CHR 0x81, CHR 0x97,
       CHR 0xE3, CHR 0x80, CHR 0x81, CHR 0xE5, CHR 0x90, CHR 0x8C, CHR 0xE6, CHR 0x9C, CHR 0x9F,
       CHR 0xE3, CHR 0x81, CHR 0x97, CHR 0xE7, CHR 0x9B, CHR 0xB4, CHR 0xE3, CHR 0x81, CHR 0x99,
       CHR 0xE3, CHR 0x80, CHR 0x82] @
      ''\<newline>'']\<close>

definition tpl_README :: string where
  "tpl_README = concat README_lines"

definition tpl_Requirements :: string where
  "tpl_Requirements = concat Requirements_lines"

definition tpl_Basic_Design :: string where
  "tpl_Basic_Design = concat Basic_Design_lines"

definition tpl_Data_Model :: string where
  "tpl_Data_Model = concat Data_Model_lines"

definition tpl_Tech_Architecture :: string where
  "tpl_Tech_Architecture = concat Tech_Architecture_lines"

text \<open>Lines 7 to 176: the dict display, its five items in the order of the source.\<close>

definition files_content :: "py_error + (string \<times> string) list" where
  "files_content = dict_display
     [(''README.md'', fstring module_globals tpl_README),
      (''01_Requirements.md'', fstring module_globals tpl_Requirements),
      (''02_Basic_Design.md'', fstring module_globals tpl_Basic_Design),
      (''03_Data_Model.md'', fstring module_globals tpl_Data_Model),
      (''04_Tech_Architecture.md'', fstring module_globals tpl_Tech_Architecture)] []"

text \<open>Line 179.\<close>

definition zip_filename :: string where
  "zip_filename = ''Local_Sync_Board_Cloud_Docs.zip''"

section \<open>The file system, the terminal and \<^verbatim>\<open>zipfile\<close>\<close>

text \<open>
  The standard library is not part of the repository. It is modelled by what the script
  relies on. A zip file on disk is its list of members, in the order they were written,
  and whether it has been finalised (\<^verbatim>\<open>close\<close> has written the central directory).
  A member has a name, its bytes, and the compression method it was stored with.
  The terminal is the list of lines printed so far.

  An operation of the operating system can fail. Which ones do is an input of a run:
  \<open>open_fault\<close> says whether creating a file at a path raises, \<open>write_fault\<close> whether
  writing the member of a name raises, \<open>close_fault\<close> whether finalising the file at a
  path raises. A member whose write raises is not added to the archive.
\<close>

datatype compression = ZIP_STORED | ZIP_DEFLATED | ZIP_BZIP2 | ZIP_LZMA

record zip_member =
  member_name :: string
  member_data :: string
  member_method :: compression

record archive =
  members :: "zip_member list"
  finalized :: bool

record world =
  files :: "string \<rightharpoonup> archive"
  stdout :: "string list"

record faults =
  open_fault :: "string \<Rightarrow> py_error option"
  write_fault :: "string \<Rightarrow> py_error option"
  close_fault :: "string \<Rightarrow> py_error option"

text \<open>The \<^verbatim>\<open>ZipFile\<close> object: the path it writes to and its default compression method.\<close>

record zipfile =
  zf_filename :: string
  zf_compression :: compression

text \<open>
  \<^verbatim>\<open>zipfile.ZipFile(file, 'w')\<close>: mode \<^verbatim>\<open>'w'\<close> creates the file or truncates the one
  that is there, so the archive at the path starts empty. The call of the script passes
  no \<^verbatim>\<open>compression\<close> argument, and the parameter's default is \<^verbatim>\<open>ZIP_STORED\<close>.
\<close>

definition ZipFile :: "faults \<Rightarrow> string \<Rightarrow> world \<Rightarrow> py_error + (zipfile \<times> world)" where
  "ZipFile flt file w =
     (case open_fault flt file of
        Some e \<Rightarrow> Inl e
      | None \<Rightarrow>
          Inr (\<lparr>zf_filename = file, zf_compression = ZIP_STORED\<rparr>,
               w\<lparr>files := (files w)(file \<mapsto> \<lparr>members = [], finalized = False\<rparr>)\<rparr>))"

text \<open>
  \<^verbatim>\<open>zipf.writestr(arcname, data)\<close>: appends one member, stored with the method of the
  \<^verbatim>\<open>ZipFile\<close> object since the call names none.
\<close>

definition writestr :: "faults \<Rightarrow> zipfile \<Rightarrow> string \<Rightarrow> string \<Rightarrow> world \<Rightarrow> py_error + world" where
  "writestr flt zf arcname bytes w =
     (case write_fault flt arcname of
        Some e \<Rightarrow> Inl e
      | None \<Rightarrow>
          Inr (w\<lparr>files := (files w)(zf_filename zf :=
                 map_option
                   (\<lambda>a. a\<lparr>members := members a @
                      [\<lparr>member_name = arcname, member_data = bytes,
                        member_method = zf_compression zf\<rparr>]\<rparr>)
                   (files w (zf_filename zf)))\<rparr>))"

text \<open>\<^verbatim>\<open>zipf.close()\<close>, which the \<^verbatim>\<open>with\<close> statement calls when its body is left.\<close>

definition ZipFile_close :: "faults \<Rightarrow> zipfile \<Rightarrow> world \<Rightarrow> py_error + world" where
  "ZipFile_close flt zf w =
     (case close_fault flt (zf_filename zf) of
        Some e \<Rightarrow> Inl e
      | None \<Rightarrow>
          Inr (w\<lparr>files := (files w)(zf_filename zf :=
                 map_option (\<lambda>a. a\<lparr>finalized := True\<rparr>) (files w (zf_filename zf)))\<rparr>))"

definition print :: "string \<Rightarrow> world \<Rightarrow> world" where
  "print line w = w\<lparr>stdout := stdout w @ [line]\<rparr>"

section \<open>The script\<close>

text \<open>
  Lines 183 to 185, the loop over \<^verbatim>\<open>files_content.items()\<close>: each item is written,
  then reported. An exception of \<^verbatim>\<open>writestr\<close> leaves the loop at once.
  \<^verbatim>\<open>f" - Added: {filename}"\<close> is the text before the field followed by the value of
  \<^verbatim>\<open>filename\<close> (lemma \<open>fstring_added\<close> below).
\<close>

fun for_items :: "faults \<Rightarrow> zipfile \<Rightarrow> (string \<times> string) list \<Rightarrow> world \<Rightarrow> py_error option \<times> world" where
  "for_items flt zipf [] w = (None, w)"
| "for_items flt zipf ((filename, content) # rest) w =
     (case writestr flt zipf filename content w of
        Inl e \<Rightarrow> (Some e, w)
      | Inr w' \<Rightarrow> for_items flt zipf rest (print ('' - Added: '' @ filename) w'))"

text \<open>
  The module, run from top to bottom. The result is the exception that ended the run, if
  any, and the world the run left. The dict is built first (lines 7 to 176); line 180
  prints; the \<^verbatim>\<open>with\<close> statement of line 182 opens the archive, runs the loop and closes
  the archive whether the loop raised or not, an exception of the loop propagating after
  the close (an exception of the close itself takes its place); line 187 prints only
  when nothing was raised.
\<close>

definition generate_md :: "faults \<Rightarrow> world \<Rightarrow> py_error option \<times> world" where
  "generate_md flt w =
     (case files_content of
        Inl e \<Rightarrow> (Some e, w)
      | Inr fc \<Rightarrow>
          (let w1 = print (''Creating '' @ zip_filename @ ''...'') w in
           case ZipFile flt zip_filename w1 of
             Inl e \<Rightarrow> (Some e, w1)
           | Inr (zipf, w2) \<Rightarrow>
               (case for_items flt zipf (dict_items fc) w2 of
                  (Some e, w3) \<Rightarrow>
                    (case ZipFile_close flt zipf w3 of
                       Inl e' \<Rightarrow> (Some e', w3)
                     | Inr w4 \<Rightarrow> (Some e, w4))
                | (None, w3) \<Rightarrow>
                    (case ZipFile_close flt zipf w3 of
                       Inl e' \<Rightarrow> (Some e', w3)
                     | Inr w4 \<Rightarrow>
                         (None, print (''Done! '' @ [CHR 0x27] @ zip_filename @ [CHR 0x27] @
                                        '' has been created.'') w4)))))"

text \<open>
  The two JSON examples of \<^verbatim>\<open>03_Data_Model.md\<close> as a reader of the document is to
  see them (source lines 121 to 129 and 135 to 146, every doubled brace a single one),
  and the two fence lines around each.
\<close>

definition template_example_lines :: "string list" where
  \<open>template_example_lines = [
    ''{\<newline>'',
    ''  "variables": [\<newline>'',
    ''    { "key": "score", "label": "'' @
      [CHR 0xE7, CHR 0x82, CHR 0xB9, CHR 0xE6, CHR 0x95, CHR 0xB0] @
      ''", "initial": 25000 },\<newline>'',
    ''    { "key": "coins", "label": "'' @
      [CHR 0xE3, CHR 0x82, CHR 0xB3, CHR 0xE3, CHR 0x82, CHR 0xA4, CHR 0xE3, CHR 0x83, CHR 0xB3] @
      ''", "initial": 0 }\<newline>'',
    ''  ],\<newline>'',
    ''  "actions": [\<newline>'',
    ''    { "label": "'' @
      [CHR 0xE3, CHR 0x83, CHR 0xAA, CHR 0xE3, CHR 0x83, CHR 0xBC, CHR 0xE3, CHR 0x83, CHR 0x81] @
      ''", "calc": "score - 1000" }\<newline>'',
    ''  ]\<newline>'',
    ''}\<newline>'']\<close>

definition current_state_example_lines :: "string list" where
  \<open>current_state_example_lines = [
    ''{\<newline>'',
    ''  "user_uuid_A": {\<newline>'',
    ''    "score": 24000,\<newline>'',
    ''    "coins": 0,\<newline>'',
    ''    "_status": "ready" \<newline>'',
    ''  },\<newline>'',
    ''  "user_uuid_B": {\<newline>'',
    ''    "score": 25000,\<newline>'',
    ''    "coins": 0,\<newline>'',
    ''    "_status": "thinking"\<newline>'',
    ''  }\<newline>'',
    ''}\<newline>'']\<close>

section \<open>Notions the statements use\<close>

text \<open>
  The value of one line of an f-string, and the text of \<^verbatim>\<open>03_Data_Model.md\<close> as the
  concatenation of the values of its lines. Lemma \<open>fstring_Data_Model\<close> shows that the
  f-string of the source evaluates to this text.
\<close>

definition render_line :: "string \<Rightarrow> string" where
  "render_line l = (case fstring module_globals l of Inl e \<Rightarrow> [] | Inr s \<Rightarrow> s)"

definition doc_Data_Model :: string where
  "doc_Data_Model = concat (map render_line Data_Model_lines)"

text \<open>
  The items the dict display evaluates to (lemma \<open>files_content_value\<close>): the four
  documents without a brace are their own text.
\<close>

definition registry :: "(string \<times> string) list" where
  "registry =
     [(''README.md'', tpl_README),
      (''01_Requirements.md'', tpl_Requirements),
      (''02_Basic_Design.md'', tpl_Basic_Design),
      (''03_Data_Model.md'', doc_Data_Model),
      (''04_Tech_Architecture.md'', tpl_Tech_Architecture)]"

text \<open>A member of an archive made from an item of the dict, with a compression method.\<close>

definition stored_as :: "compression \<Rightarrow> string \<times> string \<Rightarrow> zip_member" where
  "stored_as m item = \<lparr>member_name = fst item, member_data = snd item, member_method = m\<rparr>"

text \<open>
  A name without a path separator: the slash of the zip format, and the backslash that
  \<^verbatim>\<open>zipfile\<close> turns into a slash where it is the separator of the platform.
\<close>

definition flat_name :: "string \<Rightarrow> bool" where
  "flat_name n = (CHR ''/'' \<notin> set n \<and> CHR 0x5C \<notin> set n)"

text \<open>Inputs of a run: an operating system that never fails, and an empty disk and terminal.\<close>

definition no_faults :: faults where
  "no_faults = \<lparr>open_fault = (\<lambda>p. None), write_fault = (\<lambda>n. None), close_fault = (\<lambda>p. None)\<rparr>"

definition empty_world :: world where
  "empty_world = \<lparr>files = Map.empty, stdout = []\<rparr>"

text \<open>A disk that fills up while the third document is written.\<close>

definition disk_full :: faults where
  "disk_full = \<lparr>open_fault = (\<lambda>p. None),
     write_fault = (\<lambda>n. if n = ''02_Basic_Design.md''
                         then Some (OSError ''No space left on device'') else None),
     close_fault = (\<lambda>p. None)\<rparr>"

text \<open>A directory that cannot be written to.\<close>

definition read_only :: faults where
  "read_only = \<lparr>open_fault = (\<lambda>p. Some (OSError ''Permission denied'')),
     write_fault = (\<lambda>n. None), close_fault = (\<lambda>p. None)\<rparr>"

text \<open>A world in which an earlier archive with a member of another name is at the output path.\<close>

definition stale_world :: world where
  "stale_world = \<lparr>files = [zip_filename \<mapsto>
       \<lparr>members = [\<lparr>member_name = ''99_Old_Notes.md'', member_data = ''old'',
                     member_method = ZIP_DEFLATED\<rparr>],
        finalized = True\<rparr>],
     stdout = [''earlier output'']\<rparr>"

section \<open>Formatted string literals, piece by piece\<close>

text \<open>
  A scan that succeeds on a text ends outside a field, so the scan of a longer text
  continues after it as from the start.
\<close>

lemma fstring_scan_append:
  "fstring_scan env m xs = Inr a \<Longrightarrow>
   fstring_scan env m (xs @ ys) = map_sum id ((@) a) (fstring_scan env Literal ys)"
proof (induction env m xs arbitrary: a rule: fstring_scan.induct)
  case (1 env)
  then show ?case by (cases "fstring_scan env Literal ys") auto
next
  case (2 env c cs)
  then show ?case
    by (cases "fstring_scan env Literal cs"; cases "fstring_scan env Literal ys")
       (auto split: if_splits)
next
  case (4 env c cs)
  then show ?case
    by (cases "fstring_scan env Literal cs"; cases "fstring_scan env Literal ys")
       (auto split: if_splits)
next
  case (6 env nm c cs)
  then show ?case
    by (cases "fstring_scan env Literal cs"; cases "fstring_scan env Literal ys")
       (auto split: if_splits option.splits)
next
  case (8 env c cs)
  then show ?case
    by (cases "fstring_scan env Literal cs"; cases "fstring_scan env Literal ys")
       (auto split: if_splits)
qed simp_all

lemma fstring_concat:
  assumes "list_all (\<lambda>l. \<not> isl (fstring env l)) ls"
  shows "fstring env (concat ls) =
     Inr (concat (map (\<lambda>l. case fstring env l of Inl e \<Rightarrow> [] | Inr s \<Rightarrow> s) ls))"
  using assms
proof (induction ls)
  case Nil
  then show ?case by (simp add: fstring_def)
next
  case (Cons l ls)
  from Cons.prems obtain s where s: "fstring env l = Inr s"
    by (cases "fstring env l") auto
  from Cons have rest: "fstring env (concat ls) =
      Inr (concat (map (\<lambda>l. case fstring env l of Inl e \<Rightarrow> [] | Inr s \<Rightarrow> s) ls))"
    by simp
  from s have "fstring env (l @ concat ls) = map_sum id ((@) s) (fstring env (concat ls))"
    unfolding fstring_def by (rule fstring_scan_append)
  with rest s show ?case by simp
qed

text \<open>A text without a brace is its own value.\<close>

lemma fstring_scan_plain:
  "CHR ''{'' \<notin> set s \<Longrightarrow> CHR ''}'' \<notin> set s \<Longrightarrow> fstring_scan env Literal s = Inr s"
  by (induction s) auto

lemma fstring_plain_lines:
  assumes "list_all (list_all (\<lambda>c. c \<noteq> CHR ''{'' \<and> c \<noteq> CHR ''}'')) ls"
  shows "fstring env (concat ls) = Inr (concat ls)"
  unfolding fstring_def using assms
  by (intro fstring_scan_plain) (auto simp: list_all_iff)

text \<open>The two f-strings of the \<^verbatim>\<open>print\<close> calls that hold a field, for any value of the variable.\<close>

lemma fstring_creating:
  "fstring [''zip_filename'' \<mapsto> z] ''Creating {zip_filename}...'' = Inr (''Creating '' @ z @ ''...'')"
  by (simp add: fstring_def)

lemma fstring_added:
  "fstring [''filename'' \<mapsto> n] '' - Added: {filename}'' = Inr ('' - Added: '' @ n)"
  by (simp add: fstring_def)

lemma fstring_done:
  "fstring [''zip_filename'' \<mapsto> z] ''Done! '{zip_filename}' has been created.'' =
     Inr (''Done! '' @ [CHR 0x27] @ z @ [CHR 0x27] @ '' has been created.'')"
  by (simp add: fstring_def)

section \<open>The five documents\<close>

lemma README_plain:
  "list_all (list_all (\<lambda>c. c \<noteq> CHR ''{'' \<and> c \<noteq> CHR ''}'')) README_lines"
  by (simp add: README_lines_def)

lemma Requirements_plain:
  "list_all (list_all (\<lambda>c. c \<noteq> CHR ''{'' \<and> c \<noteq> CHR ''}'')) Requirements_lines"
  by (simp add: Requirements_lines_def)

lemma Basic_Design_plain:
  "list_all (list_all (\<lambda>c. c \<noteq> CHR ''{'' \<and> c \<noteq> CHR ''}'')) Basic_Design_lines"
  by (simp add: Basic_Design_lines_def)

lemma Tech_Architecture_plain:
  "list_all (list_all (\<lambda>c. c \<noteq> CHR ''{'' \<and> c \<noteq> CHR ''}'')) Tech_Architecture_lines"
  by (simp add: Tech_Architecture_lines_def)

lemma Data_Model_lines_ok:
  "list_all (\<lambda>l. \<not> isl (fstring module_globals l)) Data_Model_lines"
  by (simp add: Data_Model_lines_def fstring_def module_globals_def BQ_def)

lemma fstring_README: "fstring module_globals tpl_README = Inr tpl_README"
  unfolding tpl_README_def by (rule fstring_plain_lines [OF README_plain])

lemma fstring_Requirements: "fstring module_globals tpl_Requirements = Inr tpl_Requirements"
  unfolding tpl_Requirements_def by (rule fstring_plain_lines [OF Requirements_plain])

lemma fstring_Basic_Design: "fstring module_globals tpl_Basic_Design = Inr tpl_Basic_Design"
  unfolding tpl_Basic_Design_def by (rule fstring_plain_lines [OF Basic_Design_plain])

lemma fstring_Tech_Architecture:
  "fstring module_globals tpl_Tech_Architecture = Inr tpl_Tech_Architecture"
  unfolding tpl_Tech_Architecture_def by (rule fstring_plain_lines [OF Tech_Architecture_plain])

lemma fstring_Data_Model: "fstring module_globals tpl_Data_Model = Inr doc_Data_Model"
proof -
  have "(\<lambda>l. case fstring module_globals l of Inl e \<Rightarrow> [] | Inr s \<Rightarrow> s) = render_line"
    by (simp add: fun_eq_iff render_line_def)
  with fstring_concat [OF Data_Model_lines_ok] show ?thesis
    by (simp add: tpl_Data_Model_def doc_Data_Model_def)
qed

lemma files_content_value: "files_content = Inr registry"
  by (simp add: files_content_def registry_def fstring_README fstring_Requirements
      fstring_Basic_Design fstring_Data_Model fstring_Tech_Architecture)

lemma registry_names:
  "map fst registry = [''README.md'', ''01_Requirements.md'', ''02_Basic_Design.md'',
     ''03_Data_Model.md'', ''04_Tech_Architecture.md'']"
  by (simp add: registry_def)

section \<open>The loop and the run\<close>

text \<open>
  A loop that ends without an exception has appended one member per item, in the order of
  the items, and printed one line per item. A loop that ends with an exception stopped at
  the first item whose write raised, having done the items before it.
\<close>

lemma for_items_success:
  "for_items flt zipf items w = (None, w') \<Longrightarrow>
   files w' = (files w)(zf_filename zipf :=
      map_option (\<lambda>a. a\<lparr>members := members a @ map (stored_as (zf_compression zipf)) items\<rparr>)
        (files w (zf_filename zipf))) \<and>
   stdout w' = stdout w @ map (\<lambda>item. '' - Added: '' @ fst item) items"
proof (induction items arbitrary: w)
  case Nil
  then show ?case by (auto simp: fun_eq_iff option.map_ident)
next
  case (Cons item items)
  obtain n c where item: "item = (n, c)" by (cases item)
  from Cons.prems item obtain w1 where w1: "writestr flt zipf n c w = Inr w1"
    and rest: "for_items flt zipf items (print ('' - Added: '' @ n) w1) = (None, w')"
    by (auto split: sum.splits)
  from w1 have w1': "w1 = w\<lparr>files := (files w)(zf_filename zipf :=
                 map_option (\<lambda>a. a\<lparr>members := members a @ [stored_as (zf_compression zipf) (n, c)]\<rparr>)
                   (files w (zf_filename zipf)))\<rparr>"
    by (auto simp: writestr_def stored_as_def split: option.splits)
  show ?case
    using Cons.IH [OF rest] unfolding w1' item
    by (cases "files w (zf_filename zipf)") (auto simp: print_def fun_eq_iff)
qed

lemma for_items_failure:
  "for_items flt zipf items w = (Some e, w') \<Longrightarrow>
   \<exists>done item rest. items = done @ item # rest \<and> write_fault flt (fst item) = Some e \<and>
     for_items flt zipf done w = (None, w')"
proof (induction items arbitrary: w)
  case Nil
  then show ?case by simp
next
  case (Cons item items)
  obtain n c where item: "item = (n, c)" by (cases item)
  show ?case
  proof (cases "writestr flt zipf n c w")
    case (Inl e')
    with Cons.prems item have "e' = e" "w' = w" by auto
    moreover from Inl have "write_fault flt n = Some e'"
      by (auto simp: writestr_def split: option.splits)
    ultimately have "item # items = [] @ item # items \<and> write_fault flt (fst item) = Some e \<and>
       for_items flt zipf [] w = (None, w')"
      using item by simp
    then show ?thesis by blast
  next
    case (Inr w1)
    with Cons.prems item have "for_items flt zipf items (print ('' - Added: '' @ n) w1) = (Some e, w')"
      by simp
    from Cons.IH [OF this] obtain dn it rest where
      split: "items = dn @ it # rest" and fault: "write_fault flt (fst it) = Some e"
      and pre: "for_items flt zipf dn (print ('' - Added: '' @ n) w1) = (None, w')"
      by blast
    from Inr pre item have "for_items flt zipf (item # dn) w = (None, w')" by simp
    with split fault have "item # items = (item # dn) @ it # rest \<and> write_fault flt (fst it) = Some e \<and>
       for_items flt zipf (item # dn) w = (None, w')"
      by simp
    then show ?thesis by blast
  qed
qed

lemma for_items_no_fault:
  "list_all (\<lambda>item. write_fault flt (fst item) = None) items \<Longrightarrow>
   fst (for_items flt zipf items w) = None"
  by (induction items arbitrary: w) (auto simp: writestr_def)

text \<open>The run as a whole: what it takes to end without an exception, and what it leaves then.\<close>

lemma generate_md_steps:
  "generate_md flt w =
     (let w1 = print ''Creating Local_Sync_Board_Cloud_Docs.zip...'' w in
      case ZipFile flt zip_filename w1 of
        Inl e \<Rightarrow> (Some e, w1)
      | Inr (zipf, w2) \<Rightarrow>
          (case for_items flt zipf registry w2 of
             (Some e, w3) \<Rightarrow>
               (case ZipFile_close flt zipf w3 of
                  Inl e' \<Rightarrow> (Some e', w3)
                | Inr w4 \<Rightarrow> (Some e, w4))
           | (None, w3) \<Rightarrow>
               (case ZipFile_close flt zipf w3 of
                  Inl e' \<Rightarrow> (Some e', w3)
                | Inr w4 \<Rightarrow>
                    (None, print ''Done! 'Local_Sync_Board_Cloud_Docs.zip' has been created.'' w4))))"
proof -
  have creating: "''Creating '' @ zip_filename @ ''...'' = ''Creating Local_Sync_Board_Cloud_Docs.zip...''"
    by (simp add: zip_filename_def)
  have finished: "''Done! '' @ [CHR 0x27] @ zip_filename @ [CHR 0x27] @ '' has been created.'' =
      ''Done! 'Local_Sync_Board_Cloud_Docs.zip' has been created.''"
    by (simp add: zip_filename_def)
  show ?thesis
    unfolding generate_md_def files_content_value creating finished dict_items_def
    by simp
qed

lemma generate_md_success:
  assumes "generate_md flt w = (None, w')"
  shows "files w' = (files w)(zip_filename \<mapsto>
            \<lparr>members = map (stored_as ZIP_STORED) registry, finalized = True\<rparr>)"
    and "stdout w' = stdout w @ ''Creating Local_Sync_Board_Cloud_Docs.zip...'' #
            map (\<lambda>item. '' - Added: '' @ fst item) registry @
            [''Done! 'Local_Sync_Board_Cloud_Docs.zip' has been created.'']"
proof -
  define w1 where "w1 = print ''Creating Local_Sync_Board_Cloud_Docs.zip...'' w"
  from assms obtain zipf w2 w3 w4 where
    op: "ZipFile flt zip_filename w1 = Inr (zipf, w2)" and
    loop: "for_items flt zipf registry w2 = (None, w3)" and
    cl: "ZipFile_close flt zipf w3 = Inr w4" and
    w': "w' = print ''Done! 'Local_Sync_Board_Cloud_Docs.zip' has been created.'' w4"
    unfolding generate_md_steps w1_def [symmetric] Let_def
    by (auto split: sum.splits prod.splits option.splits)
  from op have zipf: "zipf = \<lparr>zf_filename = zip_filename, zf_compression = ZIP_STORED\<rparr>"
    and w2: "w2 = w1\<lparr>files := (files w1)(zip_filename \<mapsto> \<lparr>members = [], finalized = False\<rparr>)\<rparr>"
    by (auto simp: ZipFile_def split: option.splits)
  from cl have w4: "w4 = w3\<lparr>files := (files w3)(zf_filename zipf :=
                 map_option (\<lambda>a. a\<lparr>finalized := True\<rparr>) (files w3 (zf_filename zipf)))\<rparr>"
    by (auto simp: ZipFile_close_def split: option.splits)
  note l = for_items_success [OF loop]
  show "files w' = (files w)(zip_filename \<mapsto>
            \<lparr>members = map (stored_as ZIP_STORED) registry, finalized = True\<rparr>)"
    using l by (simp add: w' w4 w2 w1_def zipf print_def fun_eq_iff)
  show "stdout w' = stdout w @ ''Creating Local_Sync_Board_Cloud_Docs.zip...'' #
            map (\<lambda>item. '' - Added: '' @ fst item) registry @
            [''Done! 'Local_Sync_Board_Cloud_Docs.zip' has been created.'']"
    using l by (simp add: w' w4 w2 w1_def zipf print_def)
qed

lemma generate_md_succeeds:
  assumes "open_fault flt zip_filename = None"
    and "list_all (\<lambda>item. write_fault flt (fst item) = None) registry"
    and "close_fault flt zip_filename = None"
  shows "\<exists>w'. generate_md flt w = (None, w')"
proof -
  define w1 where "w1 = print ''Creating Local_Sync_Board_Cloud_Docs.zip...'' w"
  define zipf where "zipf = \<lparr>zf_filename = zip_filename, zf_compression = ZIP_STORED\<rparr>"
  define w2 where "w2 = w1\<lparr>files := (files w1)(zip_filename \<mapsto> \<lparr>members = [], finalized = False\<rparr>)\<rparr>"
  have op: "ZipFile flt zip_filename w1 = Inr (zipf, w2)"
    using assms(1) by (simp add: ZipFile_def zipf_def w2_def)
  obtain r w3 where loop: "for_items flt zipf registry w2 = (r, w3)"
    by (cases "for_items flt zipf registry w2")
  with for_items_no_fault [OF assms(2), of zipf w2] have r: "r = None" by simp
  have "\<exists>w4. ZipFile_close flt zipf w3 = Inr w4"
    using assms(3) by (simp add: ZipFile_close_def zipf_def)
  then obtain w4 where cl: "ZipFile_close flt zipf w3 = Inr w4" ..
  show ?thesis
    unfolding generate_md_steps w1_def [symmetric] Let_def
    by (simp add: op loop r cl)
qed

lemma no_faults_succeeds: "\<exists>w'. generate_md no_faults w = (None, w')"
  by (rule generate_md_succeeds) (simp_all add: no_faults_def registry_def)

text \<open>
  A run that ends with an exception: either the archive could not be opened and the disk is
  as it was, or the archive at the output path holds the members written before the
  failure, and it is not both finalised and whole.
\<close>

lemma generate_md_failure:
  assumes "generate_md flt w = (Some e, w')"
  shows "(open_fault flt zip_filename = Some e \<and> files w' = files w \<and>
          stdout w' = stdout w @ [''Creating Local_Sync_Board_Cloud_Docs.zip...''])
       \<or> (open_fault flt zip_filename = None \<and>
          (close_fault flt zip_filename = Some e \<or>
           (\<exists>item. item \<in> set registry \<and> write_fault flt (fst item) = Some e)) \<and>
          (\<exists>dn fin. prefix dn registry \<and> (dn = registry \<longrightarrow> \<not> fin) \<and>
             files w' = (files w)(zip_filename \<mapsto>
                \<lparr>members = map (stored_as ZIP_STORED) dn, finalized = fin\<rparr>) \<and>
             stdout w' = stdout w @ ''Creating Local_Sync_Board_Cloud_Docs.zip...'' #
                map (\<lambda>item. '' - Added: '' @ fst item) dn))"
proof -
  define w1 where "w1 = print ''Creating Local_Sync_Board_Cloud_Docs.zip...'' w"
  define zipf where "zipf = \<lparr>zf_filename = zip_filename, zf_compression = ZIP_STORED\<rparr>"
  define w2 where "w2 = w1\<lparr>files := (files w1)(zip_filename \<mapsto> \<lparr>members = [], finalized = False\<rparr>)\<rparr>"
  note run = assms [unfolded generate_md_steps w1_def [symmetric] Let_def]
  show ?thesis
  proof (cases "open_fault flt zip_filename")
    case (Some e0)
    then have "ZipFile flt zip_filename w1 = Inl e0" by (simp add: ZipFile_def)
    with run have "e0 = e" "w' = w1" by simp_all
    with Some show ?thesis by (simp add: w1_def print_def)
  next
    case None
    then have op: "ZipFile flt zip_filename w1 = Inr (zipf, w2)"
      by (simp add: ZipFile_def zipf_def w2_def)
    obtain r w3 where loop: "for_items flt zipf registry w2 = (r, w3)"
      by (cases "for_items flt zipf registry w2")
    have closing: "\<And>w3. ZipFile_close flt zipf w3 =
        (case close_fault flt zip_filename of
           Some e' \<Rightarrow> Inl e'
         | None \<Rightarrow> Inr (w3\<lparr>files := (files w3)(zip_filename :=
               map_option (\<lambda>a. a\<lparr>finalized := True\<rparr>) (files w3 zip_filename))\<rparr>))"
      by (cases "close_fault flt zip_filename") (simp_all add: ZipFile_close_def zipf_def)
    have after: "files w3 = (files w)(zip_filename \<mapsto>
            \<lparr>members = map (stored_as ZIP_STORED) dn, finalized = False\<rparr>) \<and>
          stdout w3 = stdout w @ ''Creating Local_Sync_Board_Cloud_Docs.zip...'' #
            map (\<lambda>item. '' - Added: '' @ fst item) dn"
      if "for_items flt zipf dn w2 = (None, w3)" for dn
      using for_items_success [OF that]
      by (simp add: w2_def w1_def zipf_def print_def fun_eq_iff)
    show ?thesis
    proof (cases r)
      case r: None
      note a = after [OF loop [unfolded r]]
      from run op loop r obtain e' where cf: "close_fault flt zip_filename = Some e'"
        by (cases "close_fault flt zip_filename") (simp_all add: closing)
      with run op loop r have "e' = e" "w' = w3" by (simp_all add: closing)
      with a cf None show ?thesis
        by (intro disjI2 conjI disjI1 exI [of _ registry] exI [of _ False]) simp_all
    next
      case r: (Some e0)
      from for_items_failure [OF loop [unfolded r]] obtain dn item rest where
        split: "registry = dn @ item # rest" and fault: "write_fault flt (fst item) = Some e0"
        and pre: "for_items flt zipf dn w2 = (None, w3)"
        by blast
      note a = after [OF pre]
      have pf: "prefix dn registry" and ne: "dn \<noteq> registry" and mem: "item \<in> set registry"
        unfolding split by simp_all
      show ?thesis
      proof (cases "close_fault flt zip_filename")
        case cf: None
        with run op loop r have "e0 = e" and w': "w' = w3\<lparr>files := (files w3)(zip_filename :=
               map_option (\<lambda>a. a\<lparr>finalized := True\<rparr>) (files w3 zip_filename))\<rparr>"
          by (simp_all add: closing)
        with a fault mem pf ne None show ?thesis
          by (intro disjI2 conjI disjI2 exI [of _ dn] exI [of _ True] exI [of _ item])
             (simp_all add: fun_eq_iff)
      next
        case cf: (Some e')
        with run op loop r have "e' = e" "w' = w3" by (simp_all add: closing)
        with a cf pf ne None show ?thesis
          by (intro disjI2 conjI disjI1 exI [of _ dn] exI [of _ False]) simp_all
      qed
    qed
  qed
qed

lemma prefix_whole: "prefix xs ys \<Longrightarrow> length xs = length ys \<Longrightarrow> xs = ys"
  by (auto simp: prefix_def)

text \<open>A run ends without an exception exactly when no operation on the output file raises.\<close>

lemma for_items_success_no_fault:
  "for_items flt zipf items w = (None, w') \<Longrightarrow>
   list_all (\<lambda>item. write_fault flt (fst item) = None) items"
proof (induction items arbitrary: w)
  case Nil
  then show ?case by simp
next
  case (Cons item items)
  obtain n c where item: "item = (n, c)" by (cases item)
  from Cons.prems item obtain w1 where w1: "writestr flt zipf n c w = Inr w1"
    and rest: "for_items flt zipf items (print ('' - Added: '' @ n) w1) = (None, w')"
    by (auto split: sum.splits)
  from w1 have "write_fault flt n = None"
    by (auto simp: writestr_def split: option.splits)
  with Cons.IH [OF rest] item show ?case by simp
qed

lemma generate_md_outcome:
  "fst (generate_md flt w) = None \<longleftrightarrow>
     open_fault flt zip_filename = None \<and> close_fault flt zip_filename = None \<and>
     list_all (\<lambda>n. write_fault flt n = None)
       [''README.md'', ''01_Requirements.md'', ''02_Basic_Design.md'',
        ''03_Data_Model.md'', ''04_Tech_Architecture.md'']"
proof
  assume ok: "fst (generate_md flt w) = None"
  then obtain w' where run: "generate_md flt w = (None, w')"
    by (cases "generate_md flt w") simp
  define w1 where "w1 = print ''Creating Local_Sync_Board_Cloud_Docs.zip...'' w"
  from run obtain zipf w2 w3 w4 where
    op: "ZipFile flt zip_filename w1 = Inr (zipf, w2)" and
    loop: "for_items flt zipf registry w2 = (None, w3)" and
    cl: "ZipFile_close flt zipf w3 = Inr w4"
    unfolding generate_md_steps w1_def [symmetric] Let_def
    by (auto split: sum.splits prod.splits option.splits)
  from op have o: "open_fault flt zip_filename = None" and z: "zf_filename zipf = zip_filename"
    by (auto simp: ZipFile_def split: option.splits)
  from cl z have c: "close_fault flt zip_filename = None"
    by (auto simp: ZipFile_close_def split: option.splits)
  from for_items_success_no_fault [OF loop]
  have "list_all (\<lambda>n. write_fault flt n = None) (map fst registry)"
    by (simp add: list_all_iff)
  with o c show "open_fault flt zip_filename = None \<and> close_fault flt zip_filename = None \<and>
     list_all (\<lambda>n. write_fault flt n = None)
       [''README.md'', ''01_Requirements.md'', ''02_Basic_Design.md'',
        ''03_Data_Model.md'', ''04_Tech_Architecture.md'']"
    unfolding registry_names by (intro conjI)
next
  assume nf: "open_fault flt zip_filename = None \<and> close_fault flt zip_filename = None \<and>
     list_all (\<lambda>n. write_fault flt n = None)
       [''README.md'', ''01_Requirements.md'', ''02_Basic_Design.md'',
        ''03_Data_Model.md'', ''04_Tech_Architecture.md'']"
  then have "list_all (\<lambda>n. write_fault flt n = None) (map fst registry)"
    unfolding registry_names by (elim conjE)
  then have "list_all (\<lambda>item. write_fault flt (fst item) = None) registry"
    by (simp add: list_all_iff)
  with nf generate_md_succeeds [of flt w] obtain w' where "generate_md flt w = (None, w')"
    by (elim conjE) blast
  then show "fst (generate_md flt w) = None" by simp
qed

section \<open>What the stored text contains\<close>

text \<open>
  A text of whole lines contains a pattern without a newline only inside one of its
  lines, so a search of the text is a search of each line.
\<close>

lemma not_sublist_append_line:
  assumes "CHR 0x0A \<notin> set p" and "l \<noteq> []" and "last l = CHR 0x0A"
    and "\<not> sublist p l" and "\<not> sublist p rest"
  shows "\<not> sublist p (l @ rest)"
proof
  assume "sublist p (l @ rest)"
  with assms(4,5) obtain p1 p2 where p: "p = p1 @ p2" and s: "suffix p1 l" and pr: "prefix p2 rest"
    by (auto simp: sublist_append)
  show False
  proof (cases "p1 = []")
    case True
    with p pr have "sublist p rest" by simp
    with assms(5) show False by simp
  next
    case False
    from s obtain q where "l = q @ p1" by (auto simp: suffix_def)
    with False have "last l = last p1" by simp
    with False assms(3) have "CHR 0x0A \<in> set p1" by (metis last_in_set)
    with p assms(1) show False by simp
  qed
qed

lemma not_sublist_lines:
  assumes "p \<noteq> []" and "CHR 0x0A \<notin> set p"
    and "list_all (\<lambda>l. l \<noteq> [] \<and> last l = CHR 0x0A \<and> \<not> sublist p l) ls"
  shows "\<not> sublist p (concat ls)"
  using assms(3)
proof (induction ls)
  case Nil
  with assms(1) show ?case by simp
next
  case (Cons l ls)
  then show ?case
    using not_sublist_append_line [OF assms(2), of l "concat ls"] by simp
qed

lemma not_sublist_plain:
  assumes "list_all (list_all (\<lambda>c. c \<noteq> CHR ''{'' \<and> c \<noteq> CHR ''}'')) ls"
  shows "\<not> sublist ''{BQ}'' (concat ls)"
proof
  assume "sublist ''{BQ}'' (concat ls)"
  then have "set ''{BQ}'' \<subseteq> set (concat ls)" by (rule set_mono_sublist)
  then have "CHR ''{'' \<in> set (concat ls)" by simp
  with assms show False by (auto simp: list_all_iff)
qed

lemma Data_Model_rendered:
  "map render_line Data_Model_lines =
     take 31 Data_Model_lines @ [''```json\<newline>''] @ template_example_lines @ [''```\<newline>''] @
     take 3 (drop 42 Data_Model_lines) @ [''```json\<newline>''] @ current_state_example_lines @
     [''```\<newline>''] @ drop 59 Data_Model_lines"
  by (simp add: Data_Model_lines_def template_example_lines_def current_state_example_lines_def
      render_line_def fstring_def module_globals_def BQ_def)

lemma Data_Model_no_token:
  "list_all (\<lambda>l. l \<noteq> [] \<and> last l = CHR 0x0A \<and> \<not> sublist ''{BQ}'' l)
     (map render_line Data_Model_lines)"
  by (simp add: Data_Model_lines_def render_line_def fstring_def module_globals_def BQ_def
      sublist_code(3))

lemma sublist_concat:
  assumes "sublist xs ys"
  shows "sublist (concat xs) (concat ys)"
proof -
  from assms obtain ps ss where "ys = ps @ xs @ ss" by (auto simp: sublist_def)
  then have "concat ys = concat ps @ concat xs @ concat ss" by simp
  then show ?thesis unfolding sublist_def by (intro exI)
qed

lemma doc_Data_Model_parts:
  "doc_Data_Model =
     concat (take 31 Data_Model_lines) @ ''```json\<newline>'' @ concat template_example_lines @
     ''```\<newline>'' @ concat (take 3 (drop 42 Data_Model_lines)) @ ''```json\<newline>'' @
     concat current_state_example_lines @ ''```\<newline>'' @ concat (drop 59 Data_Model_lines)"
  unfolding doc_Data_Model_def Data_Model_rendered by simp

lemma doc_Data_Model_no_token: "\<not> sublist ''{BQ}'' doc_Data_Model"
  unfolding doc_Data_Model_def
  by (rule not_sublist_lines [OF _ _ Data_Model_no_token]) simp_all

lemma registry_no_token: "list_all (\<lambda>item. \<not> sublist ''{BQ}'' (snd item)) registry"
  using not_sublist_plain [OF README_plain] not_sublist_plain [OF Requirements_plain]
    not_sublist_plain [OF Basic_Design_plain] not_sublist_plain [OF Tech_Architecture_plain]
    doc_Data_Model_no_token
  by (simp add: registry_def tpl_README_def tpl_Requirements_def tpl_Basic_Design_def
      tpl_Tech_Architecture_def)

section \<open>Dict displays\<close>

text \<open>
  Storing under a key replaces or appends, never duplicates; a display whose values all
  evaluate never fails, and of two items with one key the later one is what a lookup
  finds.
\<close>

lemma map_of_dict_setitem: "map_of (dict_setitem d k v) = (map_of d)(k \<mapsto> v)"
  by (induction d) (auto simp: fun_eq_iff)

lemma keys_dict_setitem: "set (map fst (dict_setitem d k v)) = insert k (set (map fst d))"
  by (induction d) auto

lemma distinct_dict_setitem:
  "distinct (map fst d) \<Longrightarrow> distinct (map fst (dict_setitem d k v))"
proof (induction d)
  case Nil
  then show ?case by simp
next
  case (Cons p d)
  then show ?case
    using keys_dict_setitem [of d k v] by (cases "fst p = k") auto
qed

lemma dict_display_values:
  "distinct (map fst d) \<Longrightarrow>
   \<exists>d'. dict_display (map (\<lambda>(k, v). (k, Inr v)) kvs) d = Inr d' \<and>
     distinct (map fst d') \<and> map_of d' = map_of d ++ map_of (rev kvs)"
proof (induction kvs arbitrary: d)
  case Nil
  then show ?case by simp
next
  case (Cons kv kvs)
  obtain k v where kv: "kv = (k, v)" by (cases kv)
  from Cons.prems have "distinct (map fst (dict_setitem d k v))"
    by (rule distinct_dict_setitem)
  from Cons.IH [OF this] obtain d' where
    d': "dict_display (map (\<lambda>(k, v). (k, Inr v)) kvs) (dict_setitem d k v) = Inr d'"
    and dist: "distinct (map fst d')"
    and look: "map_of d' = map_of (dict_setitem d k v) ++ map_of (rev kvs)"
    by blast
  have "map_of (dict_setitem d k v) ++ map_of (rev kvs) = map_of d ++ map_of (rev (kv # kvs))"
    by (auto simp: kv map_of_dict_setitem fun_eq_iff map_add_def split: option.splits)
  with d' dist look show ?case
    by (intro exI [of _ d']) (simp add: kv)
qed

section \<open>The claims\<close>

text \<open>
  C1. After a run that ends without an exception, the archive at the output path is
  finalised and holds exactly five members, named README.md, 01_Requirements.md,
  02_Basic_Design.md, 03_Data_Model.md and 04_Tech_Architecture.md, and no other.
\<close>

theorem archive_completeness:
  assumes "generate_md flt w = (None, w')"
  shows "\<exists>a. files w' zip_filename = Some a \<and> finalized a \<and>
     map member_name (members a) =
       [''README.md'', ''01_Requirements.md'', ''02_Basic_Design.md'',
        ''03_Data_Model.md'', ''04_Tech_Architecture.md'']"
  using generate_md_success(1) [OF assms]
  by (simp add: registry_def stored_as_def)

theorem archive_completeness_witness:
  "\<exists>w'. generate_md no_faults empty_world = (None, w') \<and>
     (\<exists>a. files w' zip_filename = Some a \<and> finalized a \<and>
        map member_name (members a) =
          [''README.md'', ''01_Requirements.md'', ''02_Basic_Design.md'',
           ''03_Data_Model.md'', ''04_Tech_Architecture.md''])"
proof -
  from no_faults_succeeds [of empty_world] obtain w' where run: "generate_md no_faults empty_world = (None, w')" ..
  from run archive_completeness [OF run] show ?thesis
    by (intro exI [of _ w'] conjI)
qed

text \<open>
  C2, as the code has it. Building the dict from items that share a name does not fail:
  no item is rejected, the value of the later item takes the place of the earlier one,
  and the dict never holds two items of one name. The dict of the script is built from
  five names that differ from each other, so none of its documents is overwritten.

  The claim as stated has the construction fail. At the display below, two items named
  \<^verbatim>\<open>a.md\<close>, the result is a dict and not an exception, and the first text is gone.
\<close>

theorem registry_construction:
  "(\<exists>d. dict_display (map (\<lambda>(k, v). (k, Inr v)) kvs) [] = Inr d \<and>
      distinct (map fst d) \<and> map_of d = map_of (rev kvs)) \<and>
   (\<exists>fc. files_content = Inr fc \<and> distinct (map fst (dict_items fc)) \<and>
      length (dict_items fc) = 5)"
proof -
  have general: "\<exists>d. dict_display (map (\<lambda>(k, v). (k, Inr v)) kvs) [] = Inr d \<and>
      distinct (map fst d) \<and> map_of d = map_of (rev kvs)"
    using dict_display_values [of "[]" kvs] by simp
  have "distinct (map fst (dict_items registry))"
    by (simp add: dict_items_def registry_names)
  moreover have "length (dict_items registry) = 5"
    by (simp add: dict_items_def registry_def)
  ultimately have "\<exists>fc. files_content = Inr fc \<and> distinct (map fst (dict_items fc)) \<and>
      length (dict_items fc) = 5"
    using files_content_value by (intro exI [of _ registry] conjI)
  with general show ?thesis by (rule conjI)
qed

theorem registry_construction_counterexample:
  "dict_display [(''a.md'', Inr ''first''), (''a.md'', Inr ''second'')] [] =
     Inr [(''a.md'', ''second'')]"
  by simp

text \<open>
  C3. After a run that ends without an exception, the bytes of each member are the value
  of the f-string of that document, and no member contains the text \<^verbatim>\<open>{BQ}\<close>. The
  stored \<^verbatim>\<open>03_Data_Model.md\<close> is the text of the source in which each of the four
  fields \<^verbatim>\<open>{BQ}\<close> has become three backticks and each doubled brace a single one: the
  lines before the first example as written, the fence line of three backticks and
  \<^verbatim>\<open>json\<close>, the template example, the fence line of three backticks, three lines as
  written, then the same two fences around the example of the current state, and the
  rest as written. So it holds two fenced JSON blocks whose fences are backticks.
\<close>

theorem content_fidelity:
  assumes "generate_md flt w = (None, w')"
  shows "\<exists>a. files w' zip_filename = Some a \<and>
     map member_name (members a) =
       [''README.md'', ''01_Requirements.md'', ''02_Basic_Design.md'',
        ''03_Data_Model.md'', ''04_Tech_Architecture.md''] \<and>
     map (\<lambda>m. Inr (member_data m)) (members a) =
       map (fstring module_globals)
         [tpl_README, tpl_Requirements, tpl_Basic_Design, tpl_Data_Model, tpl_Tech_Architecture] \<and>
     list_all (\<lambda>m. \<not> sublist ''{BQ}'' (member_data m)) (members a) \<and>
     member_data (members a ! 3) =
       concat (take 31 Data_Model_lines) @
       ''```json\<newline>'' @ concat template_example_lines @ ''```\<newline>'' @
       concat (take 3 (drop 42 Data_Model_lines)) @
       ''```json\<newline>'' @ concat current_state_example_lines @ ''```\<newline>'' @
       concat (drop 59 Data_Model_lines) \<and>
     sublist (''```json\<newline>'' @ concat template_example_lines @ ''```\<newline>'')
       (member_data (members a ! 3)) \<and>
     sublist (''```json\<newline>'' @ concat current_state_example_lines @ ''```\<newline>'')
       (member_data (members a ! 3))"
proof -
  let ?a = "\<lparr>members = map (stored_as ZIP_STORED) registry, finalized = True\<rparr>"
  have a: "files w' zip_filename = Some ?a"
    using generate_md_success(1) [OF assms] by simp
  have names: "map member_name (members ?a) =
       [''README.md'', ''01_Requirements.md'', ''02_Basic_Design.md'',
        ''03_Data_Model.md'', ''04_Tech_Architecture.md'']"
    by (simp add: registry_def stored_as_def)
  have bytes: "map (\<lambda>m. Inr (member_data m)) (members ?a) =
       map (fstring module_globals)
         [tpl_README, tpl_Requirements, tpl_Basic_Design, tpl_Data_Model, tpl_Tech_Architecture]"
    by (simp add: registry_def stored_as_def fstring_README fstring_Requirements
        fstring_Basic_Design fstring_Data_Model fstring_Tech_Architecture)
  have clean: "list_all (\<lambda>m. \<not> sublist ''{BQ}'' (member_data m)) (members ?a)"
    using registry_no_token by (simp add: list_all_iff stored_as_def)
  have third: "member_data (members ?a ! 3) = doc_Data_Model"
    by (simp add: registry_def stored_as_def)
  note parts = third [unfolded doc_Data_Model_parts]
  have first: "sublist (''```json\<newline>'' @ concat template_example_lines @ ''```\<newline>'')
       (member_data (members ?a ! 3))"
    unfolding parts sublist_def
    by (intro exI [of _ "concat (take 31 Data_Model_lines)"]
        exI [of _ "concat (take 3 (drop 42 Data_Model_lines)) @
          ''```json\<newline>'' @ concat current_state_example_lines @ ''```\<newline>'' @
          concat (drop 59 Data_Model_lines)"]) simp
  have second: "sublist (''```json\<newline>'' @ concat current_state_example_lines @ ''```\<newline>'')
       (member_data (members ?a ! 3))"
    unfolding parts sublist_def
    by (intro exI [of _ "concat (take 31 Data_Model_lines) @
          ''```json\<newline>'' @ concat template_example_lines @ ''```\<newline>'' @
          concat (take 3 (drop 42 Data_Model_lines))"]
        exI [of _ "concat (drop 59 Data_Model_lines)"]) simp
  from a names bytes clean parts first second show ?thesis
    by (intro exI [of _ ?a] conjI)
qed

theorem content_fidelity_witness:
  "\<exists>w'. generate_md no_faults empty_world = (None, w') \<and>
     (\<exists>a. files w' zip_filename = Some a \<and>
        map (\<lambda>m. Inr (member_data m)) (members a) =
          map (fstring module_globals)
            [tpl_README, tpl_Requirements, tpl_Basic_Design, tpl_Data_Model, tpl_Tech_Architecture] \<and>
        list_all (\<lambda>m. \<not> sublist ''{BQ}'' (member_data m)) (members a) \<and>
        sublist (''```json\<newline>'' @ concat template_example_lines @ ''```\<newline>'')
          (member_data (members a ! 3)) \<and>
        sublist (''```json\<newline>'' @ concat current_state_example_lines @ ''```\<newline>'')
          (member_data (members a ! 3)))"
proof -
  from no_faults_succeeds [of empty_world] obtain w' where run: "generate_md no_faults empty_world = (None, w')" ..
  from content_fidelity [OF run] obtain a where
    "files w' zip_filename = Some a"
    "map (\<lambda>m. Inr (member_data m)) (members a) =
          map (fstring module_globals)
            [tpl_README, tpl_Requirements, tpl_Basic_Design, tpl_Data_Model, tpl_Tech_Architecture]"
    "list_all (\<lambda>m. \<not> sublist ''{BQ}'' (member_data m)) (members a)"
    "sublist (''```json\<newline>'' @ concat template_example_lines @ ''```\<newline>'')
          (member_data (members a ! 3))"
    "sublist (''```json\<newline>'' @ concat current_state_example_lines @ ''```\<newline>'')
          (member_data (members a ! 3))"
    by (elim exE conjE)
  with run show ?thesis
    by (intro exI [of _ w'] exI [of _ a] conjI)
qed

text \<open>
  C4. Two runs that end without an exception leave the same archive at the output path,
  whatever the disk and the terminal held before each run: the same member names, the
  same bytes for each member, in the same order.
\<close>

theorem run_determinism:
  assumes "generate_md flt1 w1 = (None, w1')" and "generate_md flt2 w2 = (None, w2')"
  shows "\<exists>a. files w1' zip_filename = Some a \<and> files w2' zip_filename = Some a"
  using generate_md_success(1) [OF assms(1)] generate_md_success(1) [OF assms(2)]
  by simp

theorem run_determinism_witness:
  "\<exists>w1' w2'. generate_md no_faults empty_world = (None, w1') \<and>
      generate_md no_faults stale_world = (None, w2') \<and>
      (\<exists>a. files w1' zip_filename = Some a \<and> files w2' zip_filename = Some a)"
proof -
  from no_faults_succeeds [of empty_world] obtain w1' where r1: "generate_md no_faults empty_world = (None, w1')" ..
  from no_faults_succeeds [of stale_world] obtain w2' where r2: "generate_md no_faults stale_world = (None, w2')" ..
  from r1 r2 run_determinism [OF r1 r2] show ?thesis
    by (intro exI [of _ w1'] exI [of _ w2'] conjI)
qed

text \<open>
  C5. The members of the archive are the items of the dict in the order of the dict,
  which is the order of the source: the member at each position is the item at that
  position, so of two items the one defined first stands, and was written, before the
  one defined later.
\<close>

theorem archive_order:
  assumes "generate_md flt w = (None, w')"
  shows "\<exists>fc a. files_content = Inr fc \<and> files w' zip_filename = Some a \<and>
     map fst (dict_items fc) =
       [''README.md'', ''01_Requirements.md'', ''02_Basic_Design.md'',
        ''03_Data_Model.md'', ''04_Tech_Architecture.md''] \<and>
     map (\<lambda>m. (member_name m, member_data m)) (members a) = dict_items fc \<and>
     (\<forall>i j. i < j \<longrightarrow> j < length (dict_items fc) \<longrightarrow>
        member_name (members a ! i) = fst (dict_items fc ! i) \<and>
        member_name (members a ! j) = fst (dict_items fc ! j))"
proof -
  let ?a = "\<lparr>members = map (stored_as ZIP_STORED) registry, finalized = True\<rparr>"
  have a: "files w' zip_filename = Some ?a"
    using generate_md_success(1) [OF assms] by simp
  have pairs: "map (\<lambda>m. (member_name m, member_data m)) (members ?a) = dict_items registry"
    by (simp add: dict_items_def stored_as_def comp_def)
  have names: "map fst (dict_items registry) =
       [''README.md'', ''01_Requirements.md'', ''02_Basic_Design.md'',
        ''03_Data_Model.md'', ''04_Tech_Architecture.md'']"
    by (simp add: dict_items_def registry_names)
  have pos: "\<forall>i j. i < j \<longrightarrow> j < length (dict_items registry) \<longrightarrow>
        member_name (members ?a ! i) = fst (dict_items registry ! i) \<and>
        member_name (members ?a ! j) = fst (dict_items registry ! j)"
    by (simp add: dict_items_def stored_as_def)
  from files_content_value a names pairs pos show ?thesis
    by (intro exI [of _ registry] exI [of _ ?a] conjI)
qed

theorem archive_order_witness:
  "\<exists>w'. generate_md no_faults stale_world = (None, w') \<and>
     (\<exists>fc a. files_content = Inr fc \<and> files w' zip_filename = Some a \<and>
        map fst (dict_items fc) =
          [''README.md'', ''01_Requirements.md'', ''02_Basic_Design.md'',
           ''03_Data_Model.md'', ''04_Tech_Architecture.md''] \<and>
        map (\<lambda>m. (member_name m, member_data m)) (members a) = dict_items fc \<and>
        member_name (members a ! 1) = fst (dict_items fc ! 1) \<and>
        member_name (members a ! 3) = fst (dict_items fc ! 3))"
proof -
  from no_faults_succeeds [of stale_world] obtain w' where run: "generate_md no_faults stale_world = (None, w')" ..
  from archive_order [OF run] obtain fc a where
    fc: "files_content = Inr fc" and a: "files w' zip_filename = Some a" and
    names: "map fst (dict_items fc) =
          [''README.md'', ''01_Requirements.md'', ''02_Basic_Design.md'',
           ''03_Data_Model.md'', ''04_Tech_Architecture.md'']" and
    pairs: "map (\<lambda>m. (member_name m, member_data m)) (members a) = dict_items fc" and
    pos: "\<forall>i j. i < j \<longrightarrow> j < length (dict_items fc) \<longrightarrow>
        member_name (members a ! i) = fst (dict_items fc ! i) \<and>
        member_name (members a ! j) = fst (dict_items fc ! j)"
    by (elim exE conjE)
  from names have "length (map fst (dict_items fc)) = 5" by simp
  then have len: "length (dict_items fc) = 5" by simp
  have "(1::nat) < 3" and "(3::nat) < length (dict_items fc)" using len by simp_all
  with pos have "member_name (members a ! 1) = fst (dict_items fc ! 1) \<and>
        member_name (members a ! 3) = fst (dict_items fc ! 3)"
    by (elim allE [of _ 1] allE [of _ 3]) simp
  with run fc a names pairs show ?thesis
    by (intro exI [of _ w'] exI [of _ fc] exI [of _ a] conjI) simp_all
qed

text \<open>
  C6. A second run against the same output path replaces the archive of the first: when
  the second run ends without an exception, the archive holds the five members that run
  wrote, each item of the dict once, and nothing the earlier run (or anything before it)
  left there.
\<close>

theorem regeneration_replaces:
  assumes "generate_md flt1 w0 = (r1, w1)" and "generate_md flt2 w1 = (None, w2)"
  shows "\<exists>fc a. files_content = Inr fc \<and> files w2 zip_filename = Some a \<and> finalized a \<and>
     members a = map (stored_as ZIP_STORED) (dict_items fc) \<and> length (members a) = 5"
proof -
  let ?a = "\<lparr>members = map (stored_as ZIP_STORED) registry, finalized = True\<rparr>"
  have a: "files w2 zip_filename = Some ?a"
    using generate_md_success(1) [OF assms(2)] by simp
  have fin: "finalized ?a" by simp
  have mem: "members ?a = map (stored_as ZIP_STORED) (dict_items registry)"
    by (simp add: dict_items_def)
  have len: "length (members ?a) = 5" by (simp add: registry_def)
  from files_content_value a fin mem len show ?thesis
    by (intro exI [of _ registry] exI [of _ ?a] conjI)
qed

theorem regeneration_replaces_witness:
  "\<exists>w1 w2. generate_md no_faults stale_world = (None, w1) \<and>
      generate_md no_faults w1 = (None, w2) \<and>
      (\<exists>fc a. files_content = Inr fc \<and> files w2 zip_filename = Some a \<and> finalized a \<and>
         members a = map (stored_as ZIP_STORED) (dict_items fc) \<and> length (members a) = 5)"
proof -
  from no_faults_succeeds [of stale_world] obtain w1 where r1: "generate_md no_faults stale_world = (None, w1)" ..
  from no_faults_succeeds [of w1] obtain w2 where r2: "generate_md no_faults w1 = (None, w2)" ..
  from r1 r2 regeneration_replaces [OF r1 r2] show ?thesis
    by (intro exI [of _ w1] exI [of _ w2] conjI)
qed

text \<open>
  C7. A run ends with an exception exactly when an operation on the output file raises:
  the opening of the output path, the write of one of the five members, or the close.
  The exception that ends the run is then one the operating system raised there. Such a
  run does not print the completion line, and it leaves no whole archive behind as its
  product: when the path could not be opened the disk is untouched, and otherwise the
  archive at the path is not both finalised and in possession of five members.
  Whenever the completion line is printed, nothing was raised, the line comes last, after
  the five progress lines, and the archive is finalised and holds the five members.
\<close>

theorem failure_propagation:
  assumes "generate_md flt w = (r, w')"
  shows "\<exists>out. stdout w' = stdout w @ out \<and>
     (r = None \<longleftrightarrow>
        open_fault flt zip_filename = None \<and> close_fault flt zip_filename = None \<and>
        list_all (\<lambda>n. write_fault flt n = None)
          [''README.md'', ''01_Requirements.md'', ''02_Basic_Design.md'',
           ''03_Data_Model.md'', ''04_Tech_Architecture.md'']) \<and>
     (\<forall>e. r = Some e \<longrightarrow>
        (open_fault flt zip_filename = Some e \<or> close_fault flt zip_filename = Some e \<or>
         (\<exists>n. n \<in> set [''README.md'', ''01_Requirements.md'', ''02_Basic_Design.md'',
                         ''03_Data_Model.md'', ''04_Tech_Architecture.md''] \<and>
              write_fault flt n = Some e)) \<and>
        ''Done! 'Local_Sync_Board_Cloud_Docs.zip' has been created.'' \<notin> set out \<and>
        (open_fault flt zip_filename \<noteq> None \<longrightarrow> files w' = files w) \<and>
        (open_fault flt zip_filename = None \<longrightarrow>
           (\<exists>a. files w' zip_filename = Some a \<and>
              \<not> (finalized a \<and> length (members a) = 5)))) \<and>
     (''Done! 'Local_Sync_Board_Cloud_Docs.zip' has been created.'' \<in> set out \<longrightarrow>
        r = None \<and>
        out = [''Creating Local_Sync_Board_Cloud_Docs.zip...'',
               '' - Added: README.md'',
               '' - Added: 01_Requirements.md'',
               '' - Added: 02_Basic_Design.md'',
               '' - Added: 03_Data_Model.md'',
               '' - Added: 04_Tech_Architecture.md'',
               ''Done! 'Local_Sync_Board_Cloud_Docs.zip' has been created.''] \<and>
        (\<exists>a. files w' zip_filename = Some a \<and> finalized a \<and>
           map member_name (members a) =
             [''README.md'', ''01_Requirements.md'', ''02_Basic_Design.md'',
              ''03_Data_Model.md'', ''04_Tech_Architecture.md'']))"
proof -
  have outcome: "r = None \<longleftrightarrow>
        open_fault flt zip_filename = None \<and> close_fault flt zip_filename = None \<and>
        list_all (\<lambda>n. write_fault flt n = None)
          [''README.md'', ''01_Requirements.md'', ''02_Basic_Design.md'',
           ''03_Data_Model.md'', ''04_Tech_Architecture.md'']"
    using generate_md_outcome [of flt w] assms by simp
  show ?thesis
  proof (cases r)
  case None
  let ?out = "[''Creating Local_Sync_Board_Cloud_Docs.zip...'',
               '' - Added: README.md'',
               '' - Added: 01_Requirements.md'',
               '' - Added: 02_Basic_Design.md'',
               '' - Added: 03_Data_Model.md'',
               '' - Added: 04_Tech_Architecture.md'',
               ''Done! 'Local_Sync_Board_Cloud_Docs.zip' has been created.'']"
  let ?a = "\<lparr>members = map (stored_as ZIP_STORED) registry, finalized = True\<rparr>"
  note run = assms [unfolded None]
  have out: "stdout w' = stdout w @ ?out"
    using generate_md_success(2) [OF run] by (simp add: registry_def)
  have a: "files w' zip_filename = Some ?a"
    using generate_md_success(1) [OF run] by simp
  have names: "map member_name (members ?a) =
       [''README.md'', ''01_Requirements.md'', ''02_Basic_Design.md'',
        ''03_Data_Model.md'', ''04_Tech_Architecture.md'']"
    by (simp add: registry_def stored_as_def)
  have fin: "finalized ?a" by simp
  from a fin names have whole: "\<exists>a. files w' zip_filename = Some a \<and> finalized a \<and>
           map member_name (members a) =
             [''README.md'', ''01_Requirements.md'', ''02_Basic_Design.md'',
              ''03_Data_Model.md'', ''04_Tech_Architecture.md'']"
    by (intro exI [of _ ?a] conjI)
  from out whole None outcome show ?thesis
    by (intro exI [of _ ?out] conjI allI impI) simp_all
next
  case (Some e)
  note run = assms [unfolded Some]
  have not_added: "''Done! 'Local_Sync_Board_Cloud_Docs.zip' has been created.'' \<notin>
      set (map (\<lambda>item. '' - Added: '' @ fst item) dn)" for dn :: "(string \<times> string) list"
    by (induction dn) simp_all
  have source: "\<exists>n. n \<in> set [''README.md'', ''01_Requirements.md'', ''02_Basic_Design.md'',
                         ''03_Data_Model.md'', ''04_Tech_Architecture.md''] \<and>
              write_fault flt n = Some e"
    if "item \<in> set registry" and "write_fault flt (fst item) = Some e" for item
  proof -
    from that(1) have "fst item \<in> set (map fst registry)" by simp
    then have "fst item \<in> set [''README.md'', ''01_Requirements.md'', ''02_Basic_Design.md'',
                         ''03_Data_Model.md'', ''04_Tech_Architecture.md'']"
      unfolding registry_names .
    with that(2) show ?thesis by (intro exI [of _ "fst item"] conjI)
  qed
  have partial: "\<not> (finalized \<lparr>members = map (stored_as ZIP_STORED) dn, finalized = fin\<rparr> \<and>
        length (members \<lparr>members = map (stored_as ZIP_STORED) dn, finalized = fin\<rparr>) = 5)"
    if pf: "prefix dn registry" and nf: "dn = registry \<longrightarrow> \<not> fin" for dn fin
  proof
    assume "finalized \<lparr>members = map (stored_as ZIP_STORED) dn, finalized = fin\<rparr> \<and>
        length (members \<lparr>members = map (stored_as ZIP_STORED) dn, finalized = fin\<rparr>) = 5"
    then have fin: fin and len: "length dn = length registry"
      by (simp_all add: registry_def)
    from pf len have "dn = registry" by (rule prefix_whole)
    with nf fin show False by simp
  qed
  from generate_md_failure [OF run] show ?thesis
  proof (elim disjE conjE exE)
    assume op: "open_fault flt zip_filename = Some e" and fs: "files w' = files w"
      and out: "stdout w' = stdout w @ [''Creating Local_Sync_Board_Cloud_Docs.zip...'']"
    from op fs out Some outcome show ?thesis
      by (intro exI [of _ "[''Creating Local_Sync_Board_Cloud_Docs.zip...'']"] conjI allI impI)
         simp_all
  next
    fix dn fin
    assume op: "open_fault flt zip_filename = None"
      and cl: "close_fault flt zip_filename = Some e"
      and pf: "prefix dn registry" and nf: "dn = registry \<longrightarrow> \<not> fin"
      and fs: "files w' = (files w)(zip_filename \<mapsto>
                \<lparr>members = map (stored_as ZIP_STORED) dn, finalized = fin\<rparr>)"
      and out: "stdout w' = stdout w @ ''Creating Local_Sync_Board_Cloud_Docs.zip...'' #
                map (\<lambda>item. '' - Added: '' @ fst item) dn"
    let ?a = "\<lparr>members = map (stored_as ZIP_STORED) dn, finalized = fin\<rparr>"
    note part = partial [OF pf nf]
    from fs have a: "files w' zip_filename = Some ?a" by simp
    from a part have broken: "\<exists>a. files w' zip_filename = Some a \<and>
              \<not> (finalized a \<and> length (members a) = 5)"
      by (intro exI [of _ ?a] conjI)
    from op cl out broken not_added [of dn] Some outcome show ?thesis
      by (intro exI [of _ "''Creating Local_Sync_Board_Cloud_Docs.zip...'' #
                map (\<lambda>item. '' - Added: '' @ fst item) dn"] conjI allI impI) simp_all
  next
    fix dn fin item
    assume op: "open_fault flt zip_filename = None"
      and it: "item \<in> set registry" and wf: "write_fault flt (fst item) = Some e"
      and pf: "prefix dn registry" and nf: "dn = registry \<longrightarrow> \<not> fin"
      and fs: "files w' = (files w)(zip_filename \<mapsto>
                \<lparr>members = map (stored_as ZIP_STORED) dn, finalized = fin\<rparr>)"
      and out: "stdout w' = stdout w @ ''Creating Local_Sync_Board_Cloud_Docs.zip...'' #
                map (\<lambda>item. '' - Added: '' @ fst item) dn"
    let ?a = "\<lparr>members = map (stored_as ZIP_STORED) dn, finalized = fin\<rparr>"
    note part = partial [OF pf nf]
    from fs have a: "files w' zip_filename = Some ?a" by simp
    from a part have broken: "\<exists>a. files w' zip_filename = Some a \<and>
              \<not> (finalized a \<and> length (members a) = 5)"
      by (intro exI [of _ ?a] conjI)
    from op out broken not_added [of dn] source [OF it wf] Some outcome show ?thesis
      by (intro exI [of _ "''Creating Local_Sync_Board_Cloud_Docs.zip...'' #
                map (\<lambda>item. '' - Added: '' @ fst item) dn"] conjI allI impI) simp_all
  qed
qed
qed

theorem failure_propagation_witness:
  "fst (generate_md disk_full empty_world) = Some (OSError ''No space left on device'') \<and>
   ''Done! 'Local_Sync_Board_Cloud_Docs.zip' has been created.'' \<notin>
     set (stdout (snd (generate_md disk_full empty_world))) \<and>
   (\<exists>a. files (snd (generate_md disk_full empty_world)) zip_filename = Some a \<and>
      \<not> (finalized a \<and> length (members a) = 5)) \<and>
   fst (generate_md read_only stale_world) = Some (OSError ''Permission denied'') \<and>
   ''Done! 'Local_Sync_Board_Cloud_Docs.zip' has been created.'' \<notin>
     set (stdout (snd (generate_md read_only stale_world))) \<and>
   files (snd (generate_md read_only stale_world)) = files stale_world"
proof -
  let ?full = "OSError ''No space left on device''"
  let ?denied = "OSError ''Permission denied''"
  have r1: "fst (generate_md disk_full empty_world) = Some ?full"
    by (simp add: generate_md_steps ZipFile_def registry_def writestr_def ZipFile_close_def
        print_def disk_full_def)
  have r2: "fst (generate_md read_only stale_world) = Some ?denied"
    by (simp add: generate_md_steps ZipFile_def read_only_def)
  obtain w1 where run1: "generate_md disk_full empty_world = (Some ?full, w1)"
    using r1 by (cases "generate_md disk_full empty_world") simp
  obtain w2 where run2: "generate_md read_only stale_world = (Some ?denied, w2)"
    using r2 by (cases "generate_md read_only stale_world") simp
  have op1: "open_fault disk_full zip_filename = None" by (simp add: disk_full_def)
  have op2: "open_fault read_only zip_filename \<noteq> None" by (simp add: read_only_def)
  from failure_propagation [OF run1] obtain out1 where
    out1: "stdout w1 = stdout empty_world @ out1" and
    f1: "\<forall>e. Some ?full = Some e \<longrightarrow>
        (open_fault disk_full zip_filename = Some e \<or> close_fault disk_full zip_filename = Some e \<or>
         (\<exists>n. n \<in> set [''README.md'', ''01_Requirements.md'', ''02_Basic_Design.md'',
                         ''03_Data_Model.md'', ''04_Tech_Architecture.md''] \<and>
              write_fault disk_full n = Some e)) \<and>
        ''Done! 'Local_Sync_Board_Cloud_Docs.zip' has been created.'' \<notin> set out1 \<and>
        (open_fault disk_full zip_filename \<noteq> None \<longrightarrow> files w1 = files empty_world) \<and>
        (open_fault disk_full zip_filename = None \<longrightarrow>
           (\<exists>a. files w1 zip_filename = Some a \<and>
              \<not> (finalized a \<and> length (members a) = 5)))"
    by (elim exE conjE)
  from f1 have d1: "''Done! 'Local_Sync_Board_Cloud_Docs.zip' has been created.'' \<notin> set out1"
    and a1: "open_fault disk_full zip_filename = None \<longrightarrow>
           (\<exists>a. files w1 zip_filename = Some a \<and> \<not> (finalized a \<and> length (members a) = 5))"
    by (elim allE [of _ ?full], simp)+
  from a1 op1 have broken: "\<exists>a. files w1 zip_filename = Some a \<and>
      \<not> (finalized a \<and> length (members a) = 5)"
    by (rule mp)
  from out1 d1 have quiet1: "''Done! 'Local_Sync_Board_Cloud_Docs.zip' has been created.'' \<notin>
      set (stdout w1)"
    by (simp add: empty_world_def)
  from failure_propagation [OF run2] obtain out2 where
    out2: "stdout w2 = stdout stale_world @ out2" and
    f2: "\<forall>e. Some ?denied = Some e \<longrightarrow>
        (open_fault read_only zip_filename = Some e \<or> close_fault read_only zip_filename = Some e \<or>
         (\<exists>n. n \<in> set [''README.md'', ''01_Requirements.md'', ''02_Basic_Design.md'',
                         ''03_Data_Model.md'', ''04_Tech_Architecture.md''] \<and>
              write_fault read_only n = Some e)) \<and>
        ''Done! 'Local_Sync_Board_Cloud_Docs.zip' has been created.'' \<notin> set out2 \<and>
        (open_fault read_only zip_filename \<noteq> None \<longrightarrow> files w2 = files stale_world) \<and>
        (open_fault read_only zip_filename = None \<longrightarrow>
           (\<exists>a. files w2 zip_filename = Some a \<and>
              \<not> (finalized a \<and> length (members a) = 5)))"
    by (elim exE conjE)
  from f2 have d2: "''Done! 'Local_Sync_Board_Cloud_Docs.zip' has been created.'' \<notin> set out2"
    and a2: "open_fault read_only zip_filename \<noteq> None \<longrightarrow> files w2 = files stale_world"
    by (elim allE [of _ ?denied], simp)+
  from a2 op2 have same: "files w2 = files stale_world"
    by (rule mp)
  from out2 d2 have quiet2: "''Done! 'Local_Sync_Board_Cloud_Docs.zip' has been created.'' \<notin>
      set (stdout w2)"
    by (simp add: stale_world_def)
  from quiet1 broken quiet2 same show ?thesis
    unfolding run1 run2 by simp
qed

text \<open>
  C8, as the code has it. A run that ends without an exception prints seven lines: first
  a line that announces the output path, then one progress line for each of the five
  members in the order they are written, naming the member, then the confirmation line
  that names the output path; no other line.

  The claim as stated leaves no room for the first line. At the run below, from an empty
  terminal, the output is not the five progress lines followed by the confirmation.
\<close>

theorem terminal_output:
  assumes "generate_md flt w = (None, w')"
  shows "stdout w' = stdout w @
     [''Creating Local_Sync_Board_Cloud_Docs.zip...'',
      '' - Added: README.md'',
      '' - Added: 01_Requirements.md'',
      '' - Added: 02_Basic_Design.md'',
      '' - Added: 03_Data_Model.md'',
      '' - Added: 04_Tech_Architecture.md'',
      ''Done! 'Local_Sync_Board_Cloud_Docs.zip' has been created.'']"
  using generate_md_success(2) [OF assms]
  by (simp add: registry_def)

theorem terminal_output_witness:
  "\<exists>w'. generate_md no_faults stale_world = (None, w') \<and>
     stdout w' =
       [''earlier output'',
        ''Creating Local_Sync_Board_Cloud_Docs.zip...'',
        '' - Added: README.md'',
        '' - Added: 01_Requirements.md'',
        '' - Added: 02_Basic_Design.md'',
        '' - Added: 03_Data_Model.md'',
        '' - Added: 04_Tech_Architecture.md'',
        ''Done! 'Local_Sync_Board_Cloud_Docs.zip' has been created.'']"
proof -
  from no_faults_succeeds [of stale_world] obtain w' where run: "generate_md no_faults stale_world = (None, w')" ..
  have "stdout stale_world = [''earlier output'']" by (simp add: stale_world_def)
  with terminal_output [OF run] have "stdout w' =
       [''earlier output'',
        ''Creating Local_Sync_Board_Cloud_Docs.zip...'',
        '' - Added: README.md'',
        '' - Added: 01_Requirements.md'',
        '' - Added: 02_Basic_Design.md'',
        '' - Added: 03_Data_Model.md'',
        '' - Added: 04_Tech_Architecture.md'',
        ''Done! 'Local_Sync_Board_Cloud_Docs.zip' has been created.'']"
    by simp
  with run show ?thesis by (intro exI [of _ w'] conjI)
qed

theorem terminal_output_counterexample:
  "fst (generate_md no_faults empty_world) = None \<and>
   stdout (snd (generate_md no_faults empty_world)) =
     [''Creating Local_Sync_Board_Cloud_Docs.zip...'',
      '' - Added: README.md'',
      '' - Added: 01_Requirements.md'',
      '' - Added: 02_Basic_Design.md'',
      '' - Added: 03_Data_Model.md'',
      '' - Added: 04_Tech_Architecture.md'',
      ''Done! 'Local_Sync_Board_Cloud_Docs.zip' has been created.''] \<and>
   stdout (snd (generate_md no_faults empty_world)) \<noteq>
     [ '' - Added: README.md'',
      '' - Added: 01_Requirements.md'',
      '' - Added: 02_Basic_Design.md'',
      '' - Added: 03_Data_Model.md'',
      '' - Added: 04_Tech_Architecture.md'',
      ''Done! 'Local_Sync_Board_Cloud_Docs.zip' has been created.'']"
proof -
  from no_faults_succeeds [of empty_world] obtain w' where run: "generate_md no_faults empty_world = (None, w')" ..
  have "stdout empty_world = []" by (simp add: empty_world_def)
  with generate_md_success(2) [OF run] have "stdout w' =
     [''Creating Local_Sync_Board_Cloud_Docs.zip...'',
      '' - Added: README.md'',
      '' - Added: 01_Requirements.md'',
      '' - Added: 02_Basic_Design.md'',
      '' - Added: 03_Data_Model.md'',
      '' - Added: 04_Tech_Architecture.md'',
      ''Done! 'Local_Sync_Board_Cloud_Docs.zip' has been created.'']"
    by (simp add: registry_def)
  then show ?thesis unfolding run by simp
qed

text \<open>
  C9, as the code has it. A run that ends without an exception changes one file, the
  archive at the output path, and that archive holds every item of the dict as a member
  of its own, under the name of the item and with the bytes of the item, stored with the
  method \<^verbatim>\<open>ZIP_STORED\<close>: the members are not compressed, since the script opens the
  archive without a \<^verbatim>\<open>compression\<close> argument.

  The claim as stated has every member compressed. At the run below all five members
  carry the method \<^verbatim>\<open>ZIP_STORED\<close>.
\<close>

theorem members_stored:
  assumes "generate_md flt w = (None, w')"
  shows "\<exists>fc a. files_content = Inr fc \<and> files w' = (files w)(zip_filename \<mapsto> a) \<and>
     members a = map (stored_as ZIP_STORED) (dict_items fc) \<and>
     map member_name (members a) = map fst (dict_items fc) \<and>
     map member_data (members a) = map snd (dict_items fc) \<and>
     list_all (\<lambda>m. member_method m = ZIP_STORED) (members a)"
proof -
  let ?a = "\<lparr>members = map (stored_as ZIP_STORED) registry, finalized = True\<rparr>"
  note a = generate_md_success(1) [OF assms]
  have mem: "members ?a = map (stored_as ZIP_STORED) (dict_items registry)"
    by (simp add: dict_items_def)
  have names: "map member_name (members ?a) = map fst (dict_items registry)"
    by (simp add: dict_items_def stored_as_def comp_def)
  have bytes: "map member_data (members ?a) = map snd (dict_items registry)"
    by (simp add: dict_items_def stored_as_def comp_def)
  have uncompressed: "list_all (\<lambda>m. member_method m = ZIP_STORED) (members ?a)"
    by (simp add: list_all_iff stored_as_def)
  from files_content_value a mem names bytes uncompressed show ?thesis
    by (intro exI [of _ registry] exI [of _ ?a] conjI)
qed

theorem members_stored_witness:
  "\<exists>w'. generate_md no_faults empty_world = (None, w') \<and>
     (\<exists>fc a. files_content = Inr fc \<and> files w' = (files empty_world)(zip_filename \<mapsto> a) \<and>
        members a = map (stored_as ZIP_STORED) (dict_items fc) \<and>
        map member_name (members a) = map fst (dict_items fc) \<and>
        map member_data (members a) = map snd (dict_items fc) \<and>
        list_all (\<lambda>m. member_method m = ZIP_STORED) (members a))"
proof -
  from no_faults_succeeds [of empty_world] obtain w' where run: "generate_md no_faults empty_world = (None, w')" ..
  from run members_stored [OF run] show ?thesis
    by (intro exI [of _ w'] conjI)
qed

theorem members_stored_counterexample:
  "map_option (\<lambda>a. map member_method (members a))
     (files (snd (generate_md no_faults empty_world)) zip_filename) =
   Some [ZIP_STORED, ZIP_STORED, ZIP_STORED, ZIP_STORED, ZIP_STORED]"
proof -
  from no_faults_succeeds [of empty_world] obtain w' where run: "generate_md no_faults empty_world = (None, w')" ..
  from generate_md_success(1) [OF run] show ?thesis
    unfolding run by (simp add: registry_def stored_as_def)
qed

text \<open>
  C10. No name in the dict contains a path separator, so after a run that ends without
  an exception no member name of the archive does: every member is at the root of the
  archive.
\<close>

theorem flat_entry_names:
  "(\<exists>fc. files_content = Inr fc \<and> list_all flat_name (map fst (dict_items fc))) \<and>
   (generate_md flt w = (None, w') \<longrightarrow>
      (\<exists>a. files w' zip_filename = Some a \<and> length (members a) = 5 \<and>
         list_all flat_name (map member_name (members a))))"
proof -
  let ?a = "\<lparr>members = map (stored_as ZIP_STORED) registry, finalized = True\<rparr>"
  have flat: "list_all flat_name (map fst registry)"
    unfolding registry_names by (simp add: flat_name_def)
  then have "list_all flat_name (map fst (dict_items registry))"
    by (simp add: dict_items_def)
  with files_content_value
  have reg: "\<exists>fc. files_content = Inr fc \<and> list_all flat_name (map fst (dict_items fc))"
    by (intro exI [of _ registry] conjI)
  have names: "map member_name (members ?a) = map fst registry"
    by (simp add: stored_as_def comp_def)
  have len: "length (members ?a) = 5" by (simp add: registry_def)
  have arch: "\<exists>a. files w' zip_filename = Some a \<and> length (members a) = 5 \<and>
         list_all flat_name (map member_name (members a))"
    if run: "generate_md flt w = (None, w')"
  proof -
    have a: "files w' zip_filename = Some ?a"
      using generate_md_success(1) [OF run] by simp
    from flat have "list_all flat_name (map member_name (members ?a))"
      unfolding names .
    with a len show ?thesis by (intro exI [of _ ?a] conjI)
  qed
  from reg arch show ?thesis by (intro conjI impI)
qed

theorem flat_entry_names_witness:
  "\<exists>w'. generate_md no_faults empty_world = (None, w') \<and>
     (\<exists>fc. files_content = Inr fc \<and> list_all flat_name (map fst (dict_items fc))) \<and>
     (\<exists>a. files w' zip_filename = Some a \<and> length (members a) = 5 \<and>
        list_all flat_name (map member_name (members a)))"
proof -
  from no_faults_succeeds [of empty_world] obtain w' where run: "generate_md no_faults empty_world = (None, w')" ..
  note inst = flat_entry_names [of no_faults empty_world w']
  from inst have reg: "\<exists>fc. files_content = Inr fc \<and> list_all flat_name (map fst (dict_items fc))"
    by (rule conjunct1)
  from inst have "generate_md no_faults empty_world = (None, w') \<longrightarrow>
      (\<exists>a. files w' zip_filename = Some a \<and> length (members a) = 5 \<and>
         list_all flat_name (map member_name (members a)))"
    by (rule conjunct2)
  with run have arch: "\<exists>a. files w' zip_filename = Some a \<and> length (members a) = 5 \<and>
         list_all flat_name (map member_name (members a))"
    by (rule rev_mp)
  from run reg arch show ?thesis by (intro exI [of _ w'] conjI)
qed


end
